theory Spec2Isabelle
  imports Complex_Main
begin

section \<open>Python values\<close>

text \<open>
  A Python \<open>str\<close> is the list of its Unicode code points, so that \<open>str.strip\<close> and
  the non-ASCII dictionary keys of the save format are exactly what the source handles.
  \<open>str\<close> turns an ASCII literal into such a list.
\<close>

type_synonym pystr = "nat list"

definition str :: "string \<Rightarrow> pystr" where
  "str s = map of_char s"

text \<open>The enumerations of \<open>physicsLab.enums\<close> and \<open>physicsLab._core\<close> the source names.\<close>

datatype OpenMode = load_by_filepath | load_by_sav_name | load_by_plar_app | crt

datatype ExperimentType = Circuit | Celestial | Electromagnetism

datatype Category = Experiment_area | Discussion_area

text \<open>
  The values the modelled code handles. A \<open>float\<close> is idealised as a real number, a tuple
  and a list are both \<open>PList\<close>, a \<open>dict\<close> is an association list in insertion order
  whose keys are strings (as in every dictionary that \<open>json.loads\<close> builds).
  \<open>PGenerate\<close> is the sentinel \<open>savTemplate.Generate\<close>, \<open>PUser\<close> an instance of
  \<open>web.User\<close>.
\<close>

datatype pyval =
    PNone
  | PBool bool
  | PInt int
  | PFloat real
  | PStr pystr
  | PList "pyval list"
  | PDict "(pystr \<times> pyval) list"
  | PGenerate
  | POpenMode OpenMode
  | PExperimentType ExperimentType
  | PCategory Category
  | PUser nat

type_synonym pydict = "(pystr \<times> pyval) list"

datatype error =
    TypeError
  | KeyError
  | IndexError
  | ValueError
  | AssertionError
  | LookupError
  | UnicodeDecodeError
  | JSONDecodeError
  | AttributeError
  | SyntaxError
  | NameError
  | FileNotFoundError
  | OtherError
  | UnresolvedReferenceError
  | InvalidSavError
  | ExperimentOpenedError
  | ExperimentNotExistError
  | ExperimentExistError
  | ExperimentTypeError

text \<open>Sequencing of computations that may raise: the first error ends the computation.\<close>

fun bind_err :: "error + 'a \<Rightarrow> ('a \<Rightarrow> error + 'b) \<Rightarrow> error + 'b" where
  "bind_err (Inl e) f = Inl e"
| "bind_err (Inr v) f = f v"

text \<open>\<open>isinstance(v, (int, float))\<close>: \<open>bool\<close> is a subclass of \<open>int\<close>.\<close>

fun is_num :: "pyval \<Rightarrow> bool" where
  "is_num (PInt i) = True"
| "is_num (PFloat r) = True"
| "is_num (PBool b) = True"
| "is_num v = False"

fun is_str :: "pyval \<Rightarrow> bool" where
  "is_str (PStr s) = True"
| "is_str v = False"

text \<open>\<open>bool(v)\<close>, the truth value of an object.\<close>

fun py_bool :: "pyval \<Rightarrow> bool" where
  "py_bool PNone = False"
| "py_bool (PBool b) = b"
| "py_bool (PInt i) = (i \<noteq> 0)"
| "py_bool (PFloat r) = (r \<noteq> 0)"
| "py_bool (PStr s) = (s \<noteq> [])"
| "py_bool (PList vs) = (vs \<noteq> [])"
| "py_bool (PDict d) = (d \<noteq> [])"
| "py_bool v = True"

text \<open>\<open>d[k]\<close> with a string key: \<open>KeyError\<close> on a dictionary without the key,
  \<open>TypeError\<close> on every other kind of object.\<close>

fun getitem :: "pyval \<Rightarrow> pystr \<Rightarrow> error + pyval" where
  "getitem (PDict d) k = (case map_of d k of None \<Rightarrow> Inl KeyError | Some v \<Rightarrow> Inr v)"
| "getitem v k = Inl TypeError"

text \<open>\<open>v[i]\<close> with a non-negative integer index.\<close>

fun getitem_int :: "pyval \<Rightarrow> nat \<Rightarrow> error + pyval" where
  "getitem_int (PList vs) i = (if i < length vs then Inr (vs ! i) else Inl IndexError)"
| "getitem_int (PStr s) i = (if i < length s then Inr (PStr [s ! i]) else Inl IndexError)"
| "getitem_int (PDict d) i = Inl KeyError"
| "getitem_int v i = Inl TypeError"

text \<open>\<open>d[k] = v\<close> on a dictionary: an existing key keeps its place, a new key is added
  last.\<close>

fun dict_set :: "pystr \<Rightarrow> pyval \<Rightarrow> pydict \<Rightarrow> pydict" where
  "dict_set k v [] = [(k, v)]"
| "dict_set k v ((k', v') # d) = (if k' = k then (k, v) # d else (k', v') # dict_set k v d)"

fun setitem :: "pyval \<Rightarrow> pystr \<Rightarrow> pyval \<Rightarrow> error + pyval" where
  "setitem (PDict d) k v = Inr (PDict (dict_set k v d))"
| "setitem w k v = Inl TypeError"

text \<open>\<open>del d[k]\<close>.\<close>

fun delitem :: "pyval \<Rightarrow> pystr \<Rightarrow> error + pyval" where
  "delitem (PDict d) k =
     (if k \<in> fst ` set d then Inr (PDict (filter (\<lambda>kv. fst kv \<noteq> k) d)) else Inl KeyError)"
| "delitem w k = Inl TypeError"

text \<open>Iterating over an object, as tuple unpacking and \<open>for\<close> do.\<close>

fun py_iter :: "pyval \<Rightarrow> error + pyval list" where
  "py_iter (PList vs) = Inr vs"
| "py_iter (PStr s) = Inr (map (\<lambda>c. PStr [c]) s)"
| "py_iter (PDict d) = Inr (map (\<lambda>kv. PStr (fst kv)) d)"
| "py_iter v = Inl TypeError"

text \<open>\<open>a, b, c = v\<close>: exactly three items, or \<open>ValueError\<close>.\<close>

definition unpack3 :: "pyval \<Rightarrow> error + (pyval \<times> pyval \<times> pyval)" where
  "unpack3 v =
     bind_err (py_iter v) (\<lambda>vs.
       case vs of [a, b, c] \<Rightarrow> Inr (a, b, c) | _ \<Rightarrow> Inl ValueError)"

section \<open>\<open>physicsLab/_tools.py\<close>\<close>

text \<open>\<open>position = namedtuple("position", ["x", "y", "z"])\<close>: the constructor stores its
  three arguments as they are.\<close>

datatype position = position (x_of: pyval) (y_of: pyval) (z_of: pyval)

text \<open>
  \<open>round(r, 4)\<close> on a float, idealised on the reals: the nearest multiple of \<open>10\<^sup>-\<^sup>4\<close>,
  a tie going to the even one.
\<close>

definition round_half_even :: "real \<Rightarrow> int" where
  "round_half_even r =
     (let f = \<lfloor>r\<rfloor>; d = r - of_int f in
      if d < 1 / 2 then f
      else if 1 / 2 < d then f + 1
      else if even f then f else f + 1)"

definition round4 :: "real \<Rightarrow> real" where
  "round4 r = of_int (round_half_even (r * 10000)) / 10000"

text \<open>\<open>round_data\<close>: \<open>round\<close> of an \<open>int\<close> (or a \<open>bool\<close>) with a number of digits
  is that integer.\<close>

fun round_data :: "pyval \<Rightarrow> error + pyval" where
  "round_data (PInt i) = Inr (PInt i)"
| "round_data (PBool b) = Inr (PInt (if b then 1 else 0))"
| "round_data (PFloat r) = Inr (PFloat (round4 r))"
| "round_data v = Inl TypeError"

fun round_all :: "pyval list \<Rightarrow> error + pyval list" where
  "round_all [] = Inr []"
| "round_all (v # vs) =
     bind_err (round_data v) (\<lambda>r. bind_err (round_all vs) (\<lambda>rs. Inr (r # rs)))"

definition roundData :: "pyval list \<Rightarrow> error + pyval" where
  "roundData num =
     (if \<not> list_all is_num num then Inl TypeError
      else if length num = 1 then round_data (hd num)
      else bind_err (round_all num) (\<lambda>rs. Inr (PList rs)))"

section \<open>\<open>electricity/_elementPosition.py\<close>\<close>

text \<open>The coordinates are numbers; every result is a \<open>float\<close>, idealised as a real.\<close>

definition translate :: "real \<Rightarrow> real \<Rightarrow> real \<Rightarrow> bool \<Rightarrow> real \<times> real \<times> real" where
  "translate x y z isBigElement =
     (let x = x * 0.15; y = y * 0.075; z = z * 0.1;
          y = (if isBigElement then y + 0.045 else y)
      in (x, y, z))"

definition change :: "real \<Rightarrow> real \<Rightarrow> real \<Rightarrow> bool \<Rightarrow> real \<times> real \<times> real" where
  "change x y z isBigElement =
     (let x = x / 0.15; y = y / 0.075; z = z / 0.1;
          y = (if isBigElement then y - 0.045 else y)
      in (x, y, z))"

section \<open>External collaborators\<close>

text \<open>
  The element classes live in the packages \<open>physicsLab.circuit\<close>,
  \<open>physicsLab.celestial\<close> and \<open>physicsLab.electromagnetism\<close>. A constructor call
  is recorded as what is called and the arguments written into the call. \<open>by_name p n\<close>
  is the expression \<open>p.n\<close> of a call made through \<open>eval\<close>, where \<open>n\<close> is the
  text put after the dot; the other classes are called directly.
\<close>

datatype package = circuit | celestial | electromagnetism

datatype element_class =
    NE555
  | eight_bit_Input
  | eight_bit_Display
  | Simple_Instrument
  | by_name package pystr

record ctor_call =
  callee :: element_class
  call_args :: "pyval list"
  call_kwargs :: pydict

text \<open>
  An element object: the call that made it, its \<open>data\<close> dictionary, the rotation
  \<open>set_rotation\<close> was last given, and the notes \<open>add_note\<close> was given.
\<close>

record element_obj =
  made_by :: ctor_call
  data :: pydict
  rotation :: "(pyval \<times> pyval \<times> pyval) option"
  added_notes :: "int list"

text \<open>\<open>Pin(element, pin_index)\<close> and \<open>Wire(source, target, color)\<close> of
  \<open>circuit.wire\<close>.\<close>

datatype pin = Pin element_obj pyval

datatype wire = Wire pin pin pyval

text \<open>
  A file on disk, as far as the code reads it: \<open>read_json enc\<close> is what
  \<open>json.loads(f.read().replace('\n', ''))\<close> gives or raises after
  \<open>open(path, encoding=enc)\<close>, \<open>detected\<close> is the encoding \<open>chardet.detect\<close>
  reports for its bytes.
\<close>

record sav_file =
  read_json :: "pystr option \<Rightarrow> error + pyval"
  detected :: "pystr option"

section \<open>\<open>physicsLab/element.py\<close>: the experiment object and the process state\<close>

record Experiment =
  open_mode :: OpenMode
  SAV_PATH :: pystr
  PlSav :: pyval
  CameraSave :: pyval
  VisionCenter :: position
  TargetRotation :: position
  experiment_type :: ExperimentType
  Elements :: "element_obj list"
  is_elementXYZ :: "bool option"
  elementXYZ_origin_position :: "position option"
  Wires :: "wire list option"

text \<open>
  The process state: the files by path (\<open>None\<close>: no such file), the names of the files
  directly in the save directory (\<open>None\<close>: no such directory), and the
  \<open>_ExperimentStack\<close>.

  Modelled from the spec: \<open>_ExperimentStack\<close> of \<open>_core\<close> is not among the sources. The
  spec has it track the open experiments "keyed by absolute file path", so the stack is
  the list of the save paths of the open experiments, oldest first.
\<close>

record state =
  files :: "pystr \<Rightarrow> sav_file option"
  sav_dir :: "pystr list option"
  stack :: "pystr list"

text \<open>
  What the modelled code takes from outside \<open>src/\<close>: constants of \<open>_core\<close>,
  \<open>enums\<close> and \<open>savTemplate\<close>, the Python built-ins \<open>json.loads\<close>, \<open>eval\<close>
  and \<open>int\<close>, \<open>os.path\<close>, the packages of element classes, \<open>randString\<close>'s
  random choice, \<open>_Experiment.__entitle\<close>, the document \<open>save\<close> writes, the failures
  of file output, and the server behind \<open>web.User\<close>.
  \<open>eval_paren v\<close> is \<open>eval(f"({v})")\<close>. \<open>call_raises c args kwargs\<close> is what the
  call of \<open>c\<close> with these arguments raises, \<open>None\<close> when it returns an object. For a
  class called directly that is what its constructor raises. For \<open>by_name p n\<close> it is
  what the evaluation of the text \<open>p.n(args, **kwargs)\<close> raises: \<open>SyntaxError\<close> for a
  text that is no expression, \<open>AttributeError\<close> for a package without an attribute
  \<open>n\<close>, \<open>NameError\<close> for a name in the text that is not defined, \<open>TypeError\<close> for
  an attribute that cannot be called so, and whatever the constructor itself raises.
  \<open>new_data\<close> is the \<open>data\<close> dictionary of a freshly constructed element;
  \<open>new_user\<close> is \<open>User()\<close>.
  \<open>save_raises\<close> is what encoding and writing the document raises in \<open>save\<close> and
  \<open>delete_raises\<close> what deleting the file raises in \<open>exit\<close>, \<open>None\<close> when they
  return.
\<close>

record env =
  SAV_PATH_DIR :: pystr
  path_join :: "pystr \<Rightarrow> pystr \<Rightarrow> pystr"
  abspath :: "pystr \<Rightarrow> pystr"
  has_chardet :: bool
  json_loads :: "pystr \<Rightarrow> error + pyval"
  eval_paren :: "pyval \<Rightarrow> error + pyval"
  py_int :: "pyval \<Rightarrow> error + int"
  call_raises :: "element_class \<Rightarrow> pyval list \<Rightarrow> pydict \<Rightarrow> error option"
  new_data :: "ctor_call \<Rightarrow> pydict"
  template :: "ExperimentType \<Rightarrow> pyval"
  type_value :: "ExperimentType \<Rightarrow> pyval"
  randString :: "nat \<Rightarrow> pystr"
  entitle :: "pystr \<Rightarrow> pyval \<Rightarrow> pyval"
  written :: "Experiment \<Rightarrow> sav_file"
  save_raises :: "Experiment \<Rightarrow> pystr option \<Rightarrow> state \<Rightarrow> error option"
  delete_raises :: "Experiment \<Rightarrow> state \<Rightarrow> error option"
  new_user :: "error + pyval"
  get_summary :: "pyval \<Rightarrow> pystr \<Rightarrow> Category \<Rightarrow> error + pyval"
  get_experiment :: "pyval \<Rightarrow> pyval \<Rightarrow> error + pyval"

text \<open>\<open>a == b\<close>: numbers compare by value, other objects structurally.\<close>

fun num_val :: "pyval \<Rightarrow> real" where
  "num_val (PInt i) = of_int i"
| "num_val (PFloat r) = r"
| "num_val (PBool b) = (if b then 1 else 0)"
| "num_val v = 0"

definition py_eq :: "pyval \<Rightarrow> pyval \<Rightarrow> bool" where
  "py_eq a b = (if is_num a \<and> is_num b then num_val a = num_val b else a = b)"

text \<open>\<open>k in d.keys()\<close>, \<open>d.get(k, default)\<close> and \<open>d.items()\<close>: only a dictionary has
  these methods.\<close>

fun has_key :: "pyval \<Rightarrow> pystr \<Rightarrow> error + bool" where
  "has_key (PDict d) k = Inr (k \<in> fst ` set d)"
| "has_key v k = Inl AttributeError"

fun dict_get :: "pyval \<Rightarrow> pystr \<Rightarrow> pyval \<Rightarrow> error + pyval" where
  "dict_get (PDict d) k dflt = Inr (case map_of d k of None \<Rightarrow> dflt | Some v \<Rightarrow> v)"
| "dict_get v k dflt = Inl AttributeError"

fun dict_items :: "pyval \<Rightarrow> error + (pystr \<times> pyval) list" where
  "dict_items (PDict d) = Inr d"
| "dict_items v = Inl AttributeError"

text \<open>\<open>list(d.values())\<close>.\<close>

fun dict_values :: "pyval \<Rightarrow> error + pyval" where
  "dict_values (PDict d) = Inr (PList (map snd d))"
| "dict_values v = Inl AttributeError"

text \<open>\<open>s.startswith(p)\<close>, \<open>s.endswith(p)\<close> and \<open>s.replace(old, new)\<close>.\<close>

definition startswith :: "pystr \<Rightarrow> pystr \<Rightarrow> bool" where
  "startswith s p = (take (length p) s = p)"

definition endswith :: "pystr \<Rightarrow> pystr \<Rightarrow> bool" where
  "endswith s p = (length p \<le> length s \<and> drop (length s - length p) s = p)"

fun replace_sub :: "pystr \<Rightarrow> pystr \<Rightarrow> pystr \<Rightarrow> pystr" where
  "replace_sub old new [] = []"
| "replace_sub old new (c # cs) =
     (if old \<noteq> [] \<and> take (length old) (c # cs) = old
      then new @ replace_sub old new (drop (length old - 1) cs)
      else c # replace_sub old new cs)"

section \<open>\<open>crt_element\<close>\<close>

text \<open>\<open>str.strip()\<close> removes the leading and trailing characters that
  \<open>str.isspace\<close> accepts.\<close>

definition py_isspace :: "nat \<Rightarrow> bool" where
  "py_isspace c =
     (c \<in> set [9, 10, 11, 12, 13, 28, 29, 30, 31, 32, 133, 160, 5760,
                 8192, 8193, 8194, 8195, 8196, 8197, 8198, 8199, 8200, 8201, 8202,
                 8232, 8233, 8239, 8287, 12288])"

definition strip :: "pystr \<Rightarrow> pystr" where
  "strip s = rev (dropWhile py_isspace (rev (dropWhile py_isspace s)))"

text \<open>\<open>s.replace(a, b)\<close> for one-character \<open>a\<close> and \<open>b\<close>.\<close>

definition replace :: "nat \<Rightarrow> nat \<Rightarrow> pystr \<Rightarrow> pystr" where
  "replace a b s = map (\<lambda>c. if c = a then b else c) s"

text \<open>\<open>name.strip().replace(' ', '_').replace('-', '_')\<close>\<close>

definition normalize_name :: "pystr \<Rightarrow> pystr" where
  "normalize_name name = replace 45 95 (replace 32 95 (strip name))"

text \<open>
  A call of an element class, made directly or as \<open>eval(f"pkg.{name}(...)")\<close>, where the
  text made of the package, a dot, the name and the arguments in parentheses is
  evaluated. Whatever the call raises is raised; when it returns, the call is recorded
  with what was called and the arguments written into it.
\<close>

definition call_class ::
  "env \<Rightarrow> element_class \<Rightarrow> pyval list \<Rightarrow> pydict \<Rightarrow> error + ctor_call" where
  "call_class e c args kwargs =
     (case call_raises e c args kwargs of
        Some err \<Rightarrow> Inl err
      | None \<Rightarrow> Inr \<lparr>callee = c, call_args = args, call_kwargs = kwargs\<rparr>)"

definition crt_element ::
  "env \<Rightarrow> Experiment \<Rightarrow> pyval \<Rightarrow> pyval \<Rightarrow> pyval \<Rightarrow> pyval \<Rightarrow> pyval \<Rightarrow> pyval list \<Rightarrow> pydict
     \<Rightarrow> error + ctor_call" where
  "crt_element e experiment name x y z elementXYZ args kwargs =
     (case name of
        PStr nm \<Rightarrow>
          if is_num x \<and> is_num y \<and> is_num z then
            (let name = normalize_name nm in
             bind_err (roundData [x, y, z]) (\<lambda>r.
             bind_err (unpack3 r) (\<lambda>(x, y, z).
               case experiment_type experiment of
                 Circuit \<Rightarrow>
                   if name = str ''555_Timer'' then
                     call_class e NE555 [x, y, z, elementXYZ] []
                   else if name = str ''8bit_Input'' then
                     call_class e eight_bit_Input [x, y, z, elementXYZ] []
                   else if name = str ''8bit_Display'' then
                     call_class e eight_bit_Display [x, y, z, elementXYZ] []
                   else call_class e (by_name circuit name) ([x, y, z, elementXYZ] @ args) kwargs
               | Celestial \<Rightarrow> call_class e (by_name celestial name) [x, y, z] []
               | Electromagnetism \<Rightarrow>
                   call_class e (by_name electromagnetism name) [x, y, z] [])))
          else Inl TypeError
      | _ \<Rightarrow> Inl TypeError)"

section \<open>\<open>_open_sav\<close> and \<open>search_experiment\<close>\<close>

text \<open>The inner \<open>encode_sav\<close>: a \<open>JSONDecodeError\<close> or a \<open>UnicodeDecodeError\<close> becomes
  \<open>None\<close>, any other error is not caught.\<close>

definition encode_sav :: "sav_file \<Rightarrow> pystr option \<Rightarrow> error + pyval" where
  "encode_sav f encoding =
     (case read_json f encoding of
        Inl err \<Rightarrow> if err = JSONDecodeError \<or> err = UnicodeDecodeError then Inr PNone else Inl err
      | Inr d \<Rightarrow> Inr d)"

text \<open>The loop over the fallback encodings; \<open>None\<close> when it ends without a return.\<close>

fun try_encodings :: "sav_file \<Rightarrow> pystr list \<Rightarrow> error + pyval" where
  "try_encodings f [] = Inr PNone"
| "try_encodings f (encoding # rest) =
     bind_err (encode_sav f (Some encoding)) (\<lambda>res.
       if res \<noteq> PNone then Inr res else try_encodings f rest)"

definition open_sav :: "env \<Rightarrow> state \<Rightarrow> pystr \<Rightarrow> error + pyval" where
  "open_sav e s sav_path =
     (case files s sav_path of
        None \<Rightarrow> Inl AssertionError
      | Some f \<Rightarrow>
          bind_err (encode_sav f (Some (str ''utf-8''))) (\<lambda>res.
            if res \<noteq> PNone then Inr res
            else
              bind_err
                (if has_chardet e then encode_sav f (detected f)
                 else try_encodings f [str ''utf-8-sig'', str ''gbk''])
                (\<lambda>res. if res \<noteq> PNone then Inr res else Inl InvalidSavError)))"

text \<open>\<open>_get_all_pl_sav\<close>: \<open>os.walk\<close> yields nothing for a directory that does not
  exist, and \<open>[...][0]\<close> raises.\<close>

definition get_all_pl_sav :: "state \<Rightarrow> error + pystr list" where
  "get_all_pl_sav s =
     (case sav_dir s of
        None \<Rightarrow> Inl IndexError
      | Some savs \<Rightarrow> Inr (filter (\<lambda>aSav. endswith aSav (str ''.sav'')) savs))"

text \<open>The loop of \<open>search_experiment\<close>; \<open>None\<close> is the result \<open>(None, None)\<close>.\<close>

fun search_loop :: "env \<Rightarrow> state \<Rightarrow> pystr \<Rightarrow> pystr list \<Rightarrow> error + (pystr \<times> pyval) option" where
  "search_loop e s sav_name [] = Inr None"
| "search_loop e s sav_name (aSav # rest) =
     (case open_sav e s (path_join e (SAV_PATH_DIR e) aSav) of
        Inl err \<Rightarrow> if err = InvalidSavError then search_loop e s sav_name rest else Inl err
      | Inr sav \<Rightarrow>
          bind_err (getitem sav (str ''InternalName'')) (\<lambda>n.
            if py_eq n (PStr sav_name) then Inr (Some (aSav, sav))
            else search_loop e s sav_name rest))"

definition search_experiment :: "env \<Rightarrow> state \<Rightarrow> pystr \<Rightarrow> error + (pystr \<times> pyval) option" where
  "search_experiment e s sav_name = bind_err (get_all_pl_sav s) (search_loop e s sav_name)"

section \<open>Loading a save document\<close>

text \<open>The keys of the save format that are not ASCII.\<close>

definition key_lock :: pystr where
  "key_lock = [0x9501, 0x5B9A]"

definition key_instrument :: pystr where
  "key_instrument = [0x4E50, 0x5668]"

definition key_pitch :: pystr where
  "key_pitch = [0x97F3, 0x9AD8]"

definition key_velocity :: pystr where
  "key_velocity = [0x97F3, 0x91CF]"

definition key_rated_voltage :: pystr where
  "key_rated_voltage = [0x989D, 0x5B9A, 0x7535, 0x538B]"

definition key_ideal_model :: pystr where
  "key_ideal_model = [0x7406, 0x60F3, 0x6A21, 0x5F0F]"

definition key_pulse :: pystr where
  "key_pulse = [0x8109, 0x51B2]"

text \<open>\<open>(temp[0], temp[2], temp[1])\<close>, read in that order.\<close>

definition swap_yz :: "pyval \<Rightarrow> error + (pyval \<times> pyval \<times> pyval)" where
  "swap_yz temp =
     bind_err (getitem_int temp 0) (\<lambda>a.
     bind_err (getitem_int temp 2) (\<lambda>b.
     bind_err (getitem_int temp 1) (\<lambda>c. Inr (a, b, c))))"

text \<open>
  \<open>Experiment.__load\<close>. The attributes set before it (\<open>open_mode\<close>, \<open>SAV_PATH\<close>,
  \<open>PlSav\<close>, the empty \<open>Elements\<close>) are its arguments; it gives the object with the
  camera and the experiment type read from the document.
\<close>

definition load :: "env \<Rightarrow> OpenMode \<Rightarrow> pystr \<Rightarrow> pyval \<Rightarrow> error + Experiment" where
  "load e mode path plsav =
     bind_err (getitem plsav (str ''Experiment'')) (\<lambda>ex.
     bind_err (getitem ex (str ''CameraSave'')) (\<lambda>cs.
       case cs of
         PStr cs_text \<Rightarrow>
           bind_err (json_loads e cs_text) (\<lambda>camera.
           bind_err (getitem camera (str ''VisionCenter'')) (\<lambda>vc.
           bind_err (eval_paren e vc) (\<lambda>temp.
           bind_err (swap_yz temp) (\<lambda>(vx, vy, vz).
           bind_err (getitem camera (str ''TargetRotation'')) (\<lambda>tr.
           bind_err (eval_paren e tr) (\<lambda>temp.
           bind_err (swap_yz temp) (\<lambda>(tx, ty, tz).
           bind_err (getitem plsav (str ''Summary'')) (\<lambda>summary.
           bind_err
             (if summary = PNone
              then bind_err (getitem (template e Circuit) (str ''Summary''))
                     (setitem plsav (str ''Summary''))
              else Inr plsav) (\<lambda>plsav.
           bind_err (getitem plsav (str ''Experiment'')) (\<lambda>ex.
           bind_err (getitem ex (str ''Type'')) (\<lambda>tp.
             let self = \<lparr>open_mode = mode, SAV_PATH = path, PlSav = plsav,
                         CameraSave = camera,
                         VisionCenter = position vx vy vz,
                         TargetRotation = position tx ty tz,
                         experiment_type = Circuit, Elements = [],
                         is_elementXYZ = None, elementXYZ_origin_position = None,
                         Wires = None\<rparr>
             in
             if py_eq tp (type_value e Circuit) then
               Inr (self\<lparr>experiment_type := Circuit, is_elementXYZ := Some False,
                       elementXYZ_origin_position :=
                         Some (position (PInt 0) (PInt 0) (PInt 0)),
                       Wires := Some []\<rparr>)
             else if py_eq tp (type_value e Celestial) then
               Inr (self\<lparr>experiment_type := Celestial\<rparr>)
             else if py_eq tp (type_value e Electromagnetism) then
               Inr (self\<lparr>experiment_type := Electromagnetism\<rparr>)
             else Inl AssertionError)))))))))))
       | _ \<Rightarrow> Inl AssertionError))"

text \<open>A freshly constructed element.\<close>

definition new_element :: "env \<Rightarrow> ctor_call \<Rightarrow> element_obj" where
  "new_element e c = \<lparr>made_by = c, data = new_data e c, rotation = None, added_notes = []\<rparr>"

text \<open>The loop over \<open>Properties.items()\<close> of a "Simple Instrument".\<close>

fun add_notes :: "env \<Rightarrow> element_obj \<Rightarrow> (pystr \<times> pyval) list \<Rightarrow> error + element_obj" where
  "add_notes e obj [] = Inr obj"
| "add_notes e obj ((attr, val) # items) =
     (if startswith attr key_pitch
      then bind_err (py_int e val) (\<lambda>n.
             add_notes e (obj\<lparr>added_notes := added_notes obj @ [n]\<rparr>) items)
      else add_notes e obj items)"

definition load_simple_instrument ::
  "env \<Rightarrow> pyval \<Rightarrow> pyval \<Rightarrow> pyval \<Rightarrow> pyval \<Rightarrow> error + element_obj" where
  "load_simple_instrument e element x y z =
     bind_err (getitem element (str ''Properties'')) (\<lambda>props.
     bind_err (dict_get props key_instrument (PInt 0)) (\<lambda>i.
     bind_err (py_int e i) (\<lambda>instrument.
     bind_err (getitem props key_pitch) (\<lambda>p.
     bind_err (py_int e p) (\<lambda>pitch.
     bind_err (getitem props key_velocity) (\<lambda>velocity.
     bind_err (getitem props key_rated_voltage) (\<lambda>rated.
     bind_err (getitem props key_ideal_model) (\<lambda>ideal.
     bind_err (getitem props key_pulse) (\<lambda>pulse.
     bind_err
       (call_class e Simple_Instrument [x, y, z]
          [(str ''elementXYZ'', PBool False),
           (str ''instrument'', PInt instrument),
           (str ''pitch'', PInt pitch),
           (str ''velocity'', velocity),
           (str ''rated_oltage'', rated),
           (str ''is_ideal_model'', PBool (py_bool ideal)),
           (str ''is_single'', PBool (py_bool pulse))]) (\<lambda>c.
     bind_err (dict_items props) (add_notes e (new_element e c))))))))))))"

text \<open>
  The body of the loop of \<open>Experiment.__load_elements\<close>: the element object made from one
  decoded element.
\<close>

definition load_element :: "env \<Rightarrow> Experiment \<Rightarrow> pyval \<Rightarrow> error + element_obj" where
  "load_element e self element =
     bind_err (getitem element (str ''Position'')) (\<lambda>p.
     bind_err (eval_paren e p) (\<lambda>t.
     bind_err (unpack3 t) (\<lambda>(x, z, y).
       case experiment_type self of
         Circuit \<Rightarrow>
           bind_err (getitem element (str ''ModelID'')) (\<lambda>model.
           bind_err
             (if py_eq model (PStr (str ''Simple Instrument''))
              then load_simple_instrument e element x y z
              else
                bind_err (crt_element e self model x y z (PBool False) [] []) (\<lambda>c.
                bind_err (getitem element (str ''Properties'')) (\<lambda>props.
                bind_err (setitem props key_lock (PFloat 1.0)) (\<lambda>props.
                  let obj = new_element e c in
                  Inr (obj\<lparr>data := dict_set (str ''Properties'') props (data obj)\<rparr>)))))
             (\<lambda>obj.
           bind_err (getitem element (str ''Rotation'')) (\<lambda>r.
           bind_err (eval_paren e r) (\<lambda>rot.
           bind_err (swap_yz rot) (\<lambda>(r_x, r_y, r_z).
           bind_err (getitem element (str ''Identifier'')) (\<lambda>ident.
             Inr (obj\<lparr>rotation := Some (r_x, r_y, r_z),
                      data := dict_set (str ''Identifier'') ident (data obj)\<rparr>)))))))
       | Celestial \<Rightarrow>
           bind_err (getitem element (str ''Model'')) (\<lambda>model.
           bind_err (crt_element e self model x y z PNone [] []) (\<lambda>c.
           bind_err (dict_items element) (\<lambda>d.
             Inr ((new_element e c)\<lparr>data := d\<rparr>))))
       | Electromagnetism \<Rightarrow>
           bind_err (getitem element (str ''ModelID'')) (\<lambda>model.
           bind_err (crt_element e self model x y z PNone [] []) (\<lambda>c.
           bind_err (dict_items element) (\<lambda>d.
             Inr ((new_element e c)\<lparr>data := d\<rparr>)))))))"

fun load_elements_loop :: "env \<Rightarrow> Experiment \<Rightarrow> pyval list \<Rightarrow> error + element_obj list" where
  "load_elements_loop e self [] = Inr []"
| "load_elements_loop e self (element # rest) =
     bind_err (load_element e self element) (\<lambda>obj.
     bind_err (load_elements_loop e self rest) (\<lambda>objs. Inr (obj # objs)))"

text \<open>
  \<open>Experiment.__load_elements\<close>.

  Modelled from the spec: the element constructors are not among the sources. The spec
  has the experiment hold "the ordered list of elements", so the objects the loop makes
  are added to \<open>Elements\<close> in the order they are made.
\<close>

definition load_elements :: "env \<Rightarrow> Experiment \<Rightarrow> pyval \<Rightarrow> error + Experiment" where
  "load_elements e self elements =
     (case elements of
        PList els \<Rightarrow>
          bind_err (load_elements_loop e self els) (\<lambda>objs.
            Inr (self\<lparr>Elements := Elements self @ objs\<rparr>))
      | _ \<Rightarrow> Inl AssertionError)"

section \<open>Wires\<close>

text \<open>
  Modelled from the spec: \<open>get_element_from_identifier\<close> of \<open>_core\<close> and the equality of
  \<open>Wire\<close> are not among the sources. The spec resolves an identifier "by looking up each
  decoded Element's assigned identifier" and "fails with a structural error if an
  identifier is unresolved"; a wire equals the wire with source and target swapped, and the
  wires form a set.
\<close>

definition get_element_from_identifier :: "Experiment \<Rightarrow> pyval \<Rightarrow> error + element_obj" where
  "get_element_from_identifier self ident =
     (case find (\<lambda>obj. map_of (data obj) (str ''Identifier'') = Some ident) (Elements self) of
        None \<Rightarrow> Inl UnresolvedReferenceError
      | Some obj \<Rightarrow> Inr obj)"

fun wire_eq :: "wire \<Rightarrow> wire \<Rightarrow> bool" where
  "wire_eq (Wire a b c) (Wire a' b' c') =
     (c = c' \<and> ((a = a' \<and> b = b') \<or> (a = b' \<and> b = a')))"

definition wires_add :: "wire \<Rightarrow> wire list \<Rightarrow> wire list" where
  "wires_add w ws = (if list_ex (wire_eq w) ws then ws else ws @ [w])"

text \<open>\<open>Experiment.__load_wires\<close>: the loop, then the method.\<close>

fun load_wires_loop :: "Experiment \<Rightarrow> wire list \<Rightarrow> pyval list \<Rightarrow> error + wire list" where
  "load_wires_loop self ws [] = Inr ws"
| "load_wires_loop self ws (wire_dict # rest) =
     bind_err (getitem wire_dict (str ''Source'')) (\<lambda>src.
     bind_err (get_element_from_identifier self src) (\<lambda>source.
     bind_err (getitem wire_dict (str ''SourcePin'')) (\<lambda>source_pin.
     bind_err (getitem wire_dict (str ''Target'')) (\<lambda>tgt.
     bind_err (get_element_from_identifier self tgt) (\<lambda>target.
     bind_err (getitem wire_dict (str ''TargetPin'')) (\<lambda>target_pin.
     bind_err (getitem wire_dict (str ''ColorName'')) (\<lambda>color_name.
     bind_err (getitem_int color_name 0) (\<lambda>color.
       load_wires_loop self
         (wires_add (Wire (Pin source source_pin) (Pin target target_pin) color) ws)
         rest))))))))"

definition load_wires :: "Experiment \<Rightarrow> pyval \<Rightarrow> error + Experiment" where
  "load_wires self wires_list =
     (if experiment_type self = Circuit then
        bind_err (py_iter wires_list) (\<lambda>ws.
        bind_err (load_wires_loop self (case Wires self of None \<Rightarrow> [] | Some w \<Rightarrow> w) ws)
          (\<lambda>w. Inr (self\<lparr>Wires := Some w\<rparr>)))
      else Inl AssertionError)"

section \<open>\<open>Experiment.__init__\<close>\<close>

text \<open>
  Modelled from the spec: the operations of \<open>_ExperimentStack\<close> (\<open>_core\<close>, not among the
  sources). An experiment is on the stack when its save path is; \<open>push\<close> adds an entry,
  \<open>remove\<close> takes one away.
\<close>

definition ExperimentStack_inside :: "pystr list \<Rightarrow> pystr \<Rightarrow> bool" where
  "ExperimentStack_inside st path = (path \<in> set st)"

definition ExperimentStack_push :: "pystr list \<Rightarrow> pystr \<Rightarrow> pystr list" where
  "ExperimentStack_push st path = st @ [path]"

definition ExperimentStack_remove :: "pystr list \<Rightarrow> pystr \<Rightarrow> pystr list" where
  "ExperimentStack_remove st path = remove1 path st"

text \<open>The \<open>if\<close>/\<open>elif\<close> chain that copies the template of the document's type.\<close>

definition template_of_type :: "env \<Rightarrow> pyval \<Rightarrow> error + pyval" where
  "template_of_type e ty =
     (if py_eq ty (type_value e Circuit) then Inr (template e Circuit)
      else if py_eq ty (type_value e Celestial) then Inr (template e Celestial)
      else if py_eq ty (type_value e Electromagnetism) then Inr (template e Electromagnetism)
      else Inl AssertionError)"

text \<open>\<open>os.remove\<close>: the file is gone from the disk and from the listing of the save
  directory.\<close>

definition os_remove :: "env \<Rightarrow> pystr \<Rightarrow> state \<Rightarrow> error + state" where
  "os_remove e path s =
     (if files s path = None then Inl FileNotFoundError
      else Inr (s\<lparr>files := (files s)(path := None),
                  sav_dir := map_option
                    (filter (\<lambda>n. path_join e (SAV_PATH_DIR e) n \<noteq> path)) (sav_dir s)\<rparr>))"

text \<open>The branch \<open>open_mode == OpenMode.load_by_filepath\<close>.\<close>

definition init_load_by_filepath :: "env \<Rightarrow> state \<Rightarrow> pyval list \<Rightarrow> error + Experiment" where
  "init_load_by_filepath e s args =
     (case args of
        [] \<Rightarrow> Inl ValueError
      | sav_name # rest \<Rightarrow>
          (case sav_name of
             PStr name \<Rightarrow>
               if rest = [] then
                 (let path = abspath e name in
                  if files s path = None then Inl FileNotFoundError
                  else if ExperimentStack_inside (stack s) path then Inl ExperimentOpenedError
                  else
                    bind_err (open_sav e s path) (\<lambda>temp.
                    bind_err (has_key temp (str ''Experiment'')) (\<lambda>whole.
                    bind_err
                      (if whole then Inr temp
                       else
                         bind_err (getitem temp (str ''Type'')) (\<lambda>ty.
                         bind_err (template_of_type e ty) (\<lambda>t.
                           setitem t (str ''Experiment'') temp)))
                      (load e load_by_filepath path))))
               else Inl TypeError
           | _ \<Rightarrow> Inl TypeError))"

text \<open>The branch \<open>open_mode == OpenMode.load_by_sav_name\<close>.\<close>

definition init_load_by_sav_name :: "env \<Rightarrow> state \<Rightarrow> pyval list \<Rightarrow> error + Experiment" where
  "init_load_by_sav_name e s args =
     (case args of
        [] \<Rightarrow> Inl ValueError
      | sav_name # rest \<Rightarrow>
          (case sav_name of
             PStr name \<Rightarrow>
               if rest = [] then
                 bind_err (search_experiment e s name) (\<lambda>found.
                   case found of
                     None \<Rightarrow> Inl ExperimentNotExistError
                   | Some (filename, plsav) \<Rightarrow>
                       (let path = path_join e (SAV_PATH_DIR e) filename in
                        if ExperimentStack_inside (stack s) path
                        then Inl ExperimentOpenedError
                        else load e load_by_sav_name path plsav))
               else Inl TypeError
           | _ \<Rightarrow> Inl TypeError))"

text \<open>The branch \<open>open_mode == OpenMode.load_by_plar_app\<close>. The default \<open>User()\<close> of
  \<open>kwargs.get\<close> is made before the lookup.\<close>

definition init_load_by_plar_app ::
  "env \<Rightarrow> state \<Rightarrow> pyval list \<Rightarrow> pydict \<Rightarrow> error + Experiment" where
  "init_load_by_plar_app e s args kwargs =
     (case args of
        content_id # category # rest \<Rightarrow>
          (case (content_id, category) of
             (PStr cid, PCategory cat) \<Rightarrow>
               if rest = [] then
                 bind_err (new_user e) (\<lambda>dflt.
                 bind_err (dict_get (PDict kwargs) (str ''user'') dflt) (\<lambda>user.
                   case user of
                     PUser u \<Rightarrow>
                       (let path = path_join e (SAV_PATH_DIR e) (cid @ str ''.sav'') in
                        if ExperimentStack_inside (stack s) path
                        then Inl ExperimentOpenedError
                        else
                          bind_err (get_summary e user cid cat) (\<lambda>r.
                          bind_err (getitem r (str ''Data'')) (\<lambda>summary.
                          bind_err (delitem summary (str ''$type'')) (\<lambda>summary.
                          bind_err (getitem summary (str ''ContentID'')) (\<lambda>content.
                          bind_err (get_experiment e user content) (\<lambda>r.
                          bind_err (getitem r (str ''Data'')) (\<lambda>experiment.
                          bind_err (delitem experiment (str ''$type'')) (\<lambda>experiment.
                          bind_err (getitem experiment (str ''Type'')) (\<lambda>ty.
                          bind_err (template_of_type e ty) (\<lambda>t.
                          bind_err (setitem t (str ''Experiment'') experiment) (\<lambda>t.
                          bind_err (setitem t (str ''Summary'') summary)
                            (load e load_by_plar_app path))))))))))))
                   | _ \<Rightarrow> Inl TypeError))
               else Inl TypeError
           | _ \<Rightarrow> Inl TypeError)
      | _ \<Rightarrow> Inl ValueError)"

text \<open>The new experiment of the branch \<open>open_mode == OpenMode.crt\<close>, from line 259 on.\<close>

definition crt_new :: "env \<Rightarrow> pystr \<Rightarrow> ExperimentType \<Rightarrow> Experiment" where
  "crt_new e name ty =
     (let path = path_join e (SAV_PATH_DIR e) (randString e 34 @ str ''.sav'');
          camera = (\<lambda>m d. PDict [(str ''Mode'', PInt m), (str ''Distance'', PFloat d),
                                 (str ''VisionCenter'', PGenerate),
                                 (str ''TargetRotation'', PGenerate)]);
          self = \<lparr>open_mode = crt, SAV_PATH = path, PlSav = template e ty,
                  CameraSave = PNone,
                  VisionCenter = position PNone PNone PNone,
                  TargetRotation = position PNone PNone PNone,
                  experiment_type = ty, Elements = [],
                  is_elementXYZ = None, elementXYZ_origin_position = None,
                  Wires = None\<rparr>;
          self =
            (case ty of
               Circuit \<Rightarrow>
                 self\<lparr>is_elementXYZ := Some False,
                      elementXYZ_origin_position :=
                        Some (position (PInt 0) (PInt 0) (PInt 0)),
                      Wires := Some [],
                      CameraSave := camera 0 2.7,
                      VisionCenter := position (PInt 0) (PFloat (- 0.45)) (PFloat 1.08),
                      TargetRotation := position (PInt 50) (PInt 0) (PInt 0)\<rparr>
             | Celestial \<Rightarrow>
                 self\<lparr>CameraSave := camera 2 2.75,
                      VisionCenter := position (PInt 0) (PInt 0) (PFloat 1.08),
                      TargetRotation := position (PInt 90) (PInt 0) (PInt 0)\<rparr>
             | Electromagnetism \<Rightarrow>
                 self\<lparr>CameraSave := camera 0 3.25,
                      VisionCenter := position (PInt 0) (PInt 0) (PFloat 0.88),
                      TargetRotation := position (PInt 90) (PInt 0) (PInt 0)\<rparr>)
      in self\<lparr>PlSav := entitle e name (PlSav self)\<rparr>)"

text \<open>The branch \<open>open_mode == OpenMode.crt\<close> after its type checks (lines 249 to 291);
  it may delete files.\<close>

definition crt_branch ::
  "env \<Rightarrow> state \<Rightarrow> pystr \<Rightarrow> ExperimentType \<Rightarrow> bool \<Rightarrow> state \<times> (error + Experiment)" where
  "crt_branch e s name ty force_crt =
     (case search_experiment e s name of
        Inl err \<Rightarrow> (s, Inl err)
      | Inr None \<Rightarrow> (s, Inr (crt_new e name ty))
      | Inr (Some (filepath, sav)) \<Rightarrow>
          if force_crt then
            (let path = path_join e (SAV_PATH_DIR e) filepath;
                 jpg = replace_sub (str ''.sav'') (str ''.jpg'') path in
             case os_remove e path s of
               Inl err \<Rightarrow> (s, Inl err)
             | Inr s1 \<Rightarrow>
                 if files s1 jpg = None then (s1, Inr (crt_new e name ty))
                 else
                   (case os_remove e jpg s1 of
                      Inl err \<Rightarrow> (s1, Inl err)
                    | Inr s2 \<Rightarrow> (s2, Inr (crt_new e name ty))))
          else (s, Inl ExperimentExistError))"

text \<open>The branch \<open>open_mode == OpenMode.crt\<close>.\<close>

definition init_crt ::
  "env \<Rightarrow> state \<Rightarrow> pyval list \<Rightarrow> pydict \<Rightarrow> state \<times> (error + Experiment)" where
  "init_crt e s args kwargs =
     (case args of
        sav_name # exp_type # rest \<Rightarrow>
          (case (sav_name, exp_type) of
             (PStr name, PExperimentType ty) \<Rightarrow>
               if rest = [] then
                 (case dict_get (PDict kwargs) (str ''force_crt'') (PBool False) of
                    Inr (PBool force_crt) \<Rightarrow> crt_branch e s name ty force_crt
                  | _ \<Rightarrow> (s, Inl TypeError))
               else (s, Inl TypeError)
           | _ \<Rightarrow> (s, Inl TypeError))
      | _ \<Rightarrow> (s, Inl ValueError))"

text \<open>
  \<open>Experiment.__init__\<close> up to and including \<open>_ExperimentStack.push(self)\<close> (lines 152 to
  309). The assertions before the push hold of every object the branches build.
\<close>

definition Experiment_open ::
  "env \<Rightarrow> state \<Rightarrow> pyval \<Rightarrow> pyval list \<Rightarrow> pydict \<Rightarrow> state \<times> (error + Experiment)" where
  "Experiment_open e s mode args kwargs =
     (case mode of
        POpenMode m \<Rightarrow>
          if args = [] then (s, Inl TypeError)
          else
            (case (case m of
                     load_by_filepath \<Rightarrow> (s, init_load_by_filepath e s args)
                   | load_by_sav_name \<Rightarrow> (s, init_load_by_sav_name e s args)
                   | load_by_plar_app \<Rightarrow> (s, init_load_by_plar_app e s args kwargs)
                   | crt \<Rightarrow> init_crt e s args kwargs) of
               (s1, Inl err) \<Rightarrow> (s1, Inl err)
             | (s1, Inr self) \<Rightarrow>
                 (s1\<lparr>stack := ExperimentStack_push (stack s1) (SAV_PATH self)\<rparr>, Inr self))
      | _ \<Rightarrow> (s, Inl TypeError))"

text \<open>The rest of \<open>Experiment.__init__\<close> (lines 311 to 324): the elements and wires of a
  loaded document.\<close>

definition init_status :: "env \<Rightarrow> Experiment \<Rightarrow> error + Experiment" where
  "init_status e self =
     (if open_mode self = load_by_sav_name \<or> open_mode self = load_by_filepath
           \<or> open_mode self = load_by_plar_app then
        bind_err (getitem (PlSav self) (str ''Experiment'')) (\<lambda>ex.
        bind_err (getitem ex (str ''StatusSave'')) (\<lambda>text.
          case text of
            PStr status_text \<Rightarrow>
              bind_err (json_loads e status_text) (\<lambda>status_sav.
                case experiment_type self of
                  Circuit \<Rightarrow>
                    bind_err (getitem status_sav (str ''Elements'')) (\<lambda>els.
                    bind_err (load_elements e self els) (\<lambda>self.
                    bind_err (getitem status_sav (str ''Wires'')) (load_wires self)))
                | Celestial \<Rightarrow>
                    bind_err (getitem status_sav (str ''Elements'')) (\<lambda>els.
                    bind_err (dict_values els) (load_elements e self))
                | Electromagnetism \<Rightarrow>
                    bind_err (getitem status_sav (str ''Elements'')) (load_elements e self))
          | _ \<Rightarrow> Inl TypeError))
      else Inr self)"

definition Experiment_init ::
  "env \<Rightarrow> state \<Rightarrow> pyval \<Rightarrow> pyval list \<Rightarrow> pydict \<Rightarrow> state \<times> (error + Experiment)" where
  "Experiment_init e s mode args kwargs =
     (case Experiment_open e s mode args kwargs of
        (s1, Inl err) \<Rightarrow> (s1, Inl err)
      | (s1, Inr self) \<Rightarrow> (s1, init_status e self))"

section \<open>Leaving a \<open>with\<close> block\<close>

text \<open>
  A method that changes the process state and may raise gives the state it leaves and
  the exception it raises, if any. \<open>and_then\<close> runs the next call only when the first
  returned.
\<close>

definition and_then ::
  "state \<times> error option \<Rightarrow> (state \<Rightarrow> state \<times> error option) \<Rightarrow> state \<times> error option" where
  "and_then r f = (case r of (s, Some err) \<Rightarrow> (s, Some err) | (s, None) \<Rightarrow> f s)"

text \<open>
  Modelled from the spec: \<open>save\<close> and \<open>exit\<close> of \<open>_core\<close> are not among the sources. The
  spec: "\<open>save()\<close> re-encodes and writes the document (optionally to an alternate path)
  without removing the stack entry; \<open>exit(delete)\<close> removes the stack entry and, if
  \<open>delete\<close> is true, also deletes the underlying file". The spec has file
  operations "return-or-fail", their failures propagating at once, and has "no
  partial-success mode: document encode/decode either fully succeeds or raises": a
  \<open>save\<close> that raises has written nothing, and an \<open>exit\<close> whose deletion raises has
  removed the stack entry, which the spec names first. The alternate path is the
  \<open>extra_filepath\<close> of the caller at line 481: the document is written there besides
  the experiment's own file.
\<close>

definition Experiment_save ::
  "env \<Rightarrow> Experiment \<Rightarrow> pystr option \<Rightarrow> state \<Rightarrow> state \<times> error option" where
  "Experiment_save e self extra_filepath s =
     (case save_raises e self extra_filepath s of
        Some err \<Rightarrow> (s, Some err)
      | None \<Rightarrow>
          (let fs = (files s)(SAV_PATH self \<mapsto> written e self) in
           (s\<lparr>files := (case extra_filepath of None \<Rightarrow> fs | Some p \<Rightarrow> fs(p \<mapsto> written e self))\<rparr>,
            None)))"

definition Experiment_exit :: "env \<Rightarrow> Experiment \<Rightarrow> bool \<Rightarrow> state \<Rightarrow> state \<times> error option" where
  "Experiment_exit e self delete s =
     (let s1 = s\<lparr>stack := ExperimentStack_remove (stack s) (SAV_PATH self)\<rparr> in
      if delete then
        (case delete_raises e self s1 of
           Some err \<Rightarrow> (s1, Some err)
         | None \<Rightarrow> (s1\<lparr>files := (files s1)(SAV_PATH self := None)\<rparr>, None))
      else (s1, None))"

text \<open>\<open>Experiment.__exit__\<close>; \<open>exc_type\<close> is \<open>None\<close> when the block ended without an
  exception. The result holds what \<open>__exit__\<close> itself raises: the method returns
  \<open>None\<close>, so an exception of the block goes on after it.\<close>

definition Experiment_dunder_exit ::
  "env \<Rightarrow> Experiment \<Rightarrow> error option \<Rightarrow> state \<Rightarrow> state \<times> error option" where
  "Experiment_dunder_exit e self exc_type s =
     (if exc_type = None \<and> ExperimentStack_inside (stack s) (SAV_PATH self)
      then and_then (Experiment_save e self None s) (Experiment_exit e self False)
      else (s, None))"

text \<open>The deprecated class \<open>experiment\<close>: the attributes its \<open>__exit__\<close> reads, and the
  \<open>_Experiment\<close> that \<open>__enter__\<close> stored.\<close>

record with_experiment =
  w_delete :: bool
  w_write :: bool
  w_extra_filepath :: "pystr option"
  w_is_exit :: bool
  w_Experiment :: Experiment

definition experiment_dunder_exit ::
  "env \<Rightarrow> with_experiment \<Rightarrow> error option \<Rightarrow> state \<Rightarrow> state \<times> error option" where
  "experiment_dunder_exit e self exc_type s =
     (if exc_type \<noteq> None then Experiment_exit e (w_Experiment self) False s
      else if w_is_exit self then Experiment_exit e (w_Experiment self) False s
      else
        and_then
          (if w_write self \<and> \<not> w_delete self
           then Experiment_save e (w_Experiment self) (w_extra_filepath self) s
           else (s, None))
          (Experiment_exit e (w_Experiment self) (w_delete self)))"

section \<open>Example inputs\<close>

text \<open>A small environment and small documents, on which the definitions are evaluated.\<close>

definition demo_eval :: "pyval \<Rightarrow> error + pyval" where
  "demo_eval v =
     (if v = PStr (str ''1,2,3'') then Inr (PList [PInt 1, PInt 2, PInt 3])
      else if v = PStr (str ''0.123456,0,0.5'')
        then Inr (PList [PFloat 0.123456, PInt 0, PFloat 0.5])
      else if v = PStr (str ''90,0,180'') then Inr (PList [PInt 90, PInt 0, PInt 180])
      else Inl OtherError)"

definition demo_camera_text :: pystr where
  \<open>demo_camera_text =
     str ''{"VisionCenter": "0.123456,0,0.5", "TargetRotation": "90,0,180"}''\<close>

definition demo_camera :: pyval where
  "demo_camera =
     PDict [(str ''VisionCenter'', PStr (str ''0.123456,0,0.5'')),
            (str ''TargetRotation'', PStr (str ''90,0,180''))]"

definition demo_body :: "pystr \<Rightarrow> pyval" where
  "demo_body name =
     PDict [(str ''Model'', PStr name), (str ''Position'', PStr (str ''1,2,3'')),
            (str ''Rotation'', PStr (str ''90,0,180''))]"

definition demo_bodies :: pydict where
  "demo_bodies =
     [(str ''a'', demo_body (str ''Sun'')), (str ''b'', demo_body (str ''Earth'')),
      (str ''c'', demo_body (str ''Moon''))]"

definition demo_logic_input :: pyval where
  "demo_logic_input =
     PDict [(str ''ModelID'', PStr (str ''Logic Input'')),
            (str ''Identifier'', PStr (str ''id1'')),
            (str ''Position'', PStr (str ''0.123456,0,0.5'')),
            (str ''Rotation'', PStr (str ''90,0,180'')),
            (str ''Properties'', PDict [(str ''Height'', PFloat 3.0)])]"

definition demo_instrument :: pyval where
  "demo_instrument =
     PDict [(str ''ModelID'', PStr (str ''Simple Instrument'')),
            (str ''Identifier'', PStr (str ''id2'')),
            (str ''Position'', PStr (str ''0.123456,0,0.5'')),
            (str ''Rotation'', PStr (str ''90,0,180'')),
            (str ''Properties'',
               PDict [(key_rated_voltage, PFloat 3.0), (key_velocity, PFloat 1.0),
                      (key_pitch, PInt 60), (key_instrument, PInt 0),
                      (key_ideal_model, PInt 0), (key_pulse, PInt 1)])]"

definition demo_status_text :: pystr where
  \<open>demo_status_text =
     str (''{"Elements": {'' @
          ''"a": {"Model": "Sun", "Position": "1,2,3", "Rotation": "90,0,180"}, '' @
          ''"b": {"Model": "Earth", "Position": "1,2,3", "Rotation": "90,0,180"}, '' @
          ''"c": {"Model": "Moon", "Position": "1,2,3", "Rotation": "90,0,180"}}}'')\<close>

definition demo_json :: "pystr \<Rightarrow> error + pyval" where
  "demo_json s =
     (if s = demo_camera_text then Inr demo_camera
      else if s = demo_status_text then Inr (PDict [(str ''Elements'', PDict demo_bodies)])
      else Inl JSONDecodeError)"

definition demo_type_value :: "ExperimentType \<Rightarrow> pyval" where
  "demo_type_value t = PInt (case t of Circuit \<Rightarrow> 0 | Celestial \<Rightarrow> 3 | Electromagnetism \<Rightarrow> 4)"

definition demo_template :: "ExperimentType \<Rightarrow> pyval" where
  "demo_template t =
     PDict [(str ''Type'', demo_type_value t),
            (str ''Experiment'', PDict [(str ''Type'', demo_type_value t)]),
            (str ''Summary'', PDict [])]"

definition demo_doc :: pyval where
  "demo_doc =
     PDict [(str ''InternalName'', PStr (str ''T1'')),
            (str ''Summary'', PNone),
            (str ''Experiment'',
               PDict [(str ''Type'', PInt 3),
                      (str ''CameraSave'', PStr demo_camera_text),
                      (str ''StatusSave'', PStr demo_status_text)])]"

text \<open>The classes the packages of the example have, and what Python does with the text
  of a call by name: \<open>celestial.555_Timer(0, 0, 0)\<close> is no expression, the attribute
  \<open>__name__\<close> of a package is a string, which cannot be called, and a package has no
  attribute of a name that is not listed. The constructors of the example raise
  nothing.\<close>

definition demo_catalogue :: "package \<Rightarrow> pystr \<Rightarrow> bool" where
  "demo_catalogue p n =
     ((p, n) \<in> set [(circuit, str ''Logic_Input''), (celestial, str ''Sun''),
                      (celestial, str ''Earth''), (celestial, str ''Moon'')])"

definition demo_call_raises :: "element_class \<Rightarrow> pyval list \<Rightarrow> pydict \<Rightarrow> error option" where
  "demo_call_raises c args kwargs =
     (case c of
        by_name p n \<Rightarrow>
          if demo_catalogue p n then None
          else if n = str ''555_Timer'' then Some SyntaxError
          else if n = str ''__name__'' then Some TypeError
          else Some AttributeError
      | _ \<Rightarrow> None)"

definition demo_env :: env where
  "demo_env =
     \<lparr>SAV_PATH_DIR = str ''/sav'',
      path_join = (\<lambda>d f. d @ str ''/'' @ f),
      abspath = (\<lambda>p. p),
      has_chardet = False,
      json_loads = demo_json,
      eval_paren = demo_eval,
      py_int = (\<lambda>v. case v of PInt i \<Rightarrow> Inr i | _ \<Rightarrow> Inl TypeError),
      call_raises = demo_call_raises,
      new_data = (\<lambda>c. []),
      template = demo_template,
      type_value = demo_type_value,
      randString = (\<lambda>n. replicate n 97),
      entitle = (\<lambda>n d. d),
      written = (\<lambda>self. \<lparr>read_json = (\<lambda>enc. Inr (PlSav self)), detected = None\<rparr>),
      save_raises = (\<lambda>self extra s. None),
      delete_raises = (\<lambda>self s. None),
      new_user = Inr (PUser 0),
      get_summary = (\<lambda>u c k. Inl OtherError),
      get_experiment = (\<lambda>u c. Inl OtherError)\<rparr>"

text \<open>A file no encoding decodes, a file only \<open>gbk\<close> decodes (which \<open>chardet\<close> takes for
  ASCII), a file that \<open>open\<close> refuses to open, and a file in UTF-8.\<close>

definition demo_bad_file :: sav_file where
  "demo_bad_file = \<lparr>read_json = (\<lambda>enc. Inl UnicodeDecodeError), detected = Some (str ''ascii'')\<rparr>"

definition demo_gbk_file :: sav_file where
  "demo_gbk_file =
     \<lparr>read_json = (\<lambda>enc. if enc = Some (str ''gbk'') then Inr demo_doc
                          else Inl UnicodeDecodeError),
      detected = Some (str ''ascii'')\<rparr>"

definition demo_locked_file :: sav_file where
  "demo_locked_file = \<lparr>read_json = (\<lambda>enc. Inl OtherError), detected = None\<rparr>"

definition demo_utf8_file :: sav_file where
  "demo_utf8_file = \<lparr>read_json = (\<lambda>enc. Inr demo_doc), detected = Some (str ''utf-8'')\<rparr>"

definition demo_files :: "pystr \<Rightarrow> sav_file option" where
  "demo_files p =
     (if p = str ''/sav/a.sav'' then Some demo_bad_file
      else if p = str ''/sav/b.sav'' then Some demo_utf8_file
      else if p = str ''/sav/g.sav'' then Some demo_gbk_file
      else if p = str ''/sav/x.sav'' then Some demo_locked_file
      else None)"

definition demo_state :: "pystr list \<Rightarrow> state" where
  "demo_state st =
     \<lparr>files = demo_files, sav_dir = Some [str ''a.sav'', str ''readme.txt'', str ''b.sav''],
      stack = st\<rparr>"

text \<open>The experiment that \<open>load\<close> builds from \<open>demo_doc\<close>, and a new Circuit
  experiment.\<close>

definition demo_loaded :: Experiment where
  "demo_loaded =
     \<lparr>open_mode = load_by_filepath, SAV_PATH = str ''/sav/b.sav'',
      PlSav = PDict [(str ''InternalName'', PStr (str ''T1'')),
                     (str ''Summary'', PDict []),
                     (str ''Experiment'',
                        PDict [(str ''Type'', PInt 3),
                               (str ''CameraSave'', PStr demo_camera_text),
                               (str ''StatusSave'', PStr demo_status_text)])],
      CameraSave = demo_camera,
      VisionCenter = position (PFloat 0.123456) (PFloat 0.5) (PInt 0),
      TargetRotation = position (PInt 90) (PInt 180) (PInt 0),
      experiment_type = Celestial, Elements = [],
      is_elementXYZ = None, elementXYZ_origin_position = None, Wires = None\<rparr>"

definition demo_circuit :: Experiment where
  "demo_circuit = crt_new demo_env (str ''T1'') Circuit"

section \<open>Coordinate transform: properties\<close>

lemma change_translate_small:
  "(case translate x y z False of (a, b, c) \<Rightarrow> change a b c False) = (x, y, z)"
  by (simp add: translate_def change_def)

lemma change_translate_big:
  "(case translate x y z True of (a, b, c) \<Rightarrow> change a b c True) = (x, y + 0.555, z)"
  by (simp add: translate_def change_def field_simps)

text \<open>
  C1. Converting grid coordinates to native ones with \<open>translate\<close> and back with
  \<open>change\<close> under the same flag should give the original triple. With
  \<open>isBigElement\<close> set, \<open>change\<close> subtracts the offset 0.045 after dividing by 0.075
  instead of before: the origin comes back as \<open>(0, 0.555, 0)\<close>.
\<close>

theorem change_translate_big_origin:
  "(case translate 0 0 0 True of (a, b, c) \<Rightarrow> change a b c True) = (0, 0.555, 0)"
  by (simp add: translate_def change_def)

section \<open>Python values: lemmas\<close>

lemma bind_err_Inr: "bind_err m f = Inr y \<longleftrightarrow> (\<exists>x. m = Inr x \<and> f x = Inr y)"
  by (cases m) auto

lemma map_of_dict_set: "map_of (dict_set k v d) = (map_of d)(k \<mapsto> v)"
  by (induction d) (auto simp: fun_eq_iff)

lemma dict_set_same: "dict_set k v d = d \<longleftrightarrow> map_of d k = Some v"
  by (induction d) auto

lemma round_data_num: "is_num v \<Longrightarrow> \<exists>r. round_data v = Inr r"
  by (cases v) auto

lemma round_data_Inr_num: "round_data v = Inr r \<Longrightarrow> is_num v"
  by (cases v) auto

lemma roundData_three:
  "round_data x = Inr x' \<Longrightarrow> round_data y = Inr y' \<Longrightarrow> round_data z = Inr z' \<Longrightarrow>
   roundData [x, y, z] = Inr (PList [x', y', z'])"
  by (simp add: roundData_def round_data_Inr_num)

lemma unpack3_three: "unpack3 (PList [a, b, c]) = Inr (a, b, c)"
  by (simp add: unpack3_def)

lemma crt_element_rounded:
  assumes "round_data x = Inr x'" "round_data y = Inr y'" "round_data z = Inr z'"
  shows "crt_element e ex (PStr nm) x y z exyz args kwargs =
     (case experiment_type ex of
        Circuit \<Rightarrow>
          if normalize_name nm = str ''555_Timer'' then
            call_class e NE555 [x', y', z', exyz] []
          else if normalize_name nm = str ''8bit_Input'' then
            call_class e eight_bit_Input [x', y', z', exyz] []
          else if normalize_name nm = str ''8bit_Display'' then
            call_class e eight_bit_Display [x', y', z', exyz] []
          else call_class e (by_name circuit (normalize_name nm)) ([x', y', z', exyz] @ args) kwargs
      | Celestial \<Rightarrow> call_class e (by_name celestial (normalize_name nm)) [x', y', z'] []
      | Electromagnetism \<Rightarrow>
          call_class e (by_name electromagnetism (normalize_name nm)) [x', y', z'] [])"
  using assms
  by (simp add: crt_element_def roundData_three unpack3_three round_data_Inr_num Let_def)

lemma crt_element_not_str:
  "\<not> is_str name \<Longrightarrow> crt_element e ex name x y z exyz args kwargs = Inl TypeError"
  by (cases name) (simp_all add: crt_element_def)

lemma crt_element_not_num:
  "\<not> (is_num x \<and> is_num y \<and> is_num z) \<Longrightarrow>
     crt_element e ex (PStr nm) x y z exyz args kwargs = Inl TypeError"
  unfolding crt_element_def by (simp only: pyval.case if_False)

lemma call_class_cases:
  "(\<exists>err. call_class e c as kw = Inl err) \<or>
   call_class e c as kw = Inr \<lparr>callee = c, call_args = as, call_kwargs = kw\<rparr>"
  by (cases "call_raises e c as kw") (simp_all add: call_class_def)

lemma call_class_Inr: "call_class e c as kw = Inr r \<Longrightarrow> callee r = c \<and> call_args r = as"
  using call_class_cases [of e c as kw] by auto

lemma crt_element_result:
  assumes "round_data x = Inr x'" "round_data y = Inr y'" "round_data z = Inr z'"
      and "crt_element e ex (PStr nm) x y z exyz args kwargs = Inr c"
  shows "\<exists>rest. call_args c = x' # y' # z' # rest"
  using assms(4) unfolding crt_element_rounded [OF assms(1-3)]
  by (auto split: ExperimentType.splits if_splits dest!: call_class_Inr)

lemma is_str_PStr: "is_str name \<Longrightarrow> \<exists>nm. name = PStr nm"
  by (cases name) simp_all

lemma round_data_nums:
  "is_num x \<and> is_num y \<and> is_num z \<Longrightarrow>
     \<exists>x' y' z'. round_data x = Inr x' \<and> round_data y = Inr y' \<and> round_data z = Inr z'"
  using round_data_num by blast

lemma crt_element_ill_typed:
  assumes "\<not> (is_str name \<and> is_num x \<and> is_num y \<and> is_num z)"
  shows "crt_element e ex name x y z exyz args kwargs = Inl TypeError"
proof (cases "is_str name")
  case False
  then show ?thesis by (rule crt_element_not_str)
next
  case True
  then obtain nm where nm: "name = PStr nm" using is_str_PStr by blast
  from True assms have "\<not> (is_num x \<and> is_num y \<and> is_num z)" by simp
  then show ?thesis unfolding nm by (rule crt_element_not_num)
qed

lemma crt_element_Inr:
  assumes "crt_element e ex name x y z exyz args kwargs = Inr c"
  shows "\<exists>nm x' y' z' rest. name = PStr nm \<and> round_data x = Inr x' \<and>
           round_data y = Inr y' \<and> round_data z = Inr z' \<and>
           call_args c = x' # y' # z' # rest"
proof -
  have t: "is_str name \<and> is_num x \<and> is_num y \<and> is_num z"
  proof (rule ccontr)
    assume "\<not> (is_str name \<and> is_num x \<and> is_num y \<and> is_num z)"
    from crt_element_ill_typed [OF this] assms show False by simp
  qed
  then obtain nm where nm: "name = PStr nm" using is_str_PStr by blast
  from t obtain x' y' z' where
    r: "round_data x = Inr x'" "round_data y = Inr y'" "round_data z = Inr z'"
    using round_data_nums by blast
  from assms have "crt_element e ex (PStr nm) x y z exyz args kwargs = Inr c"
    by (simp add: nm)
  from crt_element_result [OF r this] nm r show ?thesis by blast
qed

lemma round_half_even_int: "round_half_even (of_int n) = n"
  by (simp add: round_half_even_def)

lemma round4_fixed: "round4 (round4 r) = round4 r"
  by (simp add: round4_def round_half_even_int)

lemma round4_digits: "round4 r * 10000 \<in> \<int>"
  by (simp add: round4_def)

lemma round_half_even_near: "\<bar>of_int (round_half_even r) - r\<bar> \<le> 1 / 2"
  unfolding round_half_even_def Let_def by (auto simp: abs_real_def) linarith+

lemma round4_near: "\<bar>round4 r - r\<bar> \<le> 1 / 20000"
  using round_half_even_near [of "r * 10000"]
  by (simp add: round4_def field_simps abs_real_def split: if_splits)

lemma round_data_idem: "round_data v = Inr r \<Longrightarrow> round_data r = Inr r"
  by (cases v) (auto simp: round4_fixed)

lemma normalize_name_map:
  "normalize_name s = map (\<lambda>c. if c = 32 \<or> c = 45 then 95 else c) (strip s)"
  by (simp add: normalize_name_def replace_def)

lemma strip_ends:
  assumes ne: "strip s \<noteq> []"
  shows "\<not> py_isspace (hd (strip s)) \<and> \<not> py_isspace (last (strip s))"
proof -
  define t where "t = dropWhile py_isspace s"
  define u where "u = dropWhile py_isspace (rev t)"
  have su: "strip s = rev u" by (simp add: strip_def t_def u_def)
  from ne su have une: "u \<noteq> []" by simp
  then have tne: "t \<noteq> []" by (auto simp: u_def)
  have "rev t = takeWhile py_isspace (rev t) @ u" by (simp add: u_def)
  then have "last (rev t) = last u" using une by (metis last_appendR)
  then have "last u = hd t" using tne by (simp add: last_rev)
  moreover have "\<not> py_isspace (hd t)" using tne unfolding t_def by (rule hd_dropWhile)
  moreover have "\<not> py_isspace (hd u)" using une unfolding u_def by (rule hd_dropWhile)
  ultimately show ?thesis using une by (simp add: su hd_rev last_rev)
qed

lemma strip_middle:
  "\<exists>pre suf. s = pre @ strip s @ suf \<and> list_all py_isspace pre \<and> list_all py_isspace suf"
proof -
  define t where "t = dropWhile py_isspace s"
  have "t = rev (rev t)" by simp
  also have "rev t = takeWhile py_isspace (rev t) @ dropWhile py_isspace (rev t)" by simp
  also have "rev \<dots> = rev (dropWhile py_isspace (rev t)) @ rev (takeWhile py_isspace (rev t))"
    by (rule rev_append)
  finally have t: "t = strip s @ rev (takeWhile py_isspace (rev t))"
    by (simp add: strip_def t_def)
  have "s = takeWhile py_isspace s @ t" by (simp add: t_def)
  with t have "s = takeWhile py_isspace s @ strip s @ rev (takeWhile py_isspace (rev t))"
    by simp
  moreover have "list_all py_isspace (takeWhile py_isspace s)"
    by (simp add: list_all_iff) (meson set_takeWhileD)
  moreover have "list_all py_isspace (rev (takeWhile py_isspace (rev t)))"
    by (simp add: list_all_iff) (meson set_takeWhileD)
  ultimately show ?thesis by blast
qed

text \<open>The middle part between two runs of whitespace that neither begins nor ends with
  whitespace is what \<open>strip\<close> gives.\<close>

lemma strip_unique:
  assumes "s = pre @ mid @ suf" and "list_all py_isspace pre" and "list_all py_isspace suf"
      and "mid = [] \<or> \<not> py_isspace (hd mid) \<and> \<not> py_isspace (last mid)"
  shows "strip s = mid"
proof (cases "mid = []")
  case True
  with assms(1-3) have "list_all py_isspace s" by simp
  then have d: "dropWhile py_isspace s = []" by (simp add: list_all_iff)
  show ?thesis unfolding strip_def d True by simp
next
  case False
  with assms(4) have h: "\<not> py_isspace (hd mid)" and l: "\<not> py_isspace (last mid)" by simp_all
  from assms(2) have "dropWhile py_isspace (pre @ mid @ suf) = dropWhile py_isspace (mid @ suf)"
    by (intro dropWhile_append2) (simp add: list_all_iff)
  also from False h have "\<dots> = mid @ suf" by (cases mid) simp_all
  finally have 1: "dropWhile py_isspace s = mid @ suf" by (simp add: assms(1))
  from assms(3) have "dropWhile py_isspace (rev suf @ rev mid) = dropWhile py_isspace (rev mid)"
    by (intro dropWhile_append2) (simp add: list_all_iff)
  also from False l have "\<dots> = rev mid" by (cases "rev mid") (simp_all add: last_rev hd_rev)
  finally show ?thesis by (simp add: strip_def 1)
qed

lemma demo_call_raises_simps:
  "call_raises demo_env (by_name celestial (str ''555_Timer'')) as kw = Some SyntaxError"
  "call_raises demo_env (by_name circuit (str ''__name__'')) as kw = Some TypeError"
  "call_raises demo_env (by_name circuit (str ''Nope'')) as kw = Some AttributeError"
  "call_raises demo_env (by_name circuit (str ''Logic_Input'')) as kw = None"
  "call_raises demo_env NE555 as kw = None"
  "call_raises demo_env eight_bit_Input as kw = None"
  "call_raises demo_env eight_bit_Display as kw = None"
  "call_raises demo_env Simple_Instrument as kw = None"
  by (simp_all add: demo_env_def demo_call_raises_def demo_catalogue_def str_def)

lemma demo_call_class:
  "demo_catalogue p n \<Longrightarrow>
     call_class demo_env (by_name p n) as kw
       = Inr \<lparr>callee = by_name p n, call_args = as, call_kwargs = kw\<rparr>"
  "call_class demo_env NE555 as kw = Inr \<lparr>callee = NE555, call_args = as, call_kwargs = kw\<rparr>"
  "call_class demo_env eight_bit_Input as kw
     = Inr \<lparr>callee = eight_bit_Input, call_args = as, call_kwargs = kw\<rparr>"
  "call_class demo_env Simple_Instrument as kw
     = Inr \<lparr>callee = Simple_Instrument, call_args = as, call_kwargs = kw\<rparr>"
  by (simp_all add: call_class_def demo_env_def demo_call_raises_def)

text \<open>
  C8 (as stated). Dispatch should pick the dedicated constructor for the name
  \<open>555_Timer\<close> in every call. In a Celestial experiment the text
  \<open>celestial.555_Timer(0, 0, 0)\<close> is evaluated instead, which is no Python expression:
  no constructor is called and a \<open>SyntaxError\<close> comes out; in a Circuit experiment
  the same call goes to \<open>NE555\<close>.
\<close>

theorem crt_element_celestial_555:
  "crt_element demo_env (crt_new demo_env (str ''T1'') Celestial) (PStr (str ''555 Timer''))
     (PInt 0) (PInt 0) (PInt 0) PNone [] []
   = call_class demo_env (by_name celestial (str ''555_Timer'')) [PInt 0, PInt 0, PInt 0] []
   \<and> call_class demo_env (by_name celestial (str ''555_Timer'')) [PInt 0, PInt 0, PInt 0] []
       = Inl SyntaxError
   \<and> crt_element demo_env (crt_new demo_env (str ''T1'') Circuit) (PStr (str ''555 Timer''))
       (PInt 0) (PInt 0) (PInt 0) PNone [] []
     = Inr \<lparr>callee = NE555, call_args = [PInt 0, PInt 0, PInt 0, PNone], call_kwargs = []\<rparr>"
proof -
  have n: "normalize_name (str ''555 Timer'') = str ''555_Timer''"
    by (simp add: normalize_name_def replace_def strip_def str_def py_isspace_def)
  have t: "experiment_type (crt_new demo_env (str ''T1'') Celestial) = Celestial"
    "experiment_type (crt_new demo_env (str ''T1'') Circuit) = Circuit"
    by (simp_all add: crt_new_def Let_def)
  have r: "round_data (PInt 0) = Inr (PInt 0)" by simp
  have "call_class demo_env (by_name celestial (str ''555_Timer'')) [PInt 0, PInt 0, PInt 0] []
          = Inl SyntaxError"
    by (simp add: call_class_def demo_call_raises_simps)
  then show ?thesis by (simp add: crt_element_rounded [OF r r r] n t demo_call_class)
qed

text \<open>
  C8 (amended). A call with a name that is not a string or a coordinate that is not a
  number raises \<open>TypeError\<close>. Otherwise the name is stripped of the whitespace around
  it (what is left neither begins nor ends with whitespace), each space and hyphen in
  it becomes an underscore, the coordinates are rounded with \<open>round_data\<close>, and then:
  in a Circuit experiment the names \<open>555_Timer\<close>, \<open>8bit_Input\<close> and \<open>8bit_Display\<close>
  go to their dedicated constructors and every other name is called by name in the
  package \<open>circuit\<close>; in a Celestial or Electromagnetism experiment every name is
  called by name in that experiment type's package. Each of these calls raises what the
  constructor, or the evaluation of the text of a call by name, raises, and is made with
  the rounded coordinates otherwise.
\<close>

theorem crt_element_dispatch:
  "(\<not> (is_str name \<and> is_num x \<and> is_num y \<and> is_num z) \<longrightarrow>
      crt_element e ex name x y z exyz args kwargs = Inl TypeError)
   \<and> (is_num x \<and> is_num y \<and> is_num z \<longrightarrow>
        (\<exists>pre mid suf x' y' z'.
           nm = pre @ mid @ suf \<and> list_all py_isspace pre \<and> list_all py_isspace suf \<and>
           (mid = [] \<or> \<not> py_isspace (hd mid) \<and> \<not> py_isspace (last mid)) \<and>
           round_data x = Inr x' \<and> round_data y = Inr y' \<and> round_data z = Inr z' \<and>
           crt_element e ex (PStr nm) x y z exyz args kwargs =
             (let n = map (\<lambda>c. if c = 32 \<or> c = 45 then 95 else c) mid in
              case experiment_type ex of
                Circuit \<Rightarrow>
                  if n = str ''555_Timer'' then call_class e NE555 [x', y', z', exyz] []
                  else if n = str ''8bit_Input'' then
                    call_class e eight_bit_Input [x', y', z', exyz] []
                  else if n = str ''8bit_Display'' then
                    call_class e eight_bit_Display [x', y', z', exyz] []
                  else call_class e (by_name circuit n) ([x', y', z', exyz] @ args) kwargs
              | Celestial \<Rightarrow> call_class e (by_name celestial n) [x', y', z'] []
              | Electromagnetism \<Rightarrow> call_class e (by_name electromagnetism n) [x', y', z'] [])))
   \<and> (call_raises e c as kw = Some err \<longrightarrow> call_class e c as kw = Inl err)
   \<and> (call_raises e c as kw = None \<longrightarrow>
        call_class e c as kw = Inr \<lparr>callee = c, call_args = as, call_kwargs = kw\<rparr>)"
proof (intro conjI impI)
  assume "\<not> (is_str name \<and> is_num x \<and> is_num y \<and> is_num z)"
  then show "crt_element e ex name x y z exyz args kwargs = Inl TypeError"
    by (rule crt_element_ill_typed)
next
  assume "is_num x \<and> is_num y \<and> is_num z"
  then obtain x' y' z' where
    r: "round_data x = Inr x'" "round_data y = Inr y'" "round_data z = Inr z'"
    using round_data_nums by blast
  from strip_middle [of nm] obtain pre suf where
    m: "nm = pre @ strip nm @ suf" "list_all py_isspace pre" "list_all py_isspace suf"
    by blast
  have ends: "strip nm = [] \<or> \<not> py_isspace (hd (strip nm)) \<and> \<not> py_isspace (last (strip nm))"
    using strip_ends [of nm] by blast
  have c: "crt_element e ex (PStr nm) x y z exyz args kwargs =
             (let n = map (\<lambda>c. if c = 32 \<or> c = 45 then 95 else c) (strip nm) in
              case experiment_type ex of
                Circuit \<Rightarrow>
                  if n = str ''555_Timer'' then call_class e NE555 [x', y', z', exyz] []
                  else if n = str ''8bit_Input'' then
                    call_class e eight_bit_Input [x', y', z', exyz] []
                  else if n = str ''8bit_Display'' then
                    call_class e eight_bit_Display [x', y', z', exyz] []
                  else call_class e (by_name circuit n) ([x', y', z', exyz] @ args) kwargs
              | Celestial \<Rightarrow> call_class e (by_name celestial n) [x', y', z'] []
              | Electromagnetism \<Rightarrow> call_class e (by_name electromagnetism n) [x', y', z'] [])"
    unfolding Let_def normalize_name_map [symmetric] by (rule crt_element_rounded [OF r])
  from m ends r c
  show "\<exists>pre mid suf x' y' z'.
           nm = pre @ mid @ suf \<and> list_all py_isspace pre \<and> list_all py_isspace suf \<and>
           (mid = [] \<or> \<not> py_isspace (hd mid) \<and> \<not> py_isspace (last mid)) \<and>
           round_data x = Inr x' \<and> round_data y = Inr y' \<and> round_data z = Inr z' \<and>
           crt_element e ex (PStr nm) x y z exyz args kwargs =
             (let n = map (\<lambda>c. if c = 32 \<or> c = 45 then 95 else c) mid in
              case experiment_type ex of
                Circuit \<Rightarrow>
                  if n = str ''555_Timer'' then call_class e NE555 [x', y', z', exyz] []
                  else if n = str ''8bit_Input'' then
                    call_class e eight_bit_Input [x', y', z', exyz] []
                  else if n = str ''8bit_Display'' then
                    call_class e eight_bit_Display [x', y', z', exyz] []
                  else call_class e (by_name circuit n) ([x', y', z', exyz] @ args) kwargs
              | Celestial \<Rightarrow> call_class e (by_name celestial n) [x', y', z'] []
              | Electromagnetism \<Rightarrow> call_class e (by_name electromagnetism n) [x', y', z'] [])"
    by blast
next
  assume "call_raises e c as kw = Some err"
  then show "call_class e c as kw = Inl err" by (simp add: call_class_def)
next
  assume "call_raises e c as kw = None"
  then show "call_class e c as kw = Inr \<lparr>callee = c, call_args = as, call_kwargs = kw\<rparr>"
    by (simp add: call_class_def)
qed

theorem crt_element_dispatch_witness:
  "crt_element demo_env (crt_new demo_env (str ''T1'') Circuit) (PStr (str '' 8bit-Input ''))
     (PFloat 0.123456) (PInt 2) (PBool True) (PBool False) [] []
   = Inr \<lparr>callee = eight_bit_Input,
          call_args = [PFloat 0.1235, PInt 2, PInt 1, PBool False], call_kwargs = []\<rparr>
   \<and> crt_element demo_env (crt_new demo_env (str ''T1'') Circuit) (PInt 5)
       (PFloat 0.123456) (PInt 2) (PBool True) (PBool False) [] [] = Inl TypeError
   \<and> call_class demo_env (by_name circuit (str ''Logic_Input'')) [PInt 0] []
       = Inr \<lparr>callee = by_name circuit (str ''Logic_Input''), call_args = [PInt 0],
              call_kwargs = []\<rparr>
   \<and> call_class demo_env (by_name circuit (str ''__name__'')) [PInt 0] [] = Inl TypeError
   \<and> call_class demo_env (by_name circuit (str ''Nope'')) [PInt 0] [] = Inl AttributeError"
proof -
  let ?ex = "crt_new demo_env (str ''T1'') Circuit"
  let ?nm = "str '' 8bit-Input ''"
  note th8 = crt_element_dispatch [where e = demo_env and ex = ?ex and name = "PInt 5"
      and x = "PFloat 0.123456" and y = "PInt 2" and z = "PBool True" and exyz = "PBool False"
      and args = "[]" and kwargs = "[]" and nm = ?nm and kw = "[]"]
  note th = th8 [where as = "[PInt 0]"]
  have t: "experiment_type ?ex = Circuit"
    by (simp add: crt_new_def Let_def)
  have ill: "\<not> (is_str (PInt 5) \<and> is_num (PFloat 0.123456) \<and> is_num (PInt 2) \<and>
               is_num (PBool True))" by simp
  from th [THEN conjunct1, THEN mp, OF ill]
  have 1: "crt_element demo_env ?ex (PInt 5) (PFloat 0.123456) (PInt 2) (PBool True)
      (PBool False) [] [] = Inl TypeError" .
  have nums: "is_num (PFloat 0.123456) \<and> is_num (PInt 2) \<and> is_num (PBool True)"
    by (simp only: is_num.simps simp_thms)
  from th [THEN conjunct2, THEN conjunct1, THEN mp, OF nums]
  obtain pre mid suf x' y' z' where
    m: "?nm = pre @ mid @ suf" "list_all py_isspace pre" "list_all py_isspace suf"
       "mid = [] \<or> \<not> py_isspace (hd mid) \<and> \<not> py_isspace (last mid)" and
    r: "round_data (PFloat 0.123456) = Inr x'" "round_data (PInt 2) = Inr y'"
       "round_data (PBool True) = Inr z'" and
    c: "crt_element demo_env ?ex (PStr ?nm) (PFloat 0.123456) (PInt 2) (PBool True)
          (PBool False) [] [] =
        (let n = map (\<lambda>c. if c = 32 \<or> c = 45 then 95 else c) mid in
         case experiment_type ?ex of
           Circuit \<Rightarrow>
             if n = str ''555_Timer'' then call_class demo_env NE555 [x', y', z', PBool False] []
             else if n = str ''8bit_Input'' then
               call_class demo_env eight_bit_Input [x', y', z', PBool False] []
             else if n = str ''8bit_Display'' then
               call_class demo_env eight_bit_Display [x', y', z', PBool False] []
             else call_class demo_env (by_name circuit n) ([x', y', z', PBool False] @ []) []
         | Celestial \<Rightarrow> call_class demo_env (by_name celestial n) [x', y', z'] []
         | Electromagnetism \<Rightarrow> call_class demo_env (by_name electromagnetism n) [x', y', z'] [])"
    by (elim exE conjE)
  from strip_unique [OF m] have "mid = strip ?nm" by simp
  then have mid: "map (\<lambda>c. if c = 32 \<or> c = 45 then 95 else c) mid = str ''8bit_Input''"
    by (simp add: strip_def str_def py_isspace_def)
  have ne: "str ''8bit_Input'' \<noteq> str ''555_Timer''" by (simp add: str_def)
  from r have r': "x' = PFloat 0.1235" "y' = PInt 2" "z' = PInt 1"
    by (simp_all add: round4_def round_half_even_def Let_def)
  from c have c': "crt_element demo_env ?ex (PStr ?nm) (PFloat 0.123456) (PInt 2) (PBool True)
          (PBool False) [] [] =
        call_class demo_env eight_bit_Input [PFloat 0.1235, PInt 2, PInt 1, PBool False] []"
    unfolding Let_def mid r' t by (simp add: ne)
  from th8 [where c = eight_bit_Input
        and as = "[PFloat 0.1235, PInt 2, PInt 1, PBool False]",
      THEN conjunct2, THEN conjunct2, THEN conjunct2, THEN mp,
      OF demo_call_raises_simps(6)]
  have 2: "crt_element demo_env ?ex (PStr ?nm) (PFloat 0.123456) (PInt 2) (PBool True)
          (PBool False) [] [] =
        Inr \<lparr>callee = eight_bit_Input,
          call_args = [PFloat 0.1235, PInt 2, PInt 1, PBool False], call_kwargs = []\<rparr>"
    unfolding c' .
  from th [where c = "by_name circuit (str ''Logic_Input'')",
      THEN conjunct2, THEN conjunct2, THEN conjunct2, THEN mp, OF demo_call_raises_simps(4)]
  have 3: "call_class demo_env (by_name circuit (str ''Logic_Input'')) [PInt 0] []
       = Inr \<lparr>callee = by_name circuit (str ''Logic_Input''), call_args = [PInt 0],
              call_kwargs = []\<rparr>" .
  from th [where c = "by_name circuit (str ''__name__'')" and err = TypeError,
      THEN conjunct2, THEN conjunct2, THEN conjunct1, THEN mp, OF demo_call_raises_simps(2)]
  have 4: "call_class demo_env (by_name circuit (str ''__name__'')) [PInt 0] [] = Inl TypeError" .
  from th [where c = "by_name circuit (str ''Nope'')" and err = AttributeError,
      THEN conjunct2, THEN conjunct2, THEN conjunct1, THEN mp, OF demo_call_raises_simps(3)]
  have 5: "call_class demo_env (by_name circuit (str ''Nope'')) [PInt 0] [] = Inl AttributeError" .
  from 1 2 3 4 5 show ?thesis by simp
qed

section \<open>Loading: lemmas\<close>

lemma swap_yz_Inr:
  "swap_yz t = Inr (a, b, c) \<longleftrightarrow>
     getitem_int t 0 = Inr a \<and> getitem_int t 2 = Inr b \<and> getitem_int t 1 = Inr c"
  by (simp add: swap_yz_def bind_err_Inr)

lemma unpack3_Inr: "unpack3 t = Inr (a, b, c) \<longleftrightarrow> py_iter t = Inr [a, b, c]"
proof (cases "py_iter t")
  case (Inl err)
  then show ?thesis by (simp add: unpack3_def)
next
  case (Inr vs)
  then show ?thesis
    by (cases vs; cases "tl vs"; cases "tl (tl vs)"; cases "tl (tl (tl vs))")
       (simp_all add: unpack3_def)
qed

lemma dict_items_Inr: "dict_items v = Inr d \<longleftrightarrow> v = PDict d"
  by (cases v) simp_all

lemma setitem_Inr: "setitem w k v = Inr w' \<longleftrightarrow> (\<exists>d. w = PDict d \<and> w' = PDict (dict_set k v d))"
  by (cases w) (simp_all add: eq_commute)

text \<open>The Circuit branch of \<open>load_element\<close> for a model other than "Simple Instrument".\<close>

lemma load_element_circuit:
  assumes "experiment_type self = Circuit"
      and "getitem element (str ''ModelID'') = Inr model"
      and "\<not> py_eq model (PStr (str ''Simple Instrument''))"
      and "load_element e self element = Inr obj"
  shows "\<exists>p t x z y c props r rot ident r_x r_y r_z.
           getitem element (str ''Position'') = Inr p \<and> eval_paren e p = Inr t \<and>
           unpack3 t = Inr (x, z, y) \<and>
           crt_element e self model x y z (PBool False) [] [] = Inr c \<and>
           getitem element (str ''Properties'') = Inr (PDict props) \<and>
           getitem element (str ''Rotation'') = Inr r \<and> eval_paren e r = Inr rot \<and>
           swap_yz rot = Inr (r_x, r_y, r_z) \<and>
           getitem element (str ''Identifier'') = Inr ident \<and>
           obj = \<lparr>made_by = c,
                  data = dict_set (str ''Identifier'') ident
                           (dict_set (str ''Properties'')
                              (PDict (dict_set key_lock (PFloat 1) props)) (new_data e c)),
                  rotation = Some (r_x, r_y, r_z), added_notes = []\<rparr>"
  using assms
  by (auto simp: load_element_def bind_err_Inr new_element_def Let_def setitem_Inr)

lemma add_notes_keeps:
  "add_notes e obj items = Inr obj' \<Longrightarrow>
     made_by obj' = made_by obj \<and> data obj' = data obj \<and> rotation obj' = rotation obj"
  by (induction e obj items rule: add_notes.induct) (auto simp: bind_err_Inr split: if_splits)

lemma load_simple_instrument_call:
  assumes "load_simple_instrument e element x y z = Inr obj"
  shows "callee (made_by obj) = Simple_Instrument \<and> call_args (made_by obj) = [x, y, z]"
  using assms
  by (auto simp: load_simple_instrument_def bind_err_Inr new_element_def
           dest!: add_notes_keeps call_class_Inr)

text \<open>The Celestial and Electromagnetism branches of \<open>load_element\<close>.\<close>

lemma load_element_other:
  assumes "experiment_type self \<noteq> Circuit"
      and "load_element e self element = Inr obj"
  shows "\<exists>p t x z y model c d.
           getitem element (str ''Position'') = Inr p \<and> eval_paren e p = Inr t \<and>
           unpack3 t = Inr (x, z, y) \<and>
           getitem element (if experiment_type self = Celestial then str ''Model''
                            else str ''ModelID'') = Inr model \<and>
           crt_element e self model x y z PNone [] [] = Inr c \<and>
           element = PDict d \<and>
           obj = \<lparr>made_by = c, data = d, rotation = None, added_notes = []\<rparr>"
proof (cases "experiment_type self")
  case Circuit
  with assms show ?thesis by simp
next
  case Celestial
  with assms(2) show ?thesis
    by (auto simp: load_element_def bind_err_Inr new_element_def dict_items_Inr)
next
  case Electromagnetism
  with assms(2) show ?thesis
    by (auto simp: load_element_def bind_err_Inr new_element_def dict_items_Inr)
qed

lemma load_element_circuit_rotation:
  assumes "experiment_type self = Circuit"
      and "load_element e self element = Inr obj"
  shows "\<exists>r rot a b c. getitem element (str ''Rotation'') = Inr r \<and> eval_paren e r = Inr rot \<and>
           swap_yz rot = Inr (a, b, c) \<and> rotation obj = Some (a, b, c)"
  using assms by (auto simp: load_element_def bind_err_Inr)

text \<open>The Circuit branch of \<open>load_element\<close> for a "Simple Instrument".\<close>

lemma load_element_simple:
  assumes "experiment_type self = Circuit"
      and "getitem element (str ''ModelID'') = Inr model"
      and "py_eq model (PStr (str ''Simple Instrument''))"
      and "load_element e self element = Inr obj"
  shows "\<exists>p t x z y.
           getitem element (str ''Position'') = Inr p \<and> eval_paren e p = Inr t \<and>
           unpack3 t = Inr (x, z, y) \<and>
           callee (made_by obj) = Simple_Instrument \<and> call_args (made_by obj) = [x, y, z]"
proof -
  from assms obtain p t x z y o1 where
    p: "getitem element (str ''Position'') = Inr p" "eval_paren e p = Inr t"
       "unpack3 t = Inr (x, z, y)" and
    o1: "load_simple_instrument e element x y z = Inr o1" and m: "made_by obj = made_by o1"
    by (auto simp: load_element_def bind_err_Inr)
  from load_simple_instrument_call [OF o1] m p show ?thesis by auto
qed

lemma load_element_circuit_model:
  assumes "experiment_type self = Circuit" and "load_element e self element = Inr obj"
  shows "\<exists>model. getitem element (str ''ModelID'') = Inr model"
  using assms by (auto simp: load_element_def bind_err_Inr)

text \<open>What a successful \<open>load_element\<close> did with the stored position.\<close>

lemma load_element_position:
  assumes "load_element e self element = Inr obj"
  shows "\<exists>p t x z y.
           getitem element (str ''Position'') = Inr p \<and> eval_paren e p = Inr t \<and>
           py_iter t = Inr [x, z, y] \<and>
           (if experiment_type self = Circuit \<and>
               (\<exists>model. getitem element (str ''ModelID'') = Inr model \<and>
                  py_eq model (PStr (str ''Simple Instrument'')))
            then callee (made_by obj) = Simple_Instrument \<and> call_args (made_by obj) = [x, y, z]
            else (\<exists>x' y' z' rest.
                    round_data x = Inr x' \<and> round_data y = Inr y' \<and> round_data z = Inr z' \<and>
                    call_args (made_by obj) = x' # y' # z' # rest))"
proof (cases "experiment_type self = Circuit")
  case True
  from load_element_circuit_model [OF True assms] obtain model where
    m: "getitem element (str ''ModelID'') = Inr model" by blast
  show ?thesis
  proof (cases "py_eq model (PStr (str ''Simple Instrument''))")
    case si: True
    from load_element_simple [OF True m si assms] True m si show ?thesis
      unfolding unpack3_Inr by auto
  next
    case False
    from load_element_circuit [OF True m False assms] obtain p t x z y c where
      p: "getitem element (str ''Position'') = Inr p" "eval_paren e p = Inr t"
         "unpack3 t = Inr (x, z, y)" and
      c: "crt_element e self model x y z (PBool False) [] [] = Inr c" "made_by obj = c"
      by fastforce
    from crt_element_Inr [OF c(1)] c(2) have
      "\<exists>x' y' z' rest. round_data x = Inr x' \<and> round_data y = Inr y' \<and> round_data z = Inr z' \<and>
          call_args (made_by obj) = x' # y' # z' # rest"
      by auto
    with p m False show ?thesis unfolding unpack3_Inr by auto
  qed
next
  case False
  from load_element_other [OF False assms] obtain p t x z y model c where
    p: "getitem element (str ''Position'') = Inr p" "eval_paren e p = Inr t"
       "unpack3 t = Inr (x, z, y)" and
    c: "crt_element e self model x y z PNone [] [] = Inr c" "made_by obj = c"
    by fastforce
  from crt_element_Inr [OF c(1)] c(2) have
    "\<exists>x' y' z' rest. round_data x = Inr x' \<and> round_data y = Inr y' \<and> round_data z = Inr z' \<and>
        call_args (made_by obj) = x' # y' # z' # rest"
    by auto
  with p False show ?thesis unfolding unpack3_Inr by auto
qed

lemma case_PStr_Inr:
  "(case cs of PStr t \<Rightarrow> f t | _ \<Rightarrow> Inl err) = Inr v \<longleftrightarrow> (\<exists>t. cs = PStr t \<and> f t = Inr v)"
  by (cases cs) simp_all

lemma load_camera:
  assumes "load e m path plsav = Inr self"
  shows "\<exists>vc tv tr tt.
           getitem (CameraSave self) (str ''VisionCenter'') = Inr vc \<and>
           eval_paren e vc = Inr tv \<and>
           swap_yz tv = Inr (x_of (VisionCenter self), y_of (VisionCenter self),
                             z_of (VisionCenter self)) \<and>
           getitem (CameraSave self) (str ''TargetRotation'') = Inr tr \<and>
           eval_paren e tr = Inr tt \<and>
           swap_yz tt = Inr (x_of (TargetRotation self), y_of (TargetRotation self),
                             z_of (TargetRotation self))"
  using assms
  by (auto simp: load_def bind_err_Inr case_PStr_Inr Let_def split: if_splits)

section \<open>The example inputs, evaluated\<close>

lemmas demo_defs =
  demo_env_def demo_eval_def demo_json_def demo_camera_def demo_camera_text_def
  demo_status_text_def demo_type_value_def demo_template_def demo_catalogue_def
  demo_doc_def demo_body_def demo_bodies_def demo_logic_input_def

lemma demo_load:
  "load demo_env load_by_filepath (str ''/sav/b.sav'') demo_doc = Inr demo_loaded"
  by (simp add: load_def demo_defs demo_loaded_def swap_yz_def py_eq_def str_def Let_def)

lemma demo_circuit_type: "experiment_type demo_circuit = Circuit"
  by (simp add: demo_circuit_def crt_new_def Let_def)

lemma demo_load_logic_input:
  "load_element demo_env demo_circuit demo_logic_input =
     Inr \<lparr>made_by = \<lparr>callee = by_name circuit (str ''Logic_Input''),
                       call_args = [PFloat 0.1235, PFloat 0.5, PInt 0, PBool False],
                       call_kwargs = []\<rparr>,
          data = [(str ''Properties'', PDict [(str ''Height'', PFloat 3.0), (key_lock, PFloat 1.0)]),
                  (str ''Identifier'', PStr (str ''id1''))],
          rotation = Some (PInt 90, PInt 180, PInt 0), added_notes = []\<rparr>"
proof -
  have r: "round_data (PFloat 0.123456) = Inr (PFloat 0.1235)"
          "round_data (PFloat 0.5) = Inr (PFloat 0.5)" "round_data (PInt 0) = Inr (PInt 0)"
    by (simp_all add: round4_def round_half_even_def Let_def)
  have n: "normalize_name (str ''Logic Input'') = str ''Logic_Input''"
    by (simp add: normalize_name_def replace_def strip_def str_def py_isspace_def)
  have c: "crt_element demo_env demo_circuit (PStr (str ''Logic Input'')) (PFloat 0.123456)
             (PFloat 0.5) (PInt 0) (PBool False) [] [] =
           Inr \<lparr>callee = by_name circuit (str ''Logic_Input''),
                 call_args = [PFloat 0.1235, PFloat 0.5, PInt 0, PBool False],
                 call_kwargs = []\<rparr>"
    by (subst crt_element_rounded [OF r], simp only: demo_circuit_type n)
       (simp add: call_class_def demo_env_def demo_call_raises_def demo_catalogue_def str_def)
  have g: "getitem demo_logic_input (str ''ModelID'') = Inr (PStr (str ''Logic Input''))"
    "getitem demo_logic_input (str ''Position'') = Inr (PStr (str ''0.123456,0,0.5''))"
    "getitem demo_logic_input (str ''Rotation'') = Inr (PStr (str ''90,0,180''))"
    "getitem demo_logic_input (str ''Identifier'') = Inr (PStr (str ''id1''))"
    "getitem demo_logic_input (str ''Properties'') = Inr (PDict [(str ''Height'', PFloat 3.0)])"
    by (simp_all add: demo_logic_input_def str_def)
  have ev: "eval_paren demo_env (PStr (str ''0.123456,0,0.5'')) =
              Inr (PList [PFloat 0.123456, PInt 0, PFloat 0.5])"
    "eval_paren demo_env (PStr (str ''90,0,180'')) = Inr (PList [PInt 90, PInt 0, PInt 180])"
    by (simp_all add: demo_env_def demo_eval_def str_def)
  have ne: "\<not> py_eq (PStr (str ''Logic Input'')) (PStr (str ''Simple Instrument''))"
    by (simp add: py_eq_def str_def)
  have l: "dict_set key_lock (PFloat 1.0) [(str ''Height'', PFloat 3.0)] =
             [(str ''Height'', PFloat 3.0), (key_lock, PFloat 1.0)]"
    by (simp add: key_lock_def str_def)
  have nd: "new_data demo_env c = []" for c by (simp add: demo_env_def)
  have i: "str ''Properties'' \<noteq> str ''Identifier''" by (simp add: str_def)
  show ?thesis
    unfolding load_element_def
    by (simp only: g ev c ne l nd i demo_circuit_type unpack3_three bind_err.simps
          ExperimentType.case prod.case if_False setitem.simps swap_yz_def
          getitem_int.simps new_element_def Let_def dict_set.simps)
       (simp add: numeral_2_eq_2 str_def key_lock_def)
qed

lemma demo_load_body:
  assumes "normalize_name nm = nm" and "demo_catalogue celestial nm"
  shows "load_element demo_env demo_loaded (demo_body nm) =
     Inr \<lparr>made_by = \<lparr>callee = by_name celestial nm,
                       call_args = [PInt 1, PInt 3, PInt 2], call_kwargs = []\<rparr>,
          data = [(str ''Model'', PStr nm), (str ''Position'', PStr (str ''1,2,3'')),
                  (str ''Rotation'', PStr (str ''90,0,180''))],
          rotation = None, added_notes = []\<rparr>"
proof -
  have r: "round_data (PInt 1) = Inr (PInt 1)" "round_data (PInt 3) = Inr (PInt 3)"
    "round_data (PInt 2) = Inr (PInt 2)" by simp_all
  have t: "experiment_type demo_loaded = Celestial" by (simp add: demo_loaded_def)
  have c: "crt_element demo_env demo_loaded (PStr nm) (PInt 1) (PInt 3) (PInt 2)
             PNone [] [] =
           Inr \<lparr>callee = by_name celestial nm,
                 call_args = [PInt 1, PInt 3, PInt 2], call_kwargs = []\<rparr>"
    using assms(2)
    by (subst crt_element_rounded [OF r], simp only: t assms(1))
       (simp add: demo_call_class)
  have g: "getitem (demo_body nm) (str ''Model'') = Inr (PStr nm)"
    "getitem (demo_body nm) (str ''Position'') = Inr (PStr (str ''1,2,3''))"
    by (simp_all add: demo_body_def str_def)
  have ev: "eval_paren demo_env (PStr (str ''1,2,3'')) = Inr (PList [PInt 1, PInt 2, PInt 3])"
    by (simp add: demo_env_def demo_eval_def str_def)
  have nd: "new_data demo_env c = []" for c by (simp add: demo_env_def)
  have d: "dict_items (demo_body nm) =
             Inr [(str ''Model'', PStr nm), (str ''Position'', PStr (str ''1,2,3'')),
                  (str ''Rotation'', PStr (str ''90,0,180''))]"
    by (simp add: demo_body_def)
  show ?thesis
    unfolding load_element_def
    by (simp only: g ev c nd t d unpack3_three bind_err.simps ExperimentType.case prod.case
          new_element_def) simp
qed

lemma demo_names:
  "normalize_name (str ''Sun'') = str ''Sun''" "demo_catalogue celestial (str ''Sun'')"
  "normalize_name (str ''Earth'') = str ''Earth''" "demo_catalogue celestial (str ''Earth'')"
  "normalize_name (str ''Moon'') = str ''Moon''" "demo_catalogue celestial (str ''Moon'')"
  by (simp_all add: normalize_name_def replace_def strip_def str_def py_isspace_def
        demo_catalogue_def)

lemmas demo_load_sun = demo_load_body [OF demo_names(1,2)]

text \<open>
  C4 (as stated). The swap should be applied to the rotation of every decoded element.
  For a Celestial element \<open>set_rotation\<close> is never called, and the stored \<open>Rotation\<close>
  string stays in the element's data as it was, its second and third components not
  swapped.
\<close>

theorem celestial_rotation_not_swapped:
  "map_sum id (\<lambda>obj. (rotation obj, map_of (data obj) (str ''Rotation'')))
     (load_element demo_env demo_loaded (demo_body (str ''Sun'')))
   = Inr (None, Some (PStr (str ''90,0,180'')))"
  by (simp add: demo_load_sun) (simp add: str_def)

text \<open>
  C4 (amended). For every decoded element the loader unpacks the stored position as
  \<open>(x, z, y)\<close> and hands \<open>(x, y, z)\<close> to the constructor: as they are for a "Simple
  Instrument" of a Circuit experiment, rounded with \<open>round_data\<close> (by \<open>crt_element\<close>)
  for every other element. For every Circuit element it reads the stored rotation \<open>r\<close>
  and calls \<open>set_rotation(r[0], r[2], r[1])\<close>; for a Celestial or Electromagnetism
  element no rotation is set, and the decoded dictionary, its \<open>Rotation\<close> entry as
  stored, becomes the element's data. The camera's \<open>VisionCenter\<close> and
  \<open>TargetRotation\<close> are \<open>position(t[0], t[2], t[1])\<close> of the stored values.
\<close>

theorem loader_swaps_second_and_third:
  "(load_element e self element = Inr obj \<longrightarrow>
      (\<exists>p t x z y.
          getitem element (str ''Position'') = Inr p \<and> eval_paren e p = Inr t \<and>
          py_iter t = Inr [x, z, y] \<and>
          (if experiment_type self = Circuit \<and>
              (\<exists>model. getitem element (str ''ModelID'') = Inr model \<and>
                 py_eq model (PStr (str ''Simple Instrument'')))
           then callee (made_by obj) = Simple_Instrument \<and> call_args (made_by obj) = [x, y, z]
           else (\<exists>x' y' z' rest.
                   round_data x = Inr x' \<and> round_data y = Inr y' \<and> round_data z = Inr z' \<and>
                   call_args (made_by obj) = x' # y' # z' # rest))))
   \<and> (experiment_type self = Circuit \<and> load_element e self element = Inr obj \<longrightarrow>
      (\<exists>r t r0 r1 r2.
          getitem element (str ''Rotation'') = Inr r \<and> eval_paren e r = Inr t \<and>
          getitem_int t 0 = Inr r0 \<and> getitem_int t 1 = Inr r1 \<and> getitem_int t 2 = Inr r2 \<and>
          rotation obj = Some (r0, r2, r1)))
   \<and> (experiment_type self \<noteq> Circuit \<and> load_element e self element = Inr obj \<longrightarrow>
      rotation obj = None \<and> element = PDict (data obj))
   \<and> (load e m path plsav = Inr s \<longrightarrow>
      (\<exists>vc tv v0 v1 v2 tr tt t0 t1 t2.
          getitem (CameraSave s) (str ''VisionCenter'') = Inr vc \<and> eval_paren e vc = Inr tv \<and>
          getitem_int tv 0 = Inr v0 \<and> getitem_int tv 1 = Inr v1 \<and> getitem_int tv 2 = Inr v2 \<and>
          VisionCenter s = position v0 v2 v1 \<and>
          getitem (CameraSave s) (str ''TargetRotation'') = Inr tr \<and> eval_paren e tr = Inr tt \<and>
          getitem_int tt 0 = Inr t0 \<and> getitem_int tt 1 = Inr t1 \<and> getitem_int tt 2 = Inr t2 \<and>
          TargetRotation s = position t0 t2 t1))"
proof (intro conjI impI)
  assume "load_element e self element = Inr obj"
  then show "\<exists>p t x z y.
          getitem element (str ''Position'') = Inr p \<and> eval_paren e p = Inr t \<and>
          py_iter t = Inr [x, z, y] \<and>
          (if experiment_type self = Circuit \<and>
              (\<exists>model. getitem element (str ''ModelID'') = Inr model \<and>
                 py_eq model (PStr (str ''Simple Instrument'')))
           then callee (made_by obj) = Simple_Instrument \<and> call_args (made_by obj) = [x, y, z]
           else (\<exists>x' y' z' rest.
                   round_data x = Inr x' \<and> round_data y = Inr y' \<and> round_data z = Inr z' \<and>
                   call_args (made_by obj) = x' # y' # z' # rest))"
    by (rule load_element_position)
next
  assume "experiment_type self = Circuit \<and> load_element e self element = Inr obj"
  then have "\<exists>r rot a b c. getitem element (str ''Rotation'') = Inr r \<and>
      eval_paren e r = Inr rot \<and> swap_yz rot = Inr (a, b, c) \<and> rotation obj = Some (a, b, c)"
    using load_element_circuit_rotation by blast
  then show "\<exists>r t r0 r1 r2.
          getitem element (str ''Rotation'') = Inr r \<and> eval_paren e r = Inr t \<and>
          getitem_int t 0 = Inr r0 \<and> getitem_int t 1 = Inr r1 \<and> getitem_int t 2 = Inr r2 \<and>
          rotation obj = Some (r0, r2, r1)"
    unfolding swap_yz_Inr by blast
next
  assume a: "experiment_type self \<noteq> Circuit \<and> load_element e self element = Inr obj"
  from load_element_other [of self e element obj] a
  show "rotation obj = None" by auto
  from load_element_other [of self e element obj] a
  show "element = PDict (data obj)" by auto
next
  assume "load e m path plsav = Inr s"
  from load_camera [OF this] obtain vc tv tr tt where
    c: "getitem (CameraSave s) (str ''VisionCenter'') = Inr vc" "eval_paren e vc = Inr tv"
       "swap_yz tv = Inr (x_of (VisionCenter s), y_of (VisionCenter s), z_of (VisionCenter s))"
       "getitem (CameraSave s) (str ''TargetRotation'') = Inr tr" "eval_paren e tr = Inr tt"
       "swap_yz tt = Inr (x_of (TargetRotation s), y_of (TargetRotation s),
                          z_of (TargetRotation s))"
    by blast
  from c(3) have v3: "getitem_int tv 0 = Inr (x_of (VisionCenter s))"
    "getitem_int tv 1 = Inr (z_of (VisionCenter s))"
    "getitem_int tv 2 = Inr (y_of (VisionCenter s))"
    by (simp_all add: swap_yz_Inr)
  from c(6) have t3: "getitem_int tt 0 = Inr (x_of (TargetRotation s))"
    "getitem_int tt 1 = Inr (z_of (TargetRotation s))"
    "getitem_int tt 2 = Inr (y_of (TargetRotation s))"
    by (simp_all add: swap_yz_Inr)
  have p: "VisionCenter s =
      position (x_of (VisionCenter s)) (y_of (VisionCenter s)) (z_of (VisionCenter s))"
    "TargetRotation s =
      position (x_of (TargetRotation s)) (y_of (TargetRotation s)) (z_of (TargetRotation s))"
    by simp_all
  from c(1,2,4,5) v3 t3 p
  show "\<exists>vc tv v0 v1 v2 tr tt t0 t1 t2.
          getitem (CameraSave s) (str ''VisionCenter'') = Inr vc \<and> eval_paren e vc = Inr tv \<and>
          getitem_int tv 0 = Inr v0 \<and> getitem_int tv 1 = Inr v1 \<and> getitem_int tv 2 = Inr v2 \<and>
          VisionCenter s = position v0 v2 v1 \<and>
          getitem (CameraSave s) (str ''TargetRotation'') = Inr tr \<and> eval_paren e tr = Inr tt \<and>
          getitem_int tt 0 = Inr t0 \<and> getitem_int tt 1 = Inr t1 \<and> getitem_int tt 2 = Inr t2 \<and>
          TargetRotation s = position t0 t2 t1"
    by blast
qed

lemma demo_load_instrument:
  "load_element demo_env demo_circuit demo_instrument =
     Inr \<lparr>made_by = \<lparr>callee = Simple_Instrument,
                       call_args = [PFloat 0.123456, PFloat 0.5, PInt 0],
                       call_kwargs = [(str ''elementXYZ'', PBool False),
                                      (str ''instrument'', PInt 0),
                                      (str ''pitch'', PInt 60),
                                      (str ''velocity'', PFloat 1.0),
                                      (str ''rated_oltage'', PFloat 3.0),
                                      (str ''is_ideal_model'', PBool False),
                                      (str ''is_single'', PBool True)]\<rparr>,
          data = [(str ''Identifier'', PStr (str ''id2''))],
          rotation = Some (PInt 90, PInt 180, PInt 0), added_notes = [60]\<rparr>"
proof -
  let ?props = "[(key_rated_voltage, PFloat 3.0), (key_velocity, PFloat 1.0),
                 (key_pitch, PInt 60), (key_instrument, PInt 0),
                 (key_ideal_model, PInt 0), (key_pulse, PInt 1)]"
  have g: "getitem demo_instrument (str ''ModelID'') = Inr (PStr (str ''Simple Instrument''))"
    "getitem demo_instrument (str ''Position'') = Inr (PStr (str ''0.123456,0,0.5''))"
    "getitem demo_instrument (str ''Rotation'') = Inr (PStr (str ''90,0,180''))"
    "getitem demo_instrument (str ''Identifier'') = Inr (PStr (str ''id2''))"
    "getitem demo_instrument (str ''Properties'') = Inr (PDict ?props)"
    by (simp_all add: demo_instrument_def str_def)
  have ev: "eval_paren demo_env (PStr (str ''0.123456,0,0.5'')) =
              Inr (PList [PFloat 0.123456, PInt 0, PFloat 0.5])"
    "eval_paren demo_env (PStr (str ''90,0,180'')) = Inr (PList [PInt 90, PInt 0, PInt 180])"
    by (simp_all add: demo_env_def demo_eval_def str_def)
  have si: "py_eq (PStr (str ''Simple Instrument'')) (PStr (str ''Simple Instrument''))"
    by (simp add: py_eq_def)
  have pr: "dict_get (PDict ?props) key_instrument (PInt 0) = Inr (PInt 0)"
    "getitem (PDict ?props) key_pitch = Inr (PInt 60)"
    "getitem (PDict ?props) key_velocity = Inr (PFloat 1.0)"
    "getitem (PDict ?props) key_rated_voltage = Inr (PFloat 3.0)"
    "getitem (PDict ?props) key_ideal_model = Inr (PInt 0)"
    "getitem (PDict ?props) key_pulse = Inr (PInt 1)"
    by (simp_all add: key_instrument_def key_pitch_def key_velocity_def key_rated_voltage_def
          key_ideal_model_def key_pulse_def)
  have i: "py_int demo_env (PInt n) = Inr n" for n by (simp add: demo_env_def)
  have nd: "new_data demo_env c = []" for c by (simp add: demo_env_def)
  have an: "add_notes demo_env obj ?props = Inr (obj\<lparr>added_notes := added_notes obj @ [60]\<rparr>)"
    for obj
    by (simp add: startswith_def i key_instrument_def key_pitch_def key_velocity_def
          key_rated_voltage_def key_ideal_model_def key_pulse_def)
  have l: "load_simple_instrument demo_env demo_instrument (PFloat 0.123456) (PFloat 0.5) (PInt 0)
     = Inr \<lparr>made_by = \<lparr>callee = Simple_Instrument,
                       call_args = [PFloat 0.123456, PFloat 0.5, PInt 0],
                       call_kwargs = [(str ''elementXYZ'', PBool False),
                                      (str ''instrument'', PInt 0),
                                      (str ''pitch'', PInt 60),
                                      (str ''velocity'', PFloat 1.0),
                                      (str ''rated_oltage'', PFloat 3.0),
                                      (str ''is_ideal_model'', PBool False),
                                      (str ''is_single'', PBool True)]\<rparr>,
          data = [], rotation = None, added_notes = [60]\<rparr>"
    unfolding load_simple_instrument_def
    by (simp only: g pr i bind_err.simps dict_items.simps an new_element_def nd
          py_bool.simps demo_call_class) simp
  show ?thesis
    unfolding load_element_def
    by (simp only: g ev si l demo_circuit_type unpack3_three bind_err.simps
          ExperimentType.case prod.case if_True swap_yz_def getitem_int.simps)
       (simp add: numeral_2_eq_2)
qed

theorem loader_swaps_second_and_third_witness:
  "map_sum id (\<lambda>obj. (take 3 (call_args (made_by obj)), rotation obj))
     (load_element demo_env demo_circuit demo_logic_input)
     = Inr ([PFloat 0.1235, PFloat 0.5, PInt 0], Some (PInt 90, PInt 180, PInt 0))
   \<and> map_sum id (\<lambda>obj. (callee (made_by obj), call_args (made_by obj), rotation obj))
       (load_element demo_env demo_circuit demo_instrument)
     = Inr (Simple_Instrument, [PFloat 0.123456, PFloat 0.5, PInt 0],
            Some (PInt 90, PInt 180, PInt 0))
   \<and> eval_paren demo_env (PStr (str ''0.123456,0,0.5''))
       = Inr (PList [PFloat 0.123456, PInt 0, PFloat 0.5])
   \<and> eval_paren demo_env (PStr (str ''90,0,180'')) = Inr (PList [PInt 90, PInt 0, PInt 180])
   \<and> map_sum id rotation (load_element demo_env demo_loaded (demo_body (str ''Sun'')))
       = Inr None
   \<and> map_sum id VisionCenter (load demo_env load_by_filepath (str ''/sav/b.sav'') demo_doc)
       = Inr (position (PFloat 0.123456) (PFloat 0.5) (PInt 0))
   \<and> map_sum id TargetRotation (load demo_env load_by_filepath (str ''/sav/b.sav'') demo_doc)
       = Inr (position (PInt 90) (PInt 180) (PInt 0))"
proof -
  let ?obj = "\<lparr>made_by = \<lparr>callee = by_name circuit (str ''Logic_Input''),
                       call_args = [PFloat 0.1235, PFloat 0.5, PInt 0, PBool False],
                       call_kwargs = []\<rparr>,
          data = [(str ''Properties'', PDict [(str ''Height'', PFloat 3.0), (key_lock, PFloat 1.0)]),
                  (str ''Identifier'', PStr (str ''id1''))],
          rotation = Some (PInt 90, PInt 180, PInt 0), added_notes = []\<rparr>"
  have ev: "eval_paren demo_env (PStr (str ''0.123456,0,0.5'')) =
              Inr (PList [PFloat 0.123456, PInt 0, PFloat 0.5])"
    "eval_paren demo_env (PStr (str ''90,0,180'')) = Inr (PList [PInt 90, PInt 0, PInt 180])"
    by (simp_all add: demo_env_def demo_eval_def str_def)
  have t: "experiment_type demo_loaded \<noteq> Circuit" by (simp add: demo_loaded_def)
  have gl: "getitem demo_logic_input (str ''Position'') = Inr (PStr (str ''0.123456,0,0.5''))"
    "getitem demo_logic_input (str ''ModelID'') = Inr (PStr (str ''Logic Input''))"
    "getitem demo_logic_input (str ''Rotation'') = Inr (PStr (str ''90,0,180''))"
    by (simp_all add: demo_logic_input_def str_def)
  have gi: "getitem demo_instrument (str ''Position'') = Inr (PStr (str ''0.123456,0,0.5''))"
    "getitem demo_instrument (str ''ModelID'') = Inr (PStr (str ''Simple Instrument''))"
    by (simp_all add: demo_instrument_def str_def)
  have eq: "\<not> py_eq (PStr (str ''Logic Input'')) (PStr (str ''Simple Instrument''))"
    "py_eq (PStr (str ''Simple Instrument'')) (PStr (str ''Simple Instrument''))"
    by (simp_all add: py_eq_def str_def)
  have rd: "round_data (PFloat 0.123456) = Inr (PFloat 0.1235)"
    "round_data (PFloat 0.5) = Inr (PFloat 0.5)" "round_data (PInt 0) = Inr (PInt 0)"
    by (simp_all add: round4_def round_half_even_def Let_def)
  note th = loader_swaps_second_and_third [where e = demo_env and self = demo_circuit]
  from th [where element = demo_logic_input, THEN conjunct1, THEN mp, OF demo_load_logic_input]
  have "\<exists>rest. call_args (made_by ?obj) = PFloat 0.1235 # PFloat 0.5 # PInt 0 # rest"
    unfolding gl ev demo_circuit_type by (simp add: eq rd)
  then have 1: "take 3 (call_args (made_by ?obj)) = [PFloat 0.1235, PFloat 0.5, PInt 0]"
    by auto
  from th [where element = demo_logic_input, THEN conjunct2, THEN conjunct1, THEN mp,
      OF conjI [OF demo_circuit_type demo_load_logic_input]]
  have 2: "rotation ?obj = Some (PInt 90, PInt 180, PInt 0)" by simp
  from th [where element = demo_instrument, THEN conjunct1, THEN mp, OF demo_load_instrument]
  have 3: "map_sum id (\<lambda>obj. (callee (made_by obj), call_args (made_by obj), rotation obj))
       (load_element demo_env demo_circuit demo_instrument)
     = Inr (Simple_Instrument, [PFloat 0.123456, PFloat 0.5, PInt 0],
            Some (PInt 90, PInt 180, PInt 0))"
    unfolding gi ev demo_circuit_type by (simp add: eq demo_load_instrument)
  from loader_swaps_second_and_third [where e = demo_env and self = demo_loaded
      and element = "demo_body (str ''Sun'')", THEN conjunct2, THEN conjunct2, THEN conjunct1,
      THEN mp, OF conjI [OF t demo_load_sun], THEN conjunct1]
  have 4: "map_sum id rotation (load_element demo_env demo_loaded (demo_body (str ''Sun'')))
       = Inr None" by (simp add: demo_load_sun)
  from th [where m = load_by_filepath and path = "str ''/sav/b.sav''" and plsav = demo_doc
      and s = demo_loaded, THEN conjunct2, THEN conjunct2, THEN conjunct2, THEN mp, OF demo_load]
  have 5: "\<exists>v0 v1 v2. VisionCenter demo_loaded = position v0 v2 v1" by blast
  show ?thesis
    using 1 2 3 4 5 ev
    by (simp add: demo_load_logic_input demo_load numeral_3_eq_3) (simp add: demo_loaded_def)
qed

text \<open>
  C9. A Circuit element whose \<open>ModelID\<close> is not "Simple Instrument" is loaded with its
  stored \<open>Properties\<close> in which the key \<open>key_lock\<close> is set to 1.0: as a map, the stored
  bag updated at that key; the bag is the stored one exactly when that already held 1.0
  under the key.
\<close>

theorem loaded_properties_locked:
  assumes "experiment_type self = Circuit"
      and "getitem element (str ''ModelID'') = Inr model"
      and "\<not> py_eq model (PStr (str ''Simple Instrument''))"
      and "load_element e self element = Inr obj"
  shows "\<exists>props. getitem element (str ''Properties'') = Inr (PDict props) \<and>
           map_of (data obj) (str ''Properties'')
             = Some (PDict (dict_set key_lock (PFloat 1.0) props)) \<and>
           map_of (dict_set key_lock (PFloat 1.0) props) = (map_of props)(key_lock \<mapsto> PFloat 1.0) \<and>
           (dict_set key_lock (PFloat 1.0) props = props
              \<longleftrightarrow> map_of props key_lock = Some (PFloat 1.0))"
proof -
  from load_element_circuit [OF assms] obtain c props ident where
    p: "getitem element (str ''Properties'') = Inr (PDict props)" and
    d: "data obj = dict_set (str ''Identifier'') ident
                     (dict_set (str ''Properties'')
                        (PDict (dict_set key_lock (PFloat 1) props)) (new_data e c))"
    by fastforce
  have ne: "str ''Identifier'' \<noteq> str ''Properties''" by (simp add: str_def)
  have "map_of (data obj) (str ''Properties'')
          = Some (PDict (dict_set key_lock (PFloat 1.0) props))"
    by (simp add: d map_of_dict_set ne ne [symmetric])
  with p show ?thesis by (simp add: map_of_dict_set dict_set_same)
qed

theorem loaded_properties_locked_witness:
  "map_sum id (\<lambda>obj. map_of (data obj) (str ''Properties''))
     (load_element demo_env demo_circuit demo_logic_input)
   = Inr (Some (PDict [(str ''Height'', PFloat 3.0), (key_lock, PFloat 1.0)]))
   \<and> getitem demo_logic_input (str ''Properties'') = Inr (PDict [(str ''Height'', PFloat 3.0)])"
proof -
  have m: "getitem demo_logic_input (str ''ModelID'') = Inr (PStr (str ''Logic Input''))"
    by (simp add: demo_logic_input_def str_def)
  have ne: "\<not> py_eq (PStr (str ''Logic Input'')) (PStr (str ''Simple Instrument''))"
    by (simp add: py_eq_def str_def)
  have g: "getitem demo_logic_input (str ''Properties'') = Inr (PDict [(str ''Height'', PFloat 3.0)])"
    by (simp add: demo_logic_input_def str_def)
  have l: "dict_set key_lock (PFloat 1.0) [(str ''Height'', PFloat 3.0)] =
             [(str ''Height'', PFloat 3.0), (key_lock, PFloat 1.0)]"
    by (simp add: key_lock_def str_def)
  from loaded_properties_locked [OF demo_circuit_type m ne demo_load_logic_input]
  show ?thesis by (simp add: demo_load_logic_input g l)
qed

text \<open>
  C7 (as stated). Every \<open>position\<close> should hold coordinates rounded to 4 fractional
  digits. \<open>load\<close> builds the camera's \<open>VisionCenter\<close> from the stored numbers as they
  are: 0.123456 stays, although \<open>round_data\<close> would give 0.1235.
\<close>

theorem camera_position_not_rounded:
  "map_sum id VisionCenter (load demo_env load_by_filepath (str ''/sav/b.sav'') demo_doc)
     = Inr (position (PFloat 0.123456) (PFloat 0.5) (PInt 0))
   \<and> round_data (PFloat 0.123456) = Inr (PFloat 0.1235)"
  by (simp add: demo_load) (simp add: demo_loaded_def round4_def round_half_even_def Let_def)

text \<open>
  C7 (amended). \<open>position\<close> stores the three coordinates it is given, unchanged. It is
  \<open>crt_element\<close> that rounds: the first three arguments of the constructor call are the
  \<open>round_data\<close> of the coordinates, a float becoming the nearest multiple of
  \<open>10\<^sup>-\<^sup>4\<close> (at most \<open>0.00005\<close> away) and an integer staying as it is, and rounding
  them again changes nothing.
\<close>

theorem crt_element_rounds_coordinates:
  "(crt_element e ex name x y z exyz args kwargs = Inr c \<longrightarrow>
      (\<exists>x' y' z' rest.
          round_data x = Inr x' \<and> round_data y = Inr y' \<and> round_data z = Inr z' \<and>
          call_args c = x' # y' # z' # rest \<and>
          round_data x' = Inr x' \<and> round_data y' = Inr y' \<and> round_data z' = Inr z'))
   \<and> round_data (PFloat r) = Inr (PFloat (round4 r))
   \<and> round4 r * 10000 \<in> \<int> \<and> \<bar>round4 r - r\<bar> \<le> 1 / 20000
   \<and> round_data (PInt i) = Inr (PInt i)
   \<and> x_of (position a b c') = a \<and> y_of (position a b c') = b \<and> z_of (position a b c') = c'"
proof (intro conjI impI)
  assume "crt_element e ex name x y z exyz args kwargs = Inr c"
  from crt_element_Inr [OF this] obtain x' y' z' rest where
    r: "round_data x = Inr x'" "round_data y = Inr y'" "round_data z = Inr z'"
       "call_args c = x' # y' # z' # rest"
    by blast
  have "round_data x' = Inr x'" "round_data y' = Inr y'" "round_data z' = Inr z'"
    using r(1-3) by (simp_all add: round_data_idem)
  with r show "\<exists>x' y' z' rest.
          round_data x = Inr x' \<and> round_data y = Inr y' \<and> round_data z = Inr z' \<and>
          call_args c = x' # y' # z' # rest \<and>
          round_data x' = Inr x' \<and> round_data y' = Inr y' \<and> round_data z' = Inr z'"
    by blast
next
  show "round4 r * 10000 \<in> \<int>" by (rule round4_digits)
  show "\<bar>round4 r - r\<bar> \<le> 1 / 20000" by (rule round4_near)
qed simp_all

lemma demo_crt_8bit:
  "crt_element demo_env demo_circuit (PStr (str '' 8bit-Input ''))
     (PFloat 0.123456) (PInt 2) (PBool True) (PBool False) [] []
   = Inr \<lparr>callee = eight_bit_Input,
          call_args = [PFloat 0.1235, PInt 2, PInt 1, PBool False], call_kwargs = []\<rparr>"
proof -
  have r: "round_data (PFloat 0.123456) = Inr (PFloat 0.1235)"
          "round_data (PInt 2) = Inr (PInt 2)" "round_data (PBool True) = Inr (PInt 1)"
    by (simp_all add: round4_def round_half_even_def Let_def)
  have n: "normalize_name (str '' 8bit-Input '') = str ''8bit_Input''"
    by (simp add: normalize_name_def replace_def strip_def str_def py_isspace_def)
  have ne: "str ''8bit_Input'' \<noteq> str ''555_Timer''" by (simp add: str_def)
  show ?thesis
    by (subst crt_element_rounded [OF r]) (simp add: demo_circuit_type n ne demo_call_class)
qed

theorem crt_element_rounds_coordinates_witness:
  "crt_element demo_env demo_circuit (PStr (str '' 8bit-Input ''))
     (PFloat 0.123456) (PInt 2) (PBool True) (PBool False) [] []
   = Inr \<lparr>callee = eight_bit_Input,
          call_args = [PFloat 0.1235, PInt 2, PInt 1, PBool False], call_kwargs = []\<rparr>
   \<and> round_data (PFloat 0.123456) = Inr (PFloat 0.1235)
   \<and> round_data (PFloat 0.1235) = Inr (PFloat 0.1235)
   \<and> round_data (PBool True) = Inr (PInt 1)"
proof -
  from crt_element_rounds_coordinates [of demo_env demo_circuit "PStr (str '' 8bit-Input '')"
      "PFloat 0.123456" "PInt 2" "PBool True" "PBool False" "[]" "[]"
      "\<lparr>callee = eight_bit_Input,
          call_args = [PFloat 0.1235, PInt 2, PInt 1, PBool False], call_kwargs = []\<rparr>"]
    demo_crt_8bit
  have "round_data (PFloat 0.123456) = Inr (PFloat 0.1235)
      \<and> round_data (PFloat 0.1235) = Inr (PFloat 0.1235)
      \<and> round_data (PBool True) = Inr (PInt 1)"
    by (auto simp: round4_def round_half_even_def Let_def)
  with demo_crt_8bit show ?thesis by simp
qed

section \<open>Opening and searching save files\<close>

lemma open_sav_missing: "files s path = None \<Longrightarrow> open_sav e s path = Inl AssertionError"
  by (simp add: open_sav_def)

lemma open_sav_utf8:
  "files s path = Some f \<Longrightarrow> encode_sav f (Some (str ''utf-8'')) = Inr d \<Longrightarrow> d \<noteq> PNone \<Longrightarrow>
     open_sav e s path = Inr d"
  by (simp add: open_sav_def)

lemma open_sav_utf8_error:
  "files s path = Some f \<Longrightarrow> encode_sav f (Some (str ''utf-8'')) = Inl err \<Longrightarrow>
     open_sav e s path = Inl err"
  by (simp add: open_sav_def)

lemma open_sav_fallback:
  "files s path = Some f \<Longrightarrow> encode_sav f (Some (str ''utf-8'')) = Inr PNone \<Longrightarrow>
     open_sav e s path =
       bind_err
         (if has_chardet e then encode_sav f (detected f)
          else bind_err (encode_sav f (Some (str ''utf-8-sig''))) (\<lambda>res.
                 if res \<noteq> PNone then Inr res else encode_sav f (Some (str ''gbk''))))
         (\<lambda>res. if res \<noteq> PNone then Inr res else Inl InvalidSavError)"
proof -
  have "try_encodings f [str ''utf-8-sig'', str ''gbk''] =
          bind_err (encode_sav f (Some (str ''utf-8-sig''))) (\<lambda>res.
                 if res \<noteq> PNone then Inr res else encode_sav f (Some (str ''gbk'')))"
    by (cases "encode_sav f (Some (str ''utf-8-sig''))"; cases "encode_sav f (Some (str ''gbk''))")
       simp_all
  then show "files s path = Some f \<Longrightarrow> encode_sav f (Some (str ''utf-8'')) = Inr PNone \<Longrightarrow> ?thesis"
    by (simp add: open_sav_def)
qed

lemma encode_sav_not_invalid:
  "read_json f enc \<noteq> Inl InvalidSavError \<Longrightarrow> encode_sav f enc \<noteq> Inl InvalidSavError"
  by (cases "read_json f enc") (auto simp: encode_sav_def)

lemma encode_sav_doc: "read_json f enc = Inr d \<Longrightarrow> encode_sav f enc = Inr d"
  by (simp add: encode_sav_def)

lemma encode_sav_other:
  "read_json f enc = Inl err \<Longrightarrow> err \<noteq> JSONDecodeError \<Longrightarrow> err \<noteq> UnicodeDecodeError \<Longrightarrow>
     encode_sav f enc = Inl err"
  by (simp add: encode_sav_def)

lemma encode_sav_none:
  "encode_sav f enc = Inr PNone \<longleftrightarrow>
     read_json f enc \<in> {Inl JSONDecodeError, Inl UnicodeDecodeError, Inr PNone}"
  by (cases "read_json f enc") (auto simp: encode_sav_def)

text \<open>When \<open>_open_sav\<close> raises \<open>InvalidSavError\<close>, in terms of what \<open>encode_sav\<close>
  returns.\<close>

lemma open_sav_invalid:
  assumes "files s path = Some f"
      and "\<And>enc. read_json f enc \<noteq> Inl InvalidSavError"
  shows "open_sav e s path = Inl InvalidSavError \<longleftrightarrow>
          encode_sav f (Some (str ''utf-8'')) = Inr PNone \<and>
          (if has_chardet e then encode_sav f (detected f) = Inr PNone
           else encode_sav f (Some (str ''utf-8-sig'')) = Inr PNone \<and>
                encode_sav f (Some (str ''gbk'')) = Inr PNone)"
proof -
  note ni = encode_sav_not_invalid [OF assms(2)]
  show ?thesis
  proof (cases "encode_sav f (Some (str ''utf-8''))")
    case (Inl err)
    with ni [of "Some (str ''utf-8'')"] open_sav_utf8_error [OF assms(1) Inl, of e]
    show ?thesis by simp
  next
    case (Inr d)
    show ?thesis
    proof (cases "d = PNone")
      case False
      with Inr open_sav_utf8 [OF assms(1) Inr False, of e] show ?thesis by simp
    next
      case True
      with Inr have u: "encode_sav f (Some (str ''utf-8'')) = Inr PNone" by simp
      show ?thesis
      proof (cases "has_chardet e")
        case True
        with ni [of "detected f"] show ?thesis
          by (cases "encode_sav f (detected f)")
             (simp_all add: open_sav_fallback [OF assms(1) u] u)
      next
        case False
        with ni [of "Some (str ''utf-8-sig'')"] ni [of "Some (str ''gbk'')"] show ?thesis
          by (cases "encode_sav f (Some (str ''utf-8-sig''))";
              cases "encode_sav f (Some (str ''gbk''))")
             (simp_all add: open_sav_fallback [OF assms(1) u] u)
      qed
    qed
  qed
qed

text \<open>
  C6 (amended). \<open>_open_sav\<close> first reads the file as UTF-8 and returns the document if
  that gives one. A reading gives no document when it raises \<open>JSONDecodeError\<close> or
  \<open>UnicodeDecodeError\<close> or gives the JSON value \<open>null\<close>; any other error it raises
  comes out of \<open>_open_sav\<close> as it is. When UTF-8 gave no document, then without
  \<open>chardet\<close> the encodings \<open>utf-8-sig\<close> and \<open>gbk\<close> are tried in that order, and with
  \<open>chardet\<close> only the encoding \<open>chardet\<close> detects, not the fixed list.
  \<open>InvalidSavError\<close> is raised exactly when UTF-8 and every encoding tried in that
  branch gave no document.
\<close>

theorem open_sav_fallbacks:
  assumes "files s path = Some f"
      and "\<And>enc. read_json f enc \<noteq> Inl InvalidSavError"
  shows "(read_json f (Some (str ''utf-8'')) = Inr d \<and> d \<noteq> PNone \<longrightarrow> open_sav e s path = Inr d)
     \<and> (read_json f (Some (str ''utf-8'')) = Inl err \<and> err \<noteq> JSONDecodeError \<and>
          err \<noteq> UnicodeDecodeError \<longrightarrow> open_sav e s path = Inl err)
     \<and> (read_json f (Some (str ''utf-8''))
            \<in> {Inl JSONDecodeError, Inl UnicodeDecodeError, Inr PNone} \<and> has_chardet e \<longrightarrow>
          (read_json f (detected f) = Inr d \<and> d \<noteq> PNone \<longrightarrow> open_sav e s path = Inr d)
        \<and> (read_json f (detected f) = Inl err \<and> err \<noteq> JSONDecodeError \<and>
             err \<noteq> UnicodeDecodeError \<longrightarrow> open_sav e s path = Inl err)
        \<and> (read_json f (detected f)
               \<in> {Inl JSONDecodeError, Inl UnicodeDecodeError, Inr PNone} \<longrightarrow>
             open_sav e s path = Inl InvalidSavError))
     \<and> (read_json f (Some (str ''utf-8''))
            \<in> {Inl JSONDecodeError, Inl UnicodeDecodeError, Inr PNone} \<and> \<not> has_chardet e \<longrightarrow>
          (read_json f (Some (str ''utf-8-sig'')) = Inr d \<and> d \<noteq> PNone \<longrightarrow>
             open_sav e s path = Inr d)
        \<and> (read_json f (Some (str ''utf-8-sig'')) = Inl err \<and> err \<noteq> JSONDecodeError \<and>
             err \<noteq> UnicodeDecodeError \<longrightarrow> open_sav e s path = Inl err)
        \<and> (read_json f (Some (str ''utf-8-sig''))
               \<in> {Inl JSONDecodeError, Inl UnicodeDecodeError, Inr PNone} \<longrightarrow>
             (read_json f (Some (str ''gbk'')) = Inr d \<and> d \<noteq> PNone \<longrightarrow>
                open_sav e s path = Inr d)
           \<and> (read_json f (Some (str ''gbk'')) = Inl err \<and> err \<noteq> JSONDecodeError \<and>
                err \<noteq> UnicodeDecodeError \<longrightarrow> open_sav e s path = Inl err)
           \<and> (read_json f (Some (str ''gbk''))
                  \<in> {Inl JSONDecodeError, Inl UnicodeDecodeError, Inr PNone} \<longrightarrow>
                open_sav e s path = Inl InvalidSavError)))
     \<and> (open_sav e s path = Inl InvalidSavError \<longleftrightarrow>
          read_json f (Some (str ''utf-8''))
            \<in> {Inl JSONDecodeError, Inl UnicodeDecodeError, Inr PNone} \<and>
          (if has_chardet e
           then read_json f (detected f)
                  \<in> {Inl JSONDecodeError, Inl UnicodeDecodeError, Inr PNone}
           else read_json f (Some (str ''utf-8-sig''))
                  \<in> {Inl JSONDecodeError, Inl UnicodeDecodeError, Inr PNone} \<and>
                read_json f (Some (str ''gbk''))
                  \<in> {Inl JSONDecodeError, Inl UnicodeDecodeError, Inr PNone}))"
proof -
  note fb = open_sav_fallback [OF assms(1), unfolded encode_sav_none]
  have 1: "open_sav e s path = Inr d"
    if "read_json f (Some (str ''utf-8'')) = Inr d \<and> d \<noteq> PNone"
    using that by (simp add: open_sav_utf8 [OF assms(1)] encode_sav_doc)
  have 2: "open_sav e s path = Inl err"
    if "read_json f (Some (str ''utf-8'')) = Inl err \<and> err \<noteq> JSONDecodeError \<and>
          err \<noteq> UnicodeDecodeError"
    using that by (simp add: open_sav_utf8_error [OF assms(1)] encode_sav_other)
  have 3: "(read_json f (detected f) = Inr d \<and> d \<noteq> PNone \<longrightarrow> open_sav e s path = Inr d)
        \<and> (read_json f (detected f) = Inl err \<and> err \<noteq> JSONDecodeError \<and>
             err \<noteq> UnicodeDecodeError \<longrightarrow> open_sav e s path = Inl err)
        \<and> (read_json f (detected f)
               \<in> {Inl JSONDecodeError, Inl UnicodeDecodeError, Inr PNone} \<longrightarrow>
             open_sav e s path = Inl InvalidSavError)"
    if u: "read_json f (Some (str ''utf-8''))
            \<in> {Inl JSONDecodeError, Inl UnicodeDecodeError, Inr PNone} \<and> has_chardet e"
  proof (intro conjI impI)
    assume "read_json f (detected f) = Inr d \<and> d \<noteq> PNone"
    with u show "open_sav e s path = Inr d" by (simp add: fb encode_sav_doc)
  next
    assume "read_json f (detected f) = Inl err \<and> err \<noteq> JSONDecodeError \<and>
             err \<noteq> UnicodeDecodeError"
    with u show "open_sav e s path = Inl err" by (simp add: fb encode_sav_other)
  next
    assume "read_json f (detected f) \<in> {Inl JSONDecodeError, Inl UnicodeDecodeError, Inr PNone}"
    then have "encode_sav f (detected f) = Inr PNone" by (simp only: encode_sav_none)
    with u show "open_sav e s path = Inl InvalidSavError" by (simp add: fb)
  qed
  have 4: "(read_json f (Some (str ''utf-8-sig'')) = Inr d \<and> d \<noteq> PNone \<longrightarrow>
             open_sav e s path = Inr d)
        \<and> (read_json f (Some (str ''utf-8-sig'')) = Inl err \<and> err \<noteq> JSONDecodeError \<and>
             err \<noteq> UnicodeDecodeError \<longrightarrow> open_sav e s path = Inl err)
        \<and> (read_json f (Some (str ''utf-8-sig''))
               \<in> {Inl JSONDecodeError, Inl UnicodeDecodeError, Inr PNone} \<longrightarrow>
             (read_json f (Some (str ''gbk'')) = Inr d \<and> d \<noteq> PNone \<longrightarrow>
                open_sav e s path = Inr d)
           \<and> (read_json f (Some (str ''gbk'')) = Inl err \<and> err \<noteq> JSONDecodeError \<and>
                err \<noteq> UnicodeDecodeError \<longrightarrow> open_sav e s path = Inl err)
           \<and> (read_json f (Some (str ''gbk''))
                  \<in> {Inl JSONDecodeError, Inl UnicodeDecodeError, Inr PNone} \<longrightarrow>
                open_sav e s path = Inl InvalidSavError))"
    if u: "read_json f (Some (str ''utf-8''))
            \<in> {Inl JSONDecodeError, Inl UnicodeDecodeError, Inr PNone} \<and> \<not> has_chardet e"
  proof (intro conjI impI)
    assume "read_json f (Some (str ''utf-8-sig'')) = Inr d \<and> d \<noteq> PNone"
    with u show "open_sav e s path = Inr d" by (simp add: fb encode_sav_doc)
  next
    assume "read_json f (Some (str ''utf-8-sig'')) = Inl err \<and> err \<noteq> JSONDecodeError \<and>
             err \<noteq> UnicodeDecodeError"
    with u show "open_sav e s path = Inl err" by (simp add: fb encode_sav_other)
  next
    assume "read_json f (Some (str ''utf-8-sig''))
               \<in> {Inl JSONDecodeError, Inl UnicodeDecodeError, Inr PNone}"
    then have g: "encode_sav f (Some (str ''utf-8-sig'')) = Inr PNone"
      by (simp only: encode_sav_none)
    {
      assume "read_json f (Some (str ''gbk'')) = Inr d \<and> d \<noteq> PNone"
      with u g show "open_sav e s path = Inr d" by (simp add: fb encode_sav_doc)
    next
      assume "read_json f (Some (str ''gbk'')) = Inl err \<and> err \<noteq> JSONDecodeError \<and>
                err \<noteq> UnicodeDecodeError"
      with u g show "open_sav e s path = Inl err" by (simp add: fb encode_sav_other)
    next
      assume "read_json f (Some (str ''gbk''))
                  \<in> {Inl JSONDecodeError, Inl UnicodeDecodeError, Inr PNone}"
      then have "encode_sav f (Some (str ''gbk'')) = Inr PNone" by (simp only: encode_sav_none)
      with u g show "open_sav e s path = Inl InvalidSavError" by (simp add: fb)
    }
  qed
  note 5 = open_sav_invalid [OF assms, of e, unfolded encode_sav_none]
  from 1 2 3 4 5 show ?thesis by blast
qed

lemma demo_open_sav:
  "open_sav demo_env (demo_state st) (str ''/sav/a.sav'') = Inl InvalidSavError"
  "open_sav demo_env (demo_state st) (str ''/sav/b.sav'') = Inr demo_doc"
  "open_sav demo_env (demo_state st) (str ''/sav/g.sav'') = Inr demo_doc"
  by (simp_all add: open_sav_def demo_state_def demo_files_def demo_env_def demo_bad_file_def
        demo_utf8_file_def demo_gbk_file_def encode_sav_def demo_doc_def str_def)

text \<open>
  C6 (as stated). The fixed list of fallback encodings should be tried before
  \<open>InvalidSavError\<close> is raised. With \<open>chardet\<close> installed, a file that \<open>gbk\<close> decodes
  but \<open>chardet\<close> takes for ASCII is refused, although without \<open>chardet\<close> it opens.
\<close>

theorem open_sav_chardet_skips_gbk:
  "open_sav (demo_env\<lparr>has_chardet := True\<rparr>) (demo_state []) (str ''/sav/g.sav'')
     = Inl InvalidSavError
   \<and> encode_sav demo_gbk_file (Some (str ''gbk'')) = Inr demo_doc
   \<and> demo_doc \<noteq> PNone
   \<and> open_sav demo_env (demo_state []) (str ''/sav/g.sav'') = Inr demo_doc"
  by (simp add: demo_open_sav)
     (simp add: open_sav_def demo_state_def demo_files_def demo_env_def
        demo_gbk_file_def encode_sav_def demo_doc_def str_def)

theorem open_sav_fallbacks_witness:
  "open_sav demo_env (demo_state []) (str ''/sav/b.sav'') = Inr demo_doc
   \<and> open_sav demo_env (demo_state []) (str ''/sav/g.sav'') = Inr demo_doc
   \<and> open_sav demo_env (demo_state []) (str ''/sav/a.sav'') = Inl InvalidSavError
   \<and> open_sav (demo_env\<lparr>has_chardet := True\<rparr>) (demo_state []) (str ''/sav/a.sav'')
       = Inl InvalidSavError
   \<and> open_sav demo_env (demo_state []) (str ''/sav/x.sav'') = Inl OtherError"
proof -
  let ?F = "{Inl JSONDecodeError, Inl UnicodeDecodeError, Inr PNone} :: (error + pyval) set"
  have f: "files (demo_state []) (str ''/sav/g.sav'') = Some demo_gbk_file"
          "files (demo_state []) (str ''/sav/a.sav'') = Some demo_bad_file"
          "files (demo_state []) (str ''/sav/x.sav'') = Some demo_locked_file"
          "files (demo_state []) (str ''/sav/b.sav'') = Some demo_utf8_file"
    by (simp_all add: demo_state_def demo_files_def str_def)
  have r: "read_json demo_gbk_file enc \<noteq> Inl InvalidSavError"
          "read_json demo_bad_file enc \<noteq> Inl InvalidSavError"
          "read_json demo_locked_file enc \<noteq> Inl InvalidSavError"
          "read_json demo_utf8_file enc \<noteq> Inl InvalidSavError" for enc
    by (simp_all add: demo_gbk_file_def demo_bad_file_def demo_locked_file_def
          demo_utf8_file_def)
  have c: "\<not> has_chardet demo_env" "has_chardet (demo_env\<lparr>has_chardet := True\<rparr>)"
    by (simp_all add: demo_env_def)
  have g: "read_json demo_gbk_file (Some (str ''utf-8'')) \<in> ?F"
          "read_json demo_gbk_file (Some (str ''utf-8-sig'')) \<in> ?F"
          "read_json demo_gbk_file (Some (str ''gbk'')) = Inr demo_doc"
          "demo_doc \<noteq> PNone"
    by (simp_all add: demo_gbk_file_def demo_doc_def str_def)
  have b: "read_json demo_bad_file enc \<in> ?F" for enc
    by (simp add: demo_bad_file_def)
  have x: "read_json demo_locked_file enc = Inl OtherError" for enc
    by (simp add: demo_locked_file_def)
  have u: "read_json demo_utf8_file enc = Inr demo_doc" for enc
    by (simp add: demo_utf8_file_def)
  from open_sav_fallbacks [OF f(4) r(4), where d = demo_doc and e = demo_env,
      THEN conjunct1, THEN mp, OF conjI [OF u g(4)]]
  have 0: "open_sav demo_env (demo_state []) (str ''/sav/b.sav'') = Inr demo_doc" .
  from open_sav_fallbacks [OF f(1) r(1), where d = demo_doc and e = demo_env,
      THEN conjunct2, THEN conjunct2, THEN conjunct2, THEN conjunct1, THEN mp,
      OF conjI [OF g(1) c(1)], THEN conjunct2, THEN conjunct2, THEN mp, OF g(2),
      THEN conjunct1, THEN mp, OF conjI [OF g(3,4)]]
  have 1: "open_sav demo_env (demo_state []) (str ''/sav/g.sav'') = Inr demo_doc" .
  from open_sav_fallbacks [OF f(2) r(2), where e = demo_env,
      THEN conjunct2, THEN conjunct2, THEN conjunct2, THEN conjunct1, THEN mp,
      OF conjI [OF b c(1)], THEN conjunct2, THEN conjunct2, THEN mp, OF b,
      THEN conjunct2, THEN conjunct2, THEN mp, OF b]
  have 2: "open_sav demo_env (demo_state []) (str ''/sav/a.sav'') = Inl InvalidSavError" .
  from open_sav_fallbacks [OF f(2) r(2), where e = "demo_env\<lparr>has_chardet := True\<rparr>",
      THEN conjunct2, THEN conjunct2, THEN conjunct1, THEN mp,
      OF conjI [OF b c(2)], THEN conjunct2, THEN conjunct2, THEN mp, OF b]
  have 3: "open_sav (demo_env\<lparr>has_chardet := True\<rparr>) (demo_state []) (str ''/sav/a.sav'')
       = Inl InvalidSavError" .
  have ne: "OtherError \<noteq> JSONDecodeError \<and> OtherError \<noteq> UnicodeDecodeError" by simp
  from open_sav_fallbacks [OF f(3) r(3), where e = demo_env and err = OtherError,
      THEN conjunct2, THEN conjunct1, THEN mp, OF conjI [OF x ne]]
  have 4: "open_sav demo_env (demo_state []) (str ''/sav/x.sav'') = Inl OtherError" .
  from 0 1 2 3 4 show ?thesis by simp
qed

lemma getitem_error: "getitem v k = Inl err \<Longrightarrow> err = KeyError \<or> err = TypeError"
  by (cases v) (simp_all split: option.splits)

lemma open_sav_sav_dir: "open_sav e (s\<lparr>sav_dir := d\<rparr>) path = open_sav e s path"
  by (simp add: open_sav_def)

lemma search_loop_sav_dir: "search_loop e (s\<lparr>sav_dir := d\<rparr>) n fs = search_loop e s n fs"
  by (induction fs) (simp_all add: open_sav_sav_dir cong: sum.case_cong if_cong)

lemma search_loop_skip:
  assumes "open_sav e s (path_join e (SAV_PATH_DIR e) f) = Inl InvalidSavError"
  shows "search_loop e s n (pre @ f # rest) = search_loop e s n (pre @ rest)"
  using assms by (induction pre) (simp_all cong: sum.case_cong if_cong)

lemma search_loop_not_invalid: "search_loop e s n fs \<noteq> Inl InvalidSavError"
proof (induction fs)
  case Nil
  show ?case by simp
next
  case (Cons f fs)
  show ?case
  proof (cases "open_sav e s (path_join e (SAV_PATH_DIR e) f)")
    case (Inl err)
    with Cons show ?thesis by simp
  next
    case (Inr sav)
    show ?thesis
    proof (cases "getitem sav (str ''InternalName'')")
      case (Inl err)
      with getitem_error [OF Inl] Inr show ?thesis by auto
    next
      case v: (Inr v)
      with Inr Cons show ?thesis by simp
    qed
  qed
qed

lemma search_loop_None:
  assumes "search_loop e s n fs = Inr None" and "f \<in> set fs"
  shows "open_sav e s (path_join e (SAV_PATH_DIR e) f) = Inl InvalidSavError \<or>
         (\<exists>sav v. open_sav e s (path_join e (SAV_PATH_DIR e) f) = Inr sav \<and>
                  getitem sav (str ''InternalName'') = Inr v \<and> \<not> py_eq v (PStr n))"
  using assms
proof (induction fs)
  case Nil
  then show ?case by simp
next
  case (Cons a fs)
  show ?case
  proof (cases "open_sav e s (path_join e (SAV_PATH_DIR e) a)")
    case (Inl err)
    with Cons show ?thesis by (auto split: if_splits)
  next
    case (Inr sav)
    with Cons show ?thesis by (auto simp: bind_err_Inr split: if_splits)
  qed
qed

text \<open>
  C10. \<open>search_experiment\<close> skips a file that \<open>_open_sav\<close> refuses with
  \<open>InvalidSavError\<close>: the search gives what it gives without that file in the directory,
  and never raises \<open>InvalidSavError\<close> itself. It returns \<open>(None, None)\<close> only if every
  \<open>.sav\<close> file of the directory is either refused in that way or is a document whose
  \<open>InternalName\<close> differs from the name searched for.
\<close>

theorem search_experiment_skips_invalid:
  "(sav_dir s = Some (pre @ f # rest) \<and>
    open_sav e s (path_join e (SAV_PATH_DIR e) f) = Inl InvalidSavError \<longrightarrow>
      search_experiment e s n = search_experiment e (s\<lparr>sav_dir := Some (pre @ rest)\<rparr>) n)
   \<and> search_experiment e s n \<noteq> Inl InvalidSavError
   \<and> (search_experiment e s n = Inr None \<longrightarrow>
        (\<exists>savs. sav_dir s = Some savs \<and>
           (\<forall>f \<in> set savs. endswith f (str ''.sav'') \<longrightarrow>
              open_sav e s (path_join e (SAV_PATH_DIR e) f) = Inl InvalidSavError \<or>
              (\<exists>sav v. open_sav e s (path_join e (SAV_PATH_DIR e) f) = Inr sav \<and>
                  getitem sav (str ''InternalName'') = Inr v \<and> \<not> py_eq v (PStr n)))))"
proof (intro conjI impI)
  assume a: "sav_dir s = Some (pre @ f # rest) \<and>
    open_sav e s (path_join e (SAV_PATH_DIR e) f) = Inl InvalidSavError"
  let ?P = "\<lambda>aSav. endswith aSav (str ''.sav'')"
  have "search_loop e s n (filter ?P (pre @ f # rest)) = search_loop e s n (filter ?P (pre @ rest))"
  proof (cases "?P f")
    case True
    with a search_loop_skip [of e s f n "filter ?P pre" "filter ?P rest"] show ?thesis by simp
  next
    case False
    then show ?thesis by simp
  qed
  with a show "search_experiment e s n = search_experiment e (s\<lparr>sav_dir := Some (pre @ rest)\<rparr>) n"
    by (simp add: search_experiment_def get_all_pl_sav_def search_loop_sav_dir)
next
  show "search_experiment e s n \<noteq> Inl InvalidSavError"
    by (cases "sav_dir s")
       (simp_all add: search_experiment_def get_all_pl_sav_def search_loop_not_invalid)
next
  assume n: "search_experiment e s n = Inr None"
  then obtain savs where s: "sav_dir s = Some savs"
    by (cases "sav_dir s") (simp_all add: search_experiment_def get_all_pl_sav_def)
  with n have l: "search_loop e s n (filter (\<lambda>aSav. endswith aSav (str ''.sav'')) savs) = Inr None"
    by (simp add: search_experiment_def get_all_pl_sav_def)
  have "\<forall>f \<in> set savs. endswith f (str ''.sav'') \<longrightarrow>
              open_sav e s (path_join e (SAV_PATH_DIR e) f) = Inl InvalidSavError \<or>
              (\<exists>sav v. open_sav e s (path_join e (SAV_PATH_DIR e) f) = Inr sav \<and>
                  getitem sav (str ''InternalName'') = Inr v \<and> \<not> py_eq v (PStr n))"
  proof (intro ballI impI)
    fix f assume "f \<in> set savs" "endswith f (str ''.sav'')"
    then have "f \<in> set (filter (\<lambda>aSav. endswith aSav (str ''.sav'')) savs)" by simp
    from search_loop_None [OF l this]
    show "open_sav e s (path_join e (SAV_PATH_DIR e) f) = Inl InvalidSavError \<or>
              (\<exists>sav v. open_sav e s (path_join e (SAV_PATH_DIR e) f) = Inr sav \<and>
                  getitem sav (str ''InternalName'') = Inr v \<and> \<not> py_eq v (PStr n))" .
  qed
  with s show "\<exists>savs. sav_dir s = Some savs \<and>
           (\<forall>f \<in> set savs. endswith f (str ''.sav'') \<longrightarrow>
              open_sav e s (path_join e (SAV_PATH_DIR e) f) = Inl InvalidSavError \<or>
              (\<exists>sav v. open_sav e s (path_join e (SAV_PATH_DIR e) f) = Inr sav \<and>
                  getitem sav (str ''InternalName'') = Inr v \<and> \<not> py_eq v (PStr n)))"
    by blast
qed

lemma demo_paths:
  "path_join demo_env (SAV_PATH_DIR demo_env) (str ''a.sav'') = str ''/sav/a.sav''"
  "path_join demo_env (SAV_PATH_DIR demo_env) (str ''b.sav'') = str ''/sav/b.sav''"
  by (simp_all add: demo_env_def str_def)

lemma demo_endswith:
  "endswith (str ''a.sav'') (str ''.sav'')" "endswith (str ''b.sav'') (str ''.sav'')"
  "\<not> endswith (str ''readme.txt'') (str ''.sav'')"
  by (simp_all add: endswith_def str_def)

lemma demo_internal_name: "getitem demo_doc (str ''InternalName'') = Inr (PStr (str ''T1''))"
  by (simp add: demo_doc_def str_def)

lemma demo_search:
  "search_experiment demo_env (demo_state st) (str ''T1'') = Inr (Some (str ''b.sav'', demo_doc))"
  "search_experiment demo_env (demo_state st) (str ''T2'') = Inr None"
proof -
  have d: "sav_dir (demo_state st) = Some [str ''a.sav'', str ''readme.txt'', str ''b.sav'']"
    by (simp add: demo_state_def)
  have e: "py_eq (PStr (str ''T1'')) (PStr (str ''T1''))"
    "\<not> py_eq (PStr (str ''T1'')) (PStr (str ''T2''))"
    by (simp_all add: py_eq_def str_def)
  show "search_experiment demo_env (demo_state st) (str ''T1'') = Inr (Some (str ''b.sav'', demo_doc))"
    by (simp add: search_experiment_def get_all_pl_sav_def d demo_endswith demo_paths
          demo_open_sav demo_internal_name e)
  show "search_experiment demo_env (demo_state st) (str ''T2'') = Inr None"
    by (simp add: search_experiment_def get_all_pl_sav_def d demo_endswith demo_paths
          demo_open_sav demo_internal_name e)
qed

theorem search_experiment_skips_invalid_witness:
  "open_sav demo_env (demo_state []) (str ''/sav/a.sav'') = Inl InvalidSavError
   \<and> search_experiment demo_env (demo_state []) (str ''T1'')
       = search_experiment demo_env
           (demo_state []\<lparr>sav_dir := Some [str ''readme.txt'', str ''b.sav'']\<rparr>) (str ''T1'')
   \<and> search_experiment demo_env (demo_state []) (str ''T1'') = Inr (Some (str ''b.sav'', demo_doc))
   \<and> search_experiment demo_env (demo_state []) (str ''T2'') = Inr None
   \<and> open_sav demo_env (demo_state []) (str ''/sav/b.sav'') = Inr demo_doc
   \<and> getitem demo_doc (str ''InternalName'') = Inr (PStr (str ''T1''))
   \<and> \<not> py_eq (PStr (str ''T1'')) (PStr (str ''T2''))"
proof -
  have d: "sav_dir (demo_state []) = Some ([] @ str ''a.sav'' # [str ''readme.txt'', str ''b.sav''])"
    by (simp add: demo_state_def)
  from search_experiment_skips_invalid [of "demo_state []" "[]" "str ''a.sav''"
      "[str ''readme.txt'', str ''b.sav'']" demo_env "str ''T1''"] d
  have 1: "search_experiment demo_env (demo_state []) (str ''T1'')
       = search_experiment demo_env
           (demo_state []\<lparr>sav_dir := Some [str ''readme.txt'', str ''b.sav'']\<rparr>) (str ''T1'')"
    by (simp add: demo_paths demo_open_sav)
  from search_experiment_skips_invalid [of "demo_state []" "[]" "str ''a.sav''"
      "[str ''readme.txt'', str ''b.sav'']" demo_env "str ''T2''"] demo_search(2) [of "[]"]
  have 2: "open_sav demo_env (demo_state [])
             (path_join demo_env (SAV_PATH_DIR demo_env) (str ''b.sav'')) = Inl InvalidSavError \<or>
           (\<exists>sav v. open_sav demo_env (demo_state [])
                (path_join demo_env (SAV_PATH_DIR demo_env) (str ''b.sav'')) = Inr sav \<and>
              getitem sav (str ''InternalName'') = Inr v \<and> \<not> py_eq v (PStr (str ''T2'')))"
    by (simp add: demo_state_def demo_endswith)
  then have 3: "\<not> py_eq (PStr (str ''T1'')) (PStr (str ''T2''))"
    by (simp add: demo_paths demo_open_sav demo_internal_name)
  from 1 3 show ?thesis by (simp add: demo_open_sav demo_search demo_internal_name)
qed

section \<open>The elements of a Celestial document\<close>

lemma load_elements_loop_data:
  assumes "experiment_type self \<noteq> Circuit"
  shows "load_elements_loop e self els = Inr objs \<Longrightarrow> map (PDict \<circ> data) objs = els"
proof (induction els arbitrary: objs)
  case Nil
  then show ?case by simp
next
  case (Cons el els)
  from Cons.prems obtain obj rest where
    o: "load_element e self el = Inr obj" "load_elements_loop e self els = Inr rest"
       "objs = obj # rest"
    by (auto simp: bind_err_Inr)
  from load_element_other [OF assms o(1)] have "PDict (data obj) = el" by auto
  with Cons.IH [OF o(2)] o(3) show ?case by simp
qed

lemma load_elements_loop_total:
  "\<forall>el \<in> set els. \<exists>obj. load_element e self el = Inr obj \<Longrightarrow>
     \<exists>objs. load_elements_loop e self els = Inr objs"
  by (induction els) auto

lemma dict_distinct_card: "distinct (map fst m) \<Longrightarrow> card (dom (map_of m)) = length m"
  by (simp add: dom_map_of_conv_image_fst distinct_card flip: set_map)

text \<open>
  C5. For a loaded Celestial experiment whose \<open>StatusSave\<close> has a dictionary of \<open>n\<close>
  entries under \<open>Elements\<close>, the loader is given the list of the dictionary's values:
  it has length \<open>n\<close> and the same members as the dictionary has values. The loaded
  elements carry exactly these values as their data, in that order, and loading succeeds
  whenever each value loads.
\<close>

theorem celestial_elements_are_values:
  assumes "open_mode self \<noteq> crt"
      and "experiment_type self = Celestial"
      and "getitem (PlSav self) (str ''Experiment'') = Inr ex"
      and "getitem ex (str ''StatusSave'') = Inr (PStr txt)"
      and "json_loads e txt = Inr status"
      and "getitem status (str ''Elements'') = Inr (PDict m)"
      and "distinct (map fst m)"
  shows "init_status e self = load_elements e self (PList (map snd m))
       \<and> length (map snd m) = card (dom (map_of m))
       \<and> set (map snd m) = ran (map_of m)
       \<and> (init_status e self = Inr self' \<longrightarrow>
            map (PDict \<circ> data) (Elements self') = map (PDict \<circ> data) (Elements self) @ map snd m)
       \<and> ((\<forall>el \<in> set (map snd m). \<exists>obj. load_element e self el = Inr obj) \<longrightarrow>
            (\<exists>self'. init_status e self = Inr self'))"
proof -
  from assms(1) have mode: "open_mode self = load_by_sav_name \<or> open_mode self = load_by_filepath
           \<or> open_mode self = load_by_plar_app"
    by (cases "open_mode self") simp_all
  have i: "init_status e self = load_elements e self (PList (map snd m))"
    using mode assms(2-6) by (simp add: init_status_def)
  have t: "experiment_type self \<noteq> Circuit" using assms(2) by simp
  have 4: "map (PDict \<circ> data) (Elements self') = map (PDict \<circ> data) (Elements self) @ map snd m"
    if "init_status e self = Inr self'"
  proof -
    from that i obtain objs where
      o: "load_elements_loop e self (map snd m) = Inr objs" "self' = self\<lparr>Elements := Elements self @ objs\<rparr>"
      by (auto simp: load_elements_def bind_err_Inr)
    from load_elements_loop_data [OF t o(1)] o(2) show ?thesis by simp
  qed
  have 5: "\<exists>self'. init_status e self = Inr self'"
    if "\<forall>el \<in> set (map snd m). \<exists>obj. load_element e self el = Inr obj"
  proof -
    from load_elements_loop_total [OF that] obtain objs where
      "load_elements_loop e self (map snd m) = Inr objs" by blast
    then show ?thesis by (simp add: i load_elements_def)
  qed
  from i 4 5 assms(7) show ?thesis
    by (simp add: dict_distinct_card ran_distinct image_image)
qed

theorem celestial_elements_are_values_witness:
  "\<exists>self'. init_status demo_env demo_loaded = Inr self' \<and>
      map (PDict \<circ> data) (Elements self') = map snd demo_bodies \<and>
      length (Elements self') = 3 \<and> card (dom (map_of demo_bodies)) = 3"
proof -
  have 1: "open_mode demo_loaded \<noteq> crt" "experiment_type demo_loaded = Celestial"
    "Elements demo_loaded = []"
    by (simp_all add: demo_loaded_def)
  have 3: "getitem (PlSav demo_loaded) (str ''Experiment'') =
             Inr (PDict [(str ''Type'', PInt 3), (str ''CameraSave'', PStr demo_camera_text),
                         (str ''StatusSave'', PStr demo_status_text)])"
    by (simp add: demo_loaded_def str_def)
  have 4: "getitem (PDict [(str ''Type'', PInt 3), (str ''CameraSave'', PStr demo_camera_text),
                         (str ''StatusSave'', PStr demo_status_text)]) (str ''StatusSave'')
             = Inr (PStr demo_status_text)"
    by (simp add: str_def)
  have 5: "json_loads demo_env demo_status_text = Inr (PDict [(str ''Elements'', PDict demo_bodies)])"
    by (simp add: demo_env_def demo_json_def demo_status_text_def demo_camera_text_def str_def)
  have 6: "getitem (PDict [(str ''Elements'', PDict demo_bodies)]) (str ''Elements'')
             = Inr (PDict demo_bodies)"
    by simp
  have 7: "distinct (map fst demo_bodies)" by (simp add: demo_bodies_def str_def)
  have l: "length (map snd demo_bodies) = 3" by (simp add: demo_bodies_def)
  have a: "\<forall>el \<in> set (map snd demo_bodies). \<exists>obj. load_element demo_env demo_loaded el = Inr obj"
    by (simp add: demo_bodies_def demo_load_body demo_names)
  note th = celestial_elements_are_values [OF 1(1,2) 3 4 5 6 7]
  from th a obtain self' where s: "init_status demo_env demo_loaded = Inr self'" by blast
  from th [of self'] s have
    d: "map (PDict \<circ> data) (Elements self') = map snd demo_bodies"
    and c: "length (map snd demo_bodies) = card (dom (map_of demo_bodies))"
    by (simp_all add: 1)
  from d have "length (map (PDict \<circ> data) (Elements self')) = length (map snd demo_bodies)"
    by (rule arg_cong)
  with l have "length (Elements self') = 3" by simp
  with s d c l show ?thesis by auto
qed

section \<open>Opening an experiment and the stack\<close>

lemma os_remove_stack: "os_remove e path s = Inr s1 \<Longrightarrow> stack s1 = stack s"
  by (auto simp: os_remove_def split: if_splits)

lemma crt_branch_stack: "stack (fst (crt_branch e s name ty force_crt)) = stack s"
  by (auto simp: crt_branch_def Let_def dest!: os_remove_stack
           split: sum.splits option.splits prod.splits)

lemma crt_branch_not_found:
  "search_experiment e s name = Inr None \<Longrightarrow>
     crt_branch e s name ty force_crt = (s, Inr (crt_new e name ty))"
  by (simp add: crt_branch_def)

lemma init_crt_cases:
  "init_crt e s args kwargs = (s, Inl TypeError) \<or> init_crt e s args kwargs = (s, Inl ValueError)
   \<or> (\<exists>name ty force_crt. init_crt e s args kwargs = crt_branch e s name ty force_crt)"
  unfolding init_crt_def
  by (simp split: list.split pyval.split sum.split) blast

lemma init_crt_stack: "stack (fst (init_crt e s args kwargs)) = stack s"
  using init_crt_cases [of e s args kwargs] crt_branch_stack by fastforce

lemma open_load_by_filepath_conflict:
  assumes "files s (abspath e name) \<noteq> None"
      and "ExperimentStack_inside (stack s) (abspath e name)"
  shows "Experiment_open e s (POpenMode load_by_filepath) [PStr name] kwargs
           = (s, Inl ExperimentOpenedError)"
  using assms by (auto simp: Experiment_open_def init_load_by_filepath_def Let_def)

lemma open_load_by_sav_name_conflict:
  assumes "search_experiment e s name = Inr (Some (filename, plsav))"
      and "ExperimentStack_inside (stack s) (path_join e (SAV_PATH_DIR e) filename)"
  shows "Experiment_open e s (POpenMode load_by_sav_name) [PStr name] kwargs
           = (s, Inl ExperimentOpenedError)"
  using assms by (simp add: Experiment_open_def init_load_by_sav_name_def Let_def)

lemma open_load_by_plar_app_conflict:
  assumes "new_user e = Inr dflt"
      and "dict_get (PDict kwargs) (str ''user'') dflt = Inr (PUser u)"
      and "ExperimentStack_inside (stack s) (path_join e (SAV_PATH_DIR e) (cid @ str ''.sav''))"
  shows "Experiment_open e s (POpenMode load_by_plar_app) [PStr cid, PCategory cat] kwargs
           = (s, Inl ExperimentOpenedError)"
  using assms by (simp add: Experiment_open_def init_load_by_plar_app_def Let_def del: dict_get.simps)

lemma open_crt_no_check:
  assumes "search_experiment e s name = Inr None"
  shows "Experiment_open e s (POpenMode crt) [PStr name, PExperimentType ty] []
           = (s\<lparr>stack := stack s @ [SAV_PATH (crt_new e name ty)]\<rparr>, Inr (crt_new e name ty))"
  using assms
  by (simp add: Experiment_open_def init_crt_def crt_branch_not_found ExperimentStack_push_def)

lemma open_stack:
  assumes "Experiment_open e s mode args kwargs = (s1, r)"
  shows "stack s1 = (case r of Inl err \<Rightarrow> stack s | Inr self \<Rightarrow> stack s @ [SAV_PATH self])"
proof (cases "\<exists>m. mode = POpenMode m \<and> args \<noteq> []")
  case False
  with assms show ?thesis
    by (cases mode) (auto simp: Experiment_open_def split: if_splits)
next
  case True
  then obtain m where m: "mode = POpenMode m" "args \<noteq> []" by blast
  define b where "b = (case m of
                     load_by_filepath \<Rightarrow> (s, init_load_by_filepath e s args)
                   | load_by_sav_name \<Rightarrow> (s, init_load_by_sav_name e s args)
                   | load_by_plar_app \<Rightarrow> (s, init_load_by_plar_app e s args kwargs)
                   | crt \<Rightarrow> init_crt e s args kwargs)"
  have st: "stack (fst b) = stack s"
    unfolding b_def by (cases m) (simp_all add: init_crt_stack)
  from assms m have "(s1, r) = (case b of
               (s1, Inl err) \<Rightarrow> (s1, Inl err)
             | (s1, Inr self) \<Rightarrow>
                 (s1\<lparr>stack := ExperimentStack_push (stack s1) (SAV_PATH self)\<rparr>, Inr self))"
    by (simp add: Experiment_open_def b_def)
  with st show ?thesis
    by (cases b; cases "snd b") (auto simp: ExperimentStack_push_def)
qed

lemma demo_crt_path:
  "SAV_PATH (crt_new demo_env name ty) = str ''/sav/aaaaaaaaaaaaaaaaaaaaaaaaaaaaaaaaaa.sav''"
  by (cases ty) (simp_all add: crt_new_def Let_def demo_env_def str_def eval_nat_numeral)

lemma open_load_by_filepath_missing:
  assumes "files s (abspath e name) = None"
  shows "Experiment_open e s (POpenMode load_by_filepath) [PStr name] kwargs
           = (s, Inl FileNotFoundError)"
  using assms by (simp add: Experiment_open_def init_load_by_filepath_def Let_def)

text \<open>
  C2 (as stated). A save path that is on the stack should make the construction fail
  with \<open>ExperimentOpenedError\<close>. An experiment made in mode \<open>crt\<close> is on the stack
  under its new path and has no file before it is saved: opening that path in mode
  \<open>load_by_filepath\<close> raises \<open>FileNotFoundError\<close>, for the branch tests that the file
  exists before it looks at the stack.
\<close>

theorem open_missing_file_on_stack:
  "Experiment_open demo_env (demo_state []) (POpenMode crt)
       [PStr (str ''T2''), PExperimentType Circuit] []
     = (demo_state [str ''/sav/aaaaaaaaaaaaaaaaaaaaaaaaaaaaaaaaaa.sav''],
        Inr (crt_new demo_env (str ''T2'') Circuit))
   \<and> SAV_PATH (crt_new demo_env (str ''T2'') Circuit)
       = str ''/sav/aaaaaaaaaaaaaaaaaaaaaaaaaaaaaaaaaa.sav''
   \<and> ExperimentStack_inside
       (stack (demo_state [str ''/sav/aaaaaaaaaaaaaaaaaaaaaaaaaaaaaaaaaa.sav'']))
       (abspath demo_env (str ''/sav/aaaaaaaaaaaaaaaaaaaaaaaaaaaaaaaaaa.sav''))
   \<and> Experiment_open demo_env (demo_state [str ''/sav/aaaaaaaaaaaaaaaaaaaaaaaaaaaaaaaaaa.sav''])
       (POpenMode load_by_filepath) [PStr (str ''/sav/aaaaaaaaaaaaaaaaaaaaaaaaaaaaaaaaaa.sav'')] []
     = (demo_state [str ''/sav/aaaaaaaaaaaaaaaaaaaaaaaaaaaaaaaaaa.sav''], Inl FileNotFoundError)"
proof -
  let ?p = "str ''/sav/aaaaaaaaaaaaaaaaaaaaaaaaaaaaaaaaaa.sav''"
  have 1: "Experiment_open demo_env (demo_state []) (POpenMode crt)
       [PStr (str ''T2''), PExperimentType Circuit] []
     = (demo_state [?p], Inr (crt_new demo_env (str ''T2'') Circuit))"
    by (simp add: open_crt_no_check demo_search demo_crt_path) (simp add: demo_state_def)
  have 3: "ExperimentStack_inside (stack (demo_state [?p])) (abspath demo_env ?p)"
    by (simp add: ExperimentStack_inside_def demo_state_def demo_env_def)
  have f: "files (demo_state [?p]) (abspath demo_env ?p) = None"
    by (simp add: demo_state_def demo_files_def demo_env_def str_def)
  from 1 3 open_load_by_filepath_missing [OF f] show ?thesis
    by (simp add: demo_crt_path)
qed

text \<open>
  C2 (amended). In mode \<open>load_by_filepath\<close> the existence of the file is tested first:
  a path without a file raises \<open>FileNotFoundError\<close>, on the stack or not, and a path
  with a file that is on the stack raises \<open>ExperimentOpenedError\<close>. In the modes
  \<open>load_by_sav_name\<close> and \<open>load_by_plar_app\<close> the path is that of the file found for
  the name, or the one made of the content id once the user is there, and a path on the
  stack raises \<open>ExperimentOpenedError\<close>. In each case the state is left as it was. Mode
  \<open>crt\<close> makes a new file name and does not look at the stack: when no experiment of
  the name exists, the new experiment is built and pushed whatever the stack holds. In
  every mode the part of the construction up to the push leaves the stack as it was
  when it raises, and with the new experiment's path added last when it does not.
\<close>

theorem open_conflict_and_push:
  "(files s (abspath e name) = None \<longrightarrow>
      Experiment_open e s (POpenMode load_by_filepath) [PStr name] kwargs
        = (s, Inl FileNotFoundError))
   \<and> (files s (abspath e name) \<noteq> None \<and> ExperimentStack_inside (stack s) (abspath e name) \<longrightarrow>
      Experiment_open e s (POpenMode load_by_filepath) [PStr name] kwargs
        = (s, Inl ExperimentOpenedError))
   \<and> (search_experiment e s name = Inr (Some (filename, plsav)) \<and>
       ExperimentStack_inside (stack s) (path_join e (SAV_PATH_DIR e) filename) \<longrightarrow>
      Experiment_open e s (POpenMode load_by_sav_name) [PStr name] kwargs
        = (s, Inl ExperimentOpenedError))
   \<and> (new_user e = Inr dflt \<and> dict_get (PDict kwargs) (str ''user'') dflt = Inr (PUser u) \<and>
       ExperimentStack_inside (stack s) (path_join e (SAV_PATH_DIR e) (name @ str ''.sav'')) \<longrightarrow>
      Experiment_open e s (POpenMode load_by_plar_app) [PStr name, PCategory cat] kwargs
        = (s, Inl ExperimentOpenedError))
   \<and> (search_experiment e s name = Inr None \<longrightarrow>
      Experiment_open e s (POpenMode crt) [PStr name, PExperimentType ty] []
        = (s\<lparr>stack := stack s @ [SAV_PATH (crt_new e name ty)]\<rparr>, Inr (crt_new e name ty)))
   \<and> (Experiment_open e s mode args kwargs = (s1, r) \<longrightarrow>
      stack s1 = (case r of Inl err \<Rightarrow> stack s | Inr self \<Rightarrow> stack s @ [SAV_PATH self]))"
  using open_load_by_filepath_missing [of s e name kwargs]
    open_load_by_filepath_conflict [of s e name kwargs]
    open_load_by_sav_name_conflict [of e s name filename plsav kwargs]
    open_load_by_plar_app_conflict [of e dflt kwargs u s name cat]
    open_crt_no_check [of e s name ty]
    open_stack [of e s mode args kwargs s1 r]
  by blast

theorem open_conflict_and_push_witness:
  "Experiment_open demo_env (demo_state [str ''/sav/b.sav'']) (POpenMode load_by_filepath)
     [PStr (str ''/sav/b.sav'')] [] = (demo_state [str ''/sav/b.sav''], Inl ExperimentOpenedError)
   \<and> Experiment_open demo_env (demo_state [str ''/sav/none.sav'']) (POpenMode load_by_filepath)
     [PStr (str ''/sav/none.sav'')] [] = (demo_state [str ''/sav/none.sav''], Inl FileNotFoundError)
   \<and> Experiment_open demo_env (demo_state [str ''/sav/b.sav'']) (POpenMode load_by_sav_name)
     [PStr (str ''T1'')] [] = (demo_state [str ''/sav/b.sav''], Inl ExperimentOpenedError)
   \<and> Experiment_open demo_env (demo_state [str ''/sav/b.sav'']) (POpenMode load_by_plar_app)
     [PStr (str ''b''), PCategory Discussion_area] []
       = (demo_state [str ''/sav/b.sav''], Inl ExperimentOpenedError)
   \<and> Experiment_open demo_env (demo_state [str ''/sav/b.sav'']) (POpenMode crt)
     [PStr (str ''T2''), PExperimentType Celestial] []
       = (demo_state [str ''/sav/b.sav'', str ''/sav/aaaaaaaaaaaaaaaaaaaaaaaaaaaaaaaaaa.sav''],
          Inr (crt_new demo_env (str ''T2'') Celestial))"
proof -
  let ?s = "demo_state [str ''/sav/b.sav'']"
  let ?n = "demo_state [str ''/sav/none.sav'']"
  note th = open_conflict_and_push [where s = ?s and e = demo_env and kwargs = "[]"]
  have f: "files ?s (abspath demo_env (str ''/sav/b.sav'')) \<noteq> None"
    "files ?n (abspath demo_env (str ''/sav/none.sav'')) = None"
    by (simp_all add: demo_state_def demo_files_def demo_env_def str_def)
  have i: "ExperimentStack_inside (stack ?s) (abspath demo_env (str ''/sav/b.sav''))"
    "ExperimentStack_inside (stack ?s) (path_join demo_env (SAV_PATH_DIR demo_env) (str ''b.sav''))"
    "ExperimentStack_inside (stack ?s)
       (path_join demo_env (SAV_PATH_DIR demo_env) (str ''b'' @ str ''.sav''))"
    by (simp_all add: ExperimentStack_inside_def demo_state_def demo_env_def str_def)
  have u: "new_user demo_env = Inr (PUser 0)"
    "dict_get (PDict []) (str ''user'') (PUser 0) = Inr (PUser 0)"
    by (simp_all add: demo_env_def)
  from th [where name = "str ''/sav/b.sav''"] f(1) i(1)
  have 1: "Experiment_open demo_env ?s (POpenMode load_by_filepath)
     [PStr (str ''/sav/b.sav'')] [] = (?s, Inl ExperimentOpenedError)" by blast
  from open_conflict_and_push [where s = ?n and e = demo_env and kwargs = "[]"
      and name = "str ''/sav/none.sav''"] f(2)
  have 0: "Experiment_open demo_env ?n (POpenMode load_by_filepath)
     [PStr (str ''/sav/none.sav'')] [] = (?n, Inl FileNotFoundError)" by blast
  from th [where name = "str ''T1''" and filename = "str ''b.sav''" and plsav = demo_doc]
    demo_search(1) i(2)
  have 2: "Experiment_open demo_env ?s (POpenMode load_by_sav_name)
     [PStr (str ''T1'')] [] = (?s, Inl ExperimentOpenedError)" by blast
  from th [where name = "str ''b''" and dflt = "PUser 0" and u = 0 and cat = Discussion_area]
    u i(3)
  have 3: "Experiment_open demo_env ?s (POpenMode load_by_plar_app)
     [PStr (str ''b''), PCategory Discussion_area] [] = (?s, Inl ExperimentOpenedError)" by blast
  from th [where name = "str ''T2''" and ty = Celestial] demo_search(2)
  have 4: "Experiment_open demo_env ?s (POpenMode crt)
     [PStr (str ''T2''), PExperimentType Celestial] []
       = (?s\<lparr>stack := stack ?s @ [SAV_PATH (crt_new demo_env (str ''T2'') Celestial)]\<rparr>,
          Inr (crt_new demo_env (str ''T2'') Celestial))" by blast
  have 5: "?s\<lparr>stack := stack ?s @ [SAV_PATH (crt_new demo_env (str ''T2'') Celestial)]\<rparr>
      = demo_state [str ''/sav/b.sav'', str ''/sav/aaaaaaaaaaaaaaaaaaaaaaaaaaaaaaaaaa.sav'']"
    by (simp add: demo_crt_path) (simp add: demo_state_def)
  from 0 1 2 3 4 5 show ?thesis by simp
qed

section \<open>Leaving a \<open>with\<close> block: properties\<close>

lemma and_then_simps:
  "and_then (s, None) f = f s" "and_then (s, Some err) f = (s, Some err)"
  by (simp_all add: and_then_def)

lemma Experiment_exit_keep:
  "Experiment_exit e self False s = (s\<lparr>stack := remove1 (SAV_PATH self) (stack s)\<rparr>, None)"
  by (simp add: Experiment_exit_def ExperimentStack_remove_def)

lemma Experiment_save_returns:
  assumes "save_raises e self extra s = None"
  shows "Experiment_save e self extra s =
           (s\<lparr>files := (case extra of
                           None \<Rightarrow> (files s)(SAV_PATH self \<mapsto> written e self)
                         | Some p \<Rightarrow> (files s)(SAV_PATH self \<mapsto> written e self,
                                                  p \<mapsto> written e self))\<rparr>, None)"
  using assms by (simp add: Experiment_save_def Let_def)

lemma Experiment_save_raises:
  assumes "save_raises e self extra s = Some err"
  shows "Experiment_save e self extra s = (s, Some err)"
  using assms by (simp add: Experiment_save_def)

lemma experiment_dunder_exit_no_save:
  assumes "exc_type \<noteq> None \<or> w_is_exit w \<or> (\<not> w_write w \<and> \<not> w_delete w)"
  shows "experiment_dunder_exit e w exc_type s
           = (s\<lparr>stack := remove1 (SAV_PATH (w_Experiment w)) (stack s)\<rparr>, None)"
  using assms by (auto simp: experiment_dunder_exit_def Experiment_exit_keep and_then_simps)

lemma demo_on_stack:
  "SAV_PATH demo_loaded = str ''/sav/b.sav''"
  "stack (demo_state [str ''/sav/b.sav'']) = [str ''/sav/b.sav'']"
  "ExperimentStack_inside (stack (demo_state [str ''/sav/b.sav''])) (SAV_PATH demo_loaded)"
  by (simp_all add: demo_loaded_def demo_state_def ExperimentStack_inside_def)

lemma demo_save_raises:
  "save_raises demo_env self extra s = None"
  "save_raises (demo_env\<lparr>save_raises := (\<lambda>self extra s. Some OtherError)\<rparr>) self extra s
     = Some OtherError"
  by (simp_all add: demo_env_def)

text \<open>
  C3 (as stated). An experiment whose scope is left without an error and without an
  explicit exit should be saved and then exited, and its entry should be off the stack
  in every case. With the older class \<open>experiment\<close> and \<open>write=False\<close> the experiment
  is exited only: its file is what it was, where a save would have written the document.
  And when the \<open>save\<close> of \<open>Experiment.__exit__\<close> raises, \<open>exit\<close> is not reached: the
  error comes out of the \<open>with\<close> statement and the experiment is still on the stack.
\<close>

theorem experiment_exit_without_save:
  "ExperimentStack_inside (stack (demo_state [str ''/sav/b.sav''])) (SAV_PATH demo_loaded)
   \<and> experiment_dunder_exit demo_env
       \<lparr>w_delete = False, w_write = False, w_extra_filepath = None, w_is_exit = False,
        w_Experiment = demo_loaded\<rparr>
       None (demo_state [str ''/sav/b.sav'']) = (demo_state [], None)
   \<and> Experiment_save demo_env demo_loaded None (demo_state [])
       = ((demo_state [])\<lparr>files := demo_files(str ''/sav/b.sav'' \<mapsto> written demo_env demo_loaded)\<rparr>,
          None)
   \<and> demo_files (str ''/sav/b.sav'') \<noteq> Some (written demo_env demo_loaded)
   \<and> Experiment_dunder_exit (demo_env\<lparr>save_raises := (\<lambda>self extra s. Some OtherError)\<rparr>)
       demo_loaded None (demo_state [str ''/sav/b.sav''])
     = (demo_state [str ''/sav/b.sav''], Some OtherError)"
proof -
  have 2: "experiment_dunder_exit demo_env
       \<lparr>w_delete = False, w_write = False, w_extra_filepath = None, w_is_exit = False,
        w_Experiment = demo_loaded\<rparr>
       None (demo_state [str ''/sav/b.sav'']) = (demo_state [], None)"
    by (simp add: experiment_dunder_exit_no_save demo_on_stack) (simp add: demo_state_def)
  have 3: "Experiment_save demo_env demo_loaded None (demo_state [])
       = ((demo_state [])\<lparr>files := demo_files(str ''/sav/b.sav'' \<mapsto> written demo_env demo_loaded)\<rparr>,
          None)"
    by (simp add: Experiment_save_returns demo_save_raises demo_on_stack)
       (simp add: demo_state_def)
  have 4: "demo_files (str ''/sav/b.sav'') \<noteq> Some (written demo_env demo_loaded)"
    by (simp add: demo_files_def demo_env_def demo_utf8_file_def str_def)
  have 5: "Experiment_dunder_exit (demo_env\<lparr>save_raises := (\<lambda>self extra s. Some OtherError)\<rparr>)
       demo_loaded None (demo_state [str ''/sav/b.sav''])
     = (demo_state [str ''/sav/b.sav''], Some OtherError)"
    by (simp add: Experiment_dunder_exit_def demo_on_stack(3) Experiment_save_raises
          demo_save_raises and_then_simps)
  from 2 3 4 5 demo_on_stack(3) show ?thesis by simp
qed

text \<open>
  C3 (amended). \<open>Experiment.__exit__\<close>, when the block ended without an exception: an
  experiment that is still on the stack is saved, and when the save returns it is
  exited, its entry removed and its file kept; when the save raises, the error goes on
  and the experiment stays on the stack; an experiment that is no longer on the stack
  is left alone. The \<open>__exit__\<close> of the older class \<open>experiment\<close>, for an experiment on
  the stack: after an exception or with \<open>is_exit\<close> it removes the entry and touches no
  file; otherwise it saves first only when \<open>write\<close> is true and \<open>delete\<close> false, and
  then, when the save returned, removes the entry; with \<open>delete\<close> it saves nothing
  and calls \<open>exit(delete=True)\<close>, which, when it returns, has removed the entry and
  deleted the experiment's file.
\<close>

theorem scope_exit_saves_and_exits:
  "(ExperimentStack_inside (stack s) (SAV_PATH self) \<and> save_raises e self None s = None \<longrightarrow>
      stack (fst (Experiment_dunder_exit e self None s)) = remove1 (SAV_PATH self) (stack s)
      \<and> files (fst (Experiment_dunder_exit e self None s))
          = (files s)(SAV_PATH self \<mapsto> written e self)
      \<and> snd (Experiment_dunder_exit e self None s) = None)
   \<and> (ExperimentStack_inside (stack s) (SAV_PATH self) \<and> save_raises e self None s = Some err \<longrightarrow>
      Experiment_dunder_exit e self None s = (s, Some err))
   \<and> (\<not> ExperimentStack_inside (stack s) (SAV_PATH self) \<longrightarrow>
      Experiment_dunder_exit e self None s = (s, None))
   \<and> (ExperimentStack_inside (stack s) (SAV_PATH (w_Experiment w)) \<and>
       (exc_type \<noteq> None \<or> w_is_exit w) \<longrightarrow>
      experiment_dunder_exit e w exc_type s
        = (s\<lparr>stack := remove1 (SAV_PATH (w_Experiment w)) (stack s)\<rparr>, None))
   \<and> (ExperimentStack_inside (stack s) (SAV_PATH (w_Experiment w)) \<and>
       exc_type = None \<and> \<not> w_is_exit w \<and> w_write w \<and> \<not> w_delete w \<and>
       save_raises e (w_Experiment w) (w_extra_filepath w) s = None \<longrightarrow>
      stack (fst (experiment_dunder_exit e w exc_type s))
        = remove1 (SAV_PATH (w_Experiment w)) (stack s)
      \<and> files (fst (experiment_dunder_exit e w exc_type s))
          = files (fst (Experiment_save e (w_Experiment w) (w_extra_filepath w) s))
      \<and> (w_extra_filepath w = None \<longrightarrow>
           files (fst (experiment_dunder_exit e w exc_type s))
             = (files s)(SAV_PATH (w_Experiment w) \<mapsto> written e (w_Experiment w)))
      \<and> snd (experiment_dunder_exit e w exc_type s) = None)
   \<and> (ExperimentStack_inside (stack s) (SAV_PATH (w_Experiment w)) \<and>
       exc_type = None \<and> \<not> w_is_exit w \<and> w_write w \<and> \<not> w_delete w \<and>
       save_raises e (w_Experiment w) (w_extra_filepath w) s = Some err \<longrightarrow>
      experiment_dunder_exit e w exc_type s = (s, Some err))
   \<and> (ExperimentStack_inside (stack s) (SAV_PATH (w_Experiment w)) \<and>
       exc_type = None \<and> \<not> w_is_exit w \<and> \<not> w_write w \<and> \<not> w_delete w \<longrightarrow>
      experiment_dunder_exit e w exc_type s
        = (s\<lparr>stack := remove1 (SAV_PATH (w_Experiment w)) (stack s)\<rparr>, None))
   \<and> (ExperimentStack_inside (stack s) (SAV_PATH (w_Experiment w)) \<and>
       exc_type = None \<and> \<not> w_is_exit w \<and> w_delete w \<longrightarrow>
      experiment_dunder_exit e w exc_type s = Experiment_exit e (w_Experiment w) True s
      \<and> (snd (experiment_dunder_exit e w exc_type s) = None \<longrightarrow>
           stack (fst (experiment_dunder_exit e w exc_type s))
             = remove1 (SAV_PATH (w_Experiment w)) (stack s)
           \<and> files (fst (experiment_dunder_exit e w exc_type s))
               = (files s)(SAV_PATH (w_Experiment w) := None)))"
proof (intro conjI impI)
  assume a: "ExperimentStack_inside (stack s) (SAV_PATH self) \<and> save_raises e self None s = None"
  then have r: "Experiment_dunder_exit e self None s =
      (s\<lparr>files := (files s)(SAV_PATH self \<mapsto> written e self),
         stack := remove1 (SAV_PATH self) (stack s)\<rparr>, None)"
    by (simp add: Experiment_dunder_exit_def Experiment_save_returns and_then_simps
          Experiment_exit_keep)
  show "stack (fst (Experiment_dunder_exit e self None s)) = remove1 (SAV_PATH self) (stack s)"
    by (simp add: r)
  show "files (fst (Experiment_dunder_exit e self None s))
          = (files s)(SAV_PATH self \<mapsto> written e self)"
    by (simp add: r)
  show "snd (Experiment_dunder_exit e self None s) = None"
    by (simp add: r)
next
  assume "ExperimentStack_inside (stack s) (SAV_PATH self) \<and> save_raises e self None s = Some err"
  then show "Experiment_dunder_exit e self None s = (s, Some err)"
    by (simp add: Experiment_dunder_exit_def Experiment_save_raises and_then_simps)
next
  assume "\<not> ExperimentStack_inside (stack s) (SAV_PATH self)"
  then show "Experiment_dunder_exit e self None s = (s, None)"
    by (simp add: Experiment_dunder_exit_def)
next
  assume "ExperimentStack_inside (stack s) (SAV_PATH (w_Experiment w)) \<and>
       (exc_type \<noteq> None \<or> w_is_exit w)"
  then show "experiment_dunder_exit e w exc_type s
        = (s\<lparr>stack := remove1 (SAV_PATH (w_Experiment w)) (stack s)\<rparr>, None)"
    by (intro experiment_dunder_exit_no_save) blast
next
  assume a: "ExperimentStack_inside (stack s) (SAV_PATH (w_Experiment w)) \<and>
       exc_type = None \<and> \<not> w_is_exit w \<and> w_write w \<and> \<not> w_delete w \<and>
       save_raises e (w_Experiment w) (w_extra_filepath w) s = None"
  then have r: "experiment_dunder_exit e w exc_type s =
      (s\<lparr>files := (case w_extra_filepath w of
               None \<Rightarrow> (files s)(SAV_PATH (w_Experiment w) \<mapsto> written e (w_Experiment w))
             | Some p \<Rightarrow> (files s)(SAV_PATH (w_Experiment w) \<mapsto> written e (w_Experiment w),
                                      p \<mapsto> written e (w_Experiment w))),
         stack := remove1 (SAV_PATH (w_Experiment w)) (stack s)\<rparr>, None)"
    by (simp add: experiment_dunder_exit_def Experiment_save_returns and_then_simps
          Experiment_exit_keep)
  show "stack (fst (experiment_dunder_exit e w exc_type s))
        = remove1 (SAV_PATH (w_Experiment w)) (stack s)"
    by (simp add: r)
  from a show "files (fst (experiment_dunder_exit e w exc_type s))
          = files (fst (Experiment_save e (w_Experiment w) (w_extra_filepath w) s))"
    by (simp add: experiment_dunder_exit_def Experiment_save_returns and_then_simps
          Experiment_exit_keep)
  show "files (fst (experiment_dunder_exit e w exc_type s))
             = (files s)(SAV_PATH (w_Experiment w) \<mapsto> written e (w_Experiment w))"
    if "w_extra_filepath w = None"
    using that by (simp add: r)
  show "snd (experiment_dunder_exit e w exc_type s) = None"
    by (simp add: r)
next
  assume "ExperimentStack_inside (stack s) (SAV_PATH (w_Experiment w)) \<and>
       exc_type = None \<and> \<not> w_is_exit w \<and> w_write w \<and> \<not> w_delete w \<and>
       save_raises e (w_Experiment w) (w_extra_filepath w) s = Some err"
  then show "experiment_dunder_exit e w exc_type s = (s, Some err)"
    by (simp add: experiment_dunder_exit_def Experiment_save_raises and_then_simps)
next
  assume "ExperimentStack_inside (stack s) (SAV_PATH (w_Experiment w)) \<and>
       exc_type = None \<and> \<not> w_is_exit w \<and> \<not> w_write w \<and> \<not> w_delete w"
  then show "experiment_dunder_exit e w exc_type s
        = (s\<lparr>stack := remove1 (SAV_PATH (w_Experiment w)) (stack s)\<rparr>, None)"
    by (intro experiment_dunder_exit_no_save) blast
next
  assume a: "ExperimentStack_inside (stack s) (SAV_PATH (w_Experiment w)) \<and>
       exc_type = None \<and> \<not> w_is_exit w \<and> w_delete w"
  then show r: "experiment_dunder_exit e w exc_type s = Experiment_exit e (w_Experiment w) True s"
    by (simp add: experiment_dunder_exit_def and_then_simps)
  show "stack (fst (experiment_dunder_exit e w exc_type s))
        = remove1 (SAV_PATH (w_Experiment w)) (stack s)"
    if "snd (experiment_dunder_exit e w exc_type s) = None"
    by (simp add: r Experiment_exit_def ExperimentStack_remove_def Let_def split: option.split)
  show "files (fst (experiment_dunder_exit e w exc_type s))
             = (files s)(SAV_PATH (w_Experiment w) := None)"
    if "snd (experiment_dunder_exit e w exc_type s) = None"
    using that
    by (simp add: r Experiment_exit_def ExperimentStack_remove_def Let_def split: option.splits)
qed

theorem scope_exit_saves_and_exits_witness:
  "Experiment_dunder_exit demo_env demo_loaded None (demo_state [str ''/sav/b.sav''])
     = ((demo_state [])\<lparr>files := demo_files(str ''/sav/b.sav'' \<mapsto> written demo_env demo_loaded)\<rparr>,
        None)
   \<and> Experiment_dunder_exit (demo_env\<lparr>save_raises := (\<lambda>self extra s. Some OtherError)\<rparr>)
       demo_loaded None (demo_state [str ''/sav/b.sav''])
     = (demo_state [str ''/sav/b.sav''], Some OtherError)
   \<and> Experiment_dunder_exit demo_env demo_loaded None (demo_state []) = (demo_state [], None)
   \<and> experiment_dunder_exit demo_env
        \<lparr>w_delete = False, w_write = True, w_extra_filepath = None, w_is_exit = False,
         w_Experiment = demo_loaded\<rparr>
        (Some ValueError) (demo_state [str ''/sav/b.sav'']) = (demo_state [], None)
   \<and> experiment_dunder_exit demo_env
        \<lparr>w_delete = False, w_write = True, w_extra_filepath = None, w_is_exit = False,
         w_Experiment = demo_loaded\<rparr>
        None (demo_state [str ''/sav/b.sav''])
     = ((demo_state [])\<lparr>files := demo_files(str ''/sav/b.sav'' \<mapsto> written demo_env demo_loaded)\<rparr>,
        None)
   \<and> experiment_dunder_exit demo_env
        \<lparr>w_delete = True, w_write = True, w_extra_filepath = None, w_is_exit = False,
         w_Experiment = demo_loaded\<rparr>
        None (demo_state [str ''/sav/b.sav''])
     = ((demo_state [])\<lparr>files := demo_files(str ''/sav/b.sav'' := None)\<rparr>, None)"
proof -
  let ?s = "demo_state [str ''/sav/b.sav'']"
  let ?bad = "demo_env\<lparr>save_raises := (\<lambda>self extra s. Some OtherError)\<rparr>"
  let ?w = "\<lparr>w_delete = False, w_write = True, w_extra_filepath = None, w_is_exit = False,
               w_Experiment = demo_loaded\<rparr>"
  let ?d = "\<lparr>w_delete = True, w_write = True, w_extra_filepath = None, w_is_exit = False,
               w_Experiment = demo_loaded\<rparr>"
  have n: "\<not> ExperimentStack_inside (stack (demo_state [])) (SAV_PATH demo_loaded)"
    by (simp add: ExperimentStack_inside_def demo_state_def)
  have f: "files ?s = demo_files" by (simp add: demo_state_def)
  have st: "r = (demo_state []\<lparr>files := fs\<rparr>, None)"
    if "stack (fst r) = []" "files (fst r) = fs" "snd r = None" "sav_dir (fst r) = sav_dir ?s"
    for r :: "state \<times> error option" and fs
    using that by (cases r) (simp add: demo_state_def)
  have dir: "sav_dir (fst (Experiment_dunder_exit e self x s)) = sav_dir s"
    "sav_dir (fst (experiment_dunder_exit e w x s)) = sav_dir s" for e self x s w
    by (simp_all add: Experiment_dunder_exit_def experiment_dunder_exit_def and_then_def
          Experiment_save_def Experiment_exit_def Let_def split: option.split)
  note th = scope_exit_saves_and_exits [where s = ?s and self = demo_loaded]
  have a1: "ExperimentStack_inside (stack ?s) (SAV_PATH demo_loaded) \<and>
            save_raises demo_env demo_loaded None ?s = None"
    by (simp add: demo_on_stack(3) demo_save_raises)
  from th [where e = demo_env, THEN conjunct1, THEN mp, OF a1]
  have "stack (fst (Experiment_dunder_exit demo_env demo_loaded None ?s)) = []"
    "files (fst (Experiment_dunder_exit demo_env demo_loaded None ?s))
       = demo_files(str ''/sav/b.sav'' \<mapsto> written demo_env demo_loaded)"
    "snd (Experiment_dunder_exit demo_env demo_loaded None ?s) = None"
    by (simp_all add: f demo_on_stack(1,2))
  then have 1: "Experiment_dunder_exit demo_env demo_loaded None ?s
     = ((demo_state [])\<lparr>files := demo_files(str ''/sav/b.sav'' \<mapsto> written demo_env demo_loaded)\<rparr>,
        None)"
    by (intro st) (simp_all add: dir)
  have a2: "ExperimentStack_inside (stack ?s) (SAV_PATH demo_loaded) \<and>
            save_raises ?bad demo_loaded None ?s = Some OtherError"
    by (simp add: demo_on_stack(3) demo_save_raises)
  from th [where e = ?bad and err = OtherError, THEN conjunct2, THEN conjunct1, THEN mp, OF a2]
  have 2: "Experiment_dunder_exit ?bad demo_loaded None ?s = (?s, Some OtherError)" .
  from scope_exit_saves_and_exits [where s = "demo_state []" and self = demo_loaded
      and e = demo_env, THEN conjunct2, THEN conjunct2, THEN conjunct1, THEN mp, OF n]
  have 3: "Experiment_dunder_exit demo_env demo_loaded None (demo_state []) = (demo_state [], None)" .
  have w: "SAV_PATH (w_Experiment ?w) = SAV_PATH demo_loaded"
    "SAV_PATH (w_Experiment ?d) = SAV_PATH demo_loaded"
    "w_extra_filepath ?w = None" "w_Experiment ?w = demo_loaded"
    by simp_all
  have a4: "ExperimentStack_inside (stack ?s) (SAV_PATH (w_Experiment ?w)) \<and>
            (Some ValueError \<noteq> None \<or> w_is_exit ?w)"
    by (simp add: demo_on_stack(3))
  from th [where e = demo_env and w = ?w and exc_type = "Some ValueError",
      THEN conjunct2, THEN conjunct2, THEN conjunct2, THEN conjunct1, THEN mp, OF a4]
  have 4: "experiment_dunder_exit demo_env ?w (Some ValueError) ?s = (demo_state [], None)"
    unfolding w by (simp add: demo_on_stack(1,2)) (simp add: demo_state_def)
  have a5: "ExperimentStack_inside (stack ?s) (SAV_PATH (w_Experiment ?w)) \<and>
       None = (None :: error option) \<and> \<not> w_is_exit ?w \<and> w_write ?w \<and> \<not> w_delete ?w \<and>
       save_raises demo_env (w_Experiment ?w) (w_extra_filepath ?w) ?s = None"
    by (simp add: demo_on_stack(3) demo_save_raises)
  note c5 = th [where e = demo_env and w = ?w and exc_type = None,
      THEN conjunct2, THEN conjunct2, THEN conjunct2, THEN conjunct2, THEN conjunct1,
      THEN mp, OF a5]
  from c5 [THEN conjunct1]
    c5 [THEN conjunct2, THEN conjunct2, THEN conjunct1, THEN mp, OF w(3)]
    c5 [THEN conjunct2, THEN conjunct2, THEN conjunct2]
  have "stack (fst (experiment_dunder_exit demo_env ?w None ?s)) = []"
    "files (fst (experiment_dunder_exit demo_env ?w None ?s))
       = demo_files(str ''/sav/b.sav'' \<mapsto> written demo_env demo_loaded)"
    "snd (experiment_dunder_exit demo_env ?w None ?s) = None"
    unfolding w by (simp_all add: f demo_on_stack(1,2))
  then have 5: "experiment_dunder_exit demo_env ?w None ?s
     = ((demo_state [])\<lparr>files := demo_files(str ''/sav/b.sav'' \<mapsto> written demo_env demo_loaded)\<rparr>,
        None)"
    by (intro st) (simp_all add: dir)
  have dl: "snd (experiment_dunder_exit demo_env ?d None ?s) = None"
    by (simp add: experiment_dunder_exit_def and_then_simps Experiment_exit_def Let_def
          demo_env_def)
  have a6: "ExperimentStack_inside (stack ?s) (SAV_PATH (w_Experiment ?d)) \<and>
       None = (None :: error option) \<and> \<not> w_is_exit ?d \<and> w_delete ?d"
    by (simp add: demo_on_stack(3))
  from th [where e = demo_env and w = ?d and exc_type = None,
      THEN conjunct2, THEN conjunct2, THEN conjunct2, THEN conjunct2, THEN conjunct2,
      THEN conjunct2, THEN conjunct2, THEN mp, OF a6, THEN conjunct2, THEN mp, OF dl]
  have "stack (fst (experiment_dunder_exit demo_env ?d None ?s)) = []"
    "files (fst (experiment_dunder_exit demo_env ?d None ?s))
       = demo_files(str ''/sav/b.sav'' := None)"
    unfolding w by (simp_all add: f demo_on_stack(1,2))
  with dl have 6: "experiment_dunder_exit demo_env ?d None ?s
     = ((demo_state [])\<lparr>files := demo_files(str ''/sav/b.sav'' := None)\<rparr>, None)"
    by (intro st) (simp_all add: dir)
  from 1 2 3 4 5 6 show ?thesis by simp
qed

end
